theory Spec2Isabelle
  imports Main
begin

section \<open>JavaScript strings and buffers\<close>

text \<open>
  A JavaScript string is modelled as a HOL \<open>string\<close> whose characters are the code units
  U+0000 to U+00FF. A \<open>Buffer\<close> is a list of bytes; a byte is a \<open>char\<close> (HOL characters
  are exactly the 8-bit values), and \<open>buf.length\<close> is the length of the list.
\<close>

type_synonym buffer = "char list"

text \<open>
  \<open>String.prototype.trim\<close> removes white space and line terminators from both ends. Among
  the code units below U+0100 these are TAB, LF, VT, FF, CR, SPACE and NO-BREAK SPACE.
\<close>

definition is_whitespace :: "char \<Rightarrow> bool" where
  "is_whitespace c \<longleftrightarrow>
     c = CHR 0x09 \<or> c = CHR 0x0A \<or> c = CHR 0x0B \<or> c = CHR 0x0C \<or> c = CHR 0x0D \<or>
     c = CHR 0x20 \<or> c = CHR 0xA0"

definition trim :: "string \<Rightarrow> string" where
  "trim s = rev (dropWhile is_whitespace (rev (dropWhile is_whitespace s)))"

text \<open>
  \<open>Buffer.from(s, 'utf-8')\<close>: a code unit below U+0080 is one byte, a code unit from U+0080
  to U+00FF is the two bytes \<open>110000xx 10xxxxxx\<close>.
\<close>

definition utf8_char :: "char \<Rightarrow> buffer" where
  "utf8_char c =
     (let n = (of_char c :: nat) in
      if n < 128 then [c] else [char_of (192 + n div 64), char_of (128 + n mod 64)])"

definition utf8 :: "string \<Rightarrow> buffer" where
  "utf8 s = concat (map utf8_char s)"

text \<open>
  \<open>Buffer.from(s, 'hex')\<close> decodes pairs of hexadecimal digits and stops at the first pair
  that is not one; a trailing single digit is dropped.
\<close>

definition hex_digit :: "char \<Rightarrow> nat option" where
  "hex_digit c =
     (let n = (of_char c :: nat) in
      if 48 \<le> n \<and> n \<le> 57 then Some (n - 48)
      else if 97 \<le> n \<and> n \<le> 102 then Some (n - 87)
      else if 65 \<le> n \<and> n \<le> 70 then Some (n - 55)
      else None)"

fun from_hex :: "string \<Rightarrow> buffer" where
  "from_hex (a # b # rest) =
     (case (hex_digit a, hex_digit b) of
        (Some x, Some y) \<Rightarrow> char_of (16 * x + y) # from_hex rest
      | _ \<Rightarrow> [])"
| "from_hex _ = []"

text \<open>
  JavaScript truthiness of a value that is \<open>undefined\<close>, \<open>null\<close> or a string: only a
  non-empty string is truthy.
\<close>

definition truthy :: "string option \<Rightarrow> bool" where
  "truthy v = (case v of None \<Rightarrow> False | Some s \<Rightarrow> s \<noteq> [])"

section \<open>JavaScript values\<close>

text \<open>
  The values that reach the code from outside as JSON: the optional \<open>materials\<close> of a
  request body and what \<open>JSON.parse\<close> makes of the solver's output. A number is given by
  the text \<open>String(n)\<close> prints for it, so that \<open>0\<close> and \<open>-0\<close> are both \<open>''0''\<close>; an
  object by its own properties. \<open>JUndefined\<close> is what reading a missing property gives.
\<close>

datatype jsval =
  JUndefined
| JNull
| JBool bool
| JNum string
| JStr string
| JArr "jsval list"
| JObj "(string \<times> jsval) list"

datatype js_error = TypeError | CastError | InvalidCharError

definition nullish :: "jsval \<Rightarrow> bool" where
  "nullish v \<longleftrightarrow> v = JUndefined \<or> v = JNull"

fun truthy_val :: "jsval \<Rightarrow> bool" where
  "truthy_val JUndefined = False"
| "truthy_val JNull = False"
| "truthy_val (JBool b) = b"
| "truthy_val (JNum t) = (t \<noteq> ''0'')"
| "truthy_val (JStr s) = (s \<noteq> [])"
| "truthy_val (JArr l) = True"
| "truthy_val (JObj kvs) = True"

text \<open>
  \<open>v.name\<close> for a value that is not \<open>null\<close> or \<open>undefined\<close> and a name that no built-in
  prototype defines (\<open>driveFile\<close>, \<open>id\<close>, \<open>title\<close>, \<open>alternateLink\<close>, \<open>solutionText\<close>,
  \<open>pdfBytes\<close>): an object's own property, and \<open>undefined\<close> on everything else.
  \<open>v?.name\<close> is \<open>undefined\<close> on \<open>null\<close> and \<open>undefined\<close> too.
\<close>

fun get_prop :: "jsval \<Rightarrow> string \<Rightarrow> jsval" where
  "get_prop (JObj kvs) name = (case map_of kvs name of None \<Rightarrow> JUndefined | Some v \<Rightarrow> v)"
| "get_prop _ name = JUndefined"

definition opt_prop :: "jsval \<Rightarrow> string \<Rightarrow> jsval" where
  "opt_prop v name = (if nullish v then JUndefined else get_prop v name)"

definition js_or_val :: "jsval \<Rightarrow> jsval \<Rightarrow> jsval" where
  "js_or_val a b = (if truthy_val a then a else b)"

section \<open>createSimplePdf\<close>

text \<open>
  The fallback "PDF" is the UTF-8 encoding of a text template around the solution text.
  The first argument is the value of \<open>new Date().toISOString()\<close>; the second is the
  argument \<open>text\<close>, which the callers take from the parsed output and which need not be a
  string. \<open>createSimplePdf_try\<close> is the body of the \<open>try\<close> block: on a truthy value that
  is not a string \<open>text.trim\<close> is not a function and the call throws.
  \<open>createSimplePdf\<close> is the whole function, whose \<open>catch\<close> block returns the empty
  buffer; its result is \<open>Inr\<close> when it returns and \<open>Inl\<close> when it throws.
\<close>

definition newline :: string where
  "newline = [CHR 0x0A]"

definition pdf_header :: string where
  "pdf_header = newline @ ''PDF Content:'' @ newline @ ''Assignment Solution'' @ newline @ newline"

definition pdf_footer :: "string \<Rightarrow> string" where
  "pdf_footer stamp =
     newline @ newline @ ''Generated by Assignment Solver'' @ newline @ ''Date: '' @ stamp @ newline"

definition createSimplePdf_try :: "string \<Rightarrow> jsval \<Rightarrow> js_error + buffer" where
  "createSimplePdf_try stamp txt =
     (if \<not> truthy_val txt then Inr []
      else case txt of
             JStr s \<Rightarrow>
               if length (trim s) = 0 then Inr []
               else Inr (utf8 (pdf_header @ s @ pdf_footer stamp))
           | _ \<Rightarrow> Inl TypeError)"

definition createSimplePdf :: "string \<Rightarrow> jsval \<Rightarrow> js_error + buffer" where
  "createSimplePdf stamp txt =
     (case createSimplePdf_try stamp txt of
        Inr b \<Rightarrow> Inr b
      | Inl e \<Rightarrow> Inr [])"

section \<open>The Solution model\<close>

text \<open>
  The Mongoose schema \<open>solutionSchema\<close>. An ObjectId is a natural number; \<open>oid\<close> is the
  document's \<open>_id\<close>. \<open>status\<close> is a string, as in the schema, whose \<open>enum\<close> validator
  lists the three values of \<open>status_enum\<close>. Dates and durations are integers
  (milliseconds). \<open>createdAt\<close> and \<open>updatedAt\<close> are the fields of \<open>timestamps: true\<close>.
\<close>

record material_info =
  fileId :: "string option"
  fileName :: "string option"
  fileUrl :: "string option"

record solution =
  oid :: nat
  userId :: nat
  assignmentId :: string
  assignmentTitle :: string
  courseId :: string
  courseName :: string
  solutionText :: "string option"
  solutionPdf :: "buffer option"
  solvedAt :: int
  status :: string
  processingTime :: int
  materials :: "material_info list"
  createdAt :: int
  updatedAt :: int

definition status_enum :: "string set" where
  "status_enum = {''processing'', ''completed'', ''failed''}"

text \<open>
  The collection is the list of its documents in insertion order. The queries the code
  uses: \<open>findById\<close>, \<open>findOne({_id, userId})\<close>, the static \<open>isAssignmentSolved\<close>
  (\<open>findOne({userId, assignmentId, status: 'completed'})\<close>) and the static
  \<open>findUserSolutions\<close>. The driver is taken to answer every query: a lost connection,
  which makes it throw, is outside the model.
\<close>

definition findById :: "solution list \<Rightarrow> nat \<Rightarrow> solution option" where
  "findById ds i = find (\<lambda>d. oid d = i) ds"

definition findOne_id_user :: "solution list \<Rightarrow> nat \<Rightarrow> nat \<Rightarrow> solution option" where
  "findOne_id_user ds i u = find (\<lambda>d. oid d = i \<and> userId d = u) ds"

definition isAssignmentSolved :: "solution list \<Rightarrow> nat \<Rightarrow> string \<Rightarrow> solution option" where
  "isAssignmentSolved ds u a =
     find (\<lambda>d. userId d = u \<and> assignmentId d = a \<and> status d = ''completed'') ds"

text \<open>
  \<open>.sort({ solvedAt: -1 })\<close> is a stable sort on the negated date. \<open>.limit(n)\<close> follows
  MongoDB: a limit of 0 is no limit, and a negative limit counts as its absolute value.
  \<open>.select('-solutionPdf')\<close> leaves the PDF out of every document returned.
\<close>

definition sort_solvedAt_desc :: "solution list \<Rightarrow> solution list" where
  "sort_solvedAt_desc ds = sort_key (\<lambda>d. - solvedAt d) ds"

definition limit_docs :: "int \<Rightarrow> solution list \<Rightarrow> solution list" where
  "limit_docs n ds = (if n = 0 then ds else take (nat \<bar>n\<bar>) ds)"

definition select_without_pdf :: "solution \<Rightarrow> solution" where
  "select_without_pdf d = d\<lparr>solutionPdf := None\<rparr>"

definition findUserSolutions :: "solution list \<Rightarrow> nat \<Rightarrow> int \<Rightarrow> solution list" where
  "findUserSolutions ds u lim =
     map select_without_pdf (limit_docs lim (sort_solvedAt_desc (filter (\<lambda>d. userId d = u) ds)))"

text \<open>\<open>doc.save()\<close> of a new document appends it; of a loaded document it replaces the
  stored one with the same \<open>_id\<close> and stamps \<open>updatedAt\<close>.\<close>

definition save_new :: "solution list \<Rightarrow> solution \<Rightarrow> solution list" where
  "save_new ds d = ds @ [d]"

definition save :: "solution list \<Rightarrow> solution \<Rightarrow> int \<Rightarrow> solution list" where
  "save ds d now = map (\<lambda>e. if oid e = oid d then d\<lparr>updatedAt := now\<rparr> else e) ds"

record summary =
  sum_id :: nat
  sum_assignmentTitle :: string
  sum_courseName :: string
  sum_solvedAt :: int
  sum_status :: string
  sum_processingTime :: int

definition getSummary :: "solution \<Rightarrow> summary" where
  "getSummary d =
     \<lparr>sum_id = oid d, sum_assignmentTitle = assignmentTitle d, sum_courseName = courseName d,
      sum_solvedAt = solvedAt d, sum_status = status d, sum_processingTime = processingTime d\<rparr>"

section \<open>Requests, users and the runtime\<close>

text \<open>
  The authenticated user (\<open>req.user\<close>) and the body of \<open>POST /solve\<close>. The four required
  fields are strings, as the schema has them; a field that is absent is \<open>None\<close>. A body
  that holds another kind of value in one of them is outside the model. The optional
  \<open>materials\<close> is any JSON value, \<open>JUndefined\<close> when absent.
\<close>

record google_tokens =
  accessToken :: "string option"

record user =
  uid :: nat
  googleTokens :: "google_tokens option"

record solve_body =
  req_assignmentId :: "string option"
  req_assignmentTitle :: "string option"
  req_courseId :: "string option"
  req_courseName :: "string option"
  req_materials :: jsval

text \<open>
  What the code takes from its platform and libraries, as parameters of the model:
  \<^item> \<open>JSON_parse\<close>: \<open>JSON.parse\<close>, \<open>None\<close> when it throws;
  \<^item> \<open>toISOString\<close>: the text of a clock value;
  \<^item> \<open>GEMINI_API_KEY\<close>: the environment variable;
  \<^item> \<open>castObjectId\<close>: mongoose's cast of the \<open>:solutionId\<close> of a URL to an ObjectId,
    \<open>None\<close> when the text is not an ObjectId and the query throws a CastError;
  \<^item> \<open>castString_object\<close>: mongoose's cast of an array or object to a String field,
    \<open>None\<close> when the cast fails;
  \<^item> \<open>Buffer_from_object\<close>: \<open>Buffer.from(v, 'hex')\<close> on an array or object, \<open>None\<close>
    when it throws;
  \<^item> \<open>find_limit_beyond\<close>: what the driver returns, of the documents found and sorted,
    for a \<open>limit\<close> whose magnitude is beyond \<open>2^53\<close>, \<open>None\<close> when it rejects the query.
\<close>

record runtime =
  JSON_parse :: "string \<Rightarrow> jsval option"
  toISOString :: "int \<Rightarrow> string"
  GEMINI_API_KEY :: "string option"
  castObjectId :: "string \<Rightarrow> nat option"
  castString_object :: "jsval \<Rightarrow> string option"
  Buffer_from_object :: "jsval \<Rightarrow> buffer option"
  find_limit_beyond :: "int \<Rightarrow> solution list \<Rightarrow> solution list option"

text \<open>
  Assigning a value to a String field: \<open>null\<close> and \<open>undefined\<close> stay as they are
  (\<open>None\<close>), a string is kept, a number or boolean is stored as its text, and an array or
  object is cast by \<open>castString_object\<close>. A failed cast makes \<open>save()\<close> reject.
\<close>

definition castString :: "runtime \<Rightarrow> jsval \<Rightarrow> js_error + string option" where
  "castString rt v =
     (case v of
        JUndefined \<Rightarrow> Inr None
      | JNull \<Rightarrow> Inr None
      | JStr s \<Rightarrow> Inr (Some s)
      | JNum t \<Rightarrow> Inr (Some t)
      | JBool b \<Rightarrow> Inr (Some (if b then ''true'' else ''false''))
      | _ \<Rightarrow> (case castString_object rt v of None \<Rightarrow> Inl CastError | Some s \<Rightarrow> Inr (Some s)))"

text \<open>
  \<open>Buffer.from(v, 'hex')\<close> for a truthy \<open>v\<close>: a string is decoded, a number or boolean
  throws a TypeError, an array or object goes to \<open>Buffer_from_object\<close>.
\<close>

definition Buffer_from_hex :: "runtime \<Rightarrow> jsval \<Rightarrow> js_error + buffer" where
  "Buffer_from_hex rt v =
     (case v of
        JStr s \<Rightarrow> Inr (from_hex s)
      | JArr l \<Rightarrow> (case Buffer_from_object rt v of None \<Rightarrow> Inl TypeError | Some b \<Rightarrow> Inr b)
      | JObj kvs \<Rightarrow> (case Buffer_from_object rt v of None \<Rightarrow> Inl TypeError | Some b \<Rightarrow> Inr b)
      | _ \<Rightarrow> Inl TypeError)"

section \<open>The solver task\<close>

text \<open>
  \<open>solveAssignmentAsync\<close> runs synchronously up to its first \<open>await\<close>. With the API key
  set it has spawned the solver and registered the three listeners: the task is
  \<open>Child\<close>, holding the solution id, \<open>startTime\<close> and the two accumulators
  \<open>solutionText\<close> and \<open>errorOutput\<close>. Without the key it has thrown and is suspended in
  its \<open>catch\<close> block at \<open>await Solution.findById\<close>: the task is \<open>Caught\<close> with the
  error's message. \<open>spawn\<close> is taken to start the solver: an executable that is not
  there, or an argument that \<open>spawn\<close> refuses, is outside the model.
\<close>

datatype task =
  Child nat int string string
| Caught nat int string

fun task_solution :: "task \<Rightarrow> nat" where
  "task_solution (Child i _ _ _) = i"
| "task_solution (Caught i _ _) = i"

definition solveAssignmentAsync :: "runtime \<Rightarrow> nat \<Rightarrow> int \<Rightarrow> task" where
  "solveAssignmentAsync rt solutionId startTime =
     (if \<not> truthy (GEMINI_API_KEY rt)
      then Caught solutionId startTime ''GEMINI_API_KEY not found in environment variables''
      else Child solutionId startTime [] [])"

text \<open>The \<open>data\<close> listeners of \<open>stdout\<close> and \<open>stderr\<close> append the chunk.\<close>

fun on_stdout :: "task \<Rightarrow> string \<Rightarrow> task" where
  "on_stdout (Child i t0 out err) chunk = Child i t0 (out @ chunk) err"
| "on_stdout t _ = t"

fun on_stderr :: "task \<Rightarrow> string \<Rightarrow> task" where
  "on_stderr (Child i t0 out err) chunk = Child i t0 out (err @ chunk)"
| "on_stderr t _ = t"

text \<open>
  The \<open>close\<close> listener. \<open>code\<close> is the exit code, \<open>None\<close> when the process was ended by a
  signal. \<open>parsedResult\<close> is the parsed output, or \<open>{ solutionText: solutionText.trim() }\<close>
  when the output is not JSON. \<open>completed_try\<close> is the success branch up to
  \<open>solution.save()\<close>: it gives the document to save, or the error thrown on the way:
  reading \<open>parsedResult.pdfBytes\<close> throws when the parsed output is \<open>null\<close>, and \<open>save()\<close>
  rejects when the text cannot be cast to a String. The outer \<open>catch\<close> logs such an error
  and nothing is saved.
\<close>

definition parsedResult :: "runtime \<Rightarrow> string \<Rightarrow> jsval" where
  "parsedResult rt solutionText_acc =
     (case JSON_parse rt solutionText_acc of
        Some v \<Rightarrow> v
      | None \<Rightarrow> JObj [(''solutionText'', JStr (trim solutionText_acc))])"

definition completed_try :: "runtime \<Rightarrow> solution \<Rightarrow> string \<Rightarrow> int \<Rightarrow> int \<Rightarrow> js_error + solution" where
  "completed_try rt sol solutionText_acc processing now =
     (let parsed = parsedResult rt solutionText_acc in
      if nullish parsed then Inl TypeError
      else
        let txt = js_or_val (get_prop parsed ''solutionText'') (JStr solutionText_acc);
            fallback = createSimplePdf (toISOString rt now) txt;
            made = (if truthy_val (get_prop parsed ''pdfBytes'') then
                      (case Buffer_from_hex rt (get_prop parsed ''pdfBytes'') of
                         Inr b \<Rightarrow> Inr b
                       | Inl e \<Rightarrow> fallback)
                    else fallback)
        in case made of
             Inl e \<Rightarrow> Inl e
           | Inr pdfBuffer \<Rightarrow>
               (case castString rt txt of
                  Inl e \<Rightarrow> Inl e
                | Inr stored \<Rightarrow>
                    Inr (sol\<lparr>solutionText := stored,
                             solutionPdf := (if pdfBuffer \<noteq> [] then Some pdfBuffer else solutionPdf sol),
                             status := ''completed'',
                             processingTime := processing\<rparr>)))"

definition failed_update :: "solution \<Rightarrow> string \<Rightarrow> int \<Rightarrow> solution" where
  "failed_update sol errorOutput processing =
     sol\<lparr>status := ''failed'',
          solutionText := Some (''Solving failed: '' @ (if errorOutput \<noteq> [] then errorOutput else ''Unknown error'')),
          processingTime := processing\<rparr>"

definition on_close :: "runtime \<Rightarrow> solution list \<Rightarrow> nat \<Rightarrow> int \<Rightarrow> string \<Rightarrow> string \<Rightarrow> int option
    \<Rightarrow> int \<Rightarrow> solution list" where
  "on_close rt ds solutionId startTime solutionText_acc errorOutput code now =
     (let processing = now - startTime in
      case findById ds solutionId of
        None \<Rightarrow> ds
      | Some sol \<Rightarrow>
          if code = Some 0 \<and> trim solutionText_acc \<noteq> [] then
            (case completed_try rt sol solutionText_acc processing now of
               Inl e \<Rightarrow> ds
             | Inr d \<Rightarrow> save ds d now)
          else save ds (failed_update sol errorOutput processing) now)"

text \<open>The rest of the \<open>catch\<close> block of \<open>solveAssignmentAsync\<close>, after \<open>findById\<close>.\<close>

definition on_caught :: "solution list \<Rightarrow> nat \<Rightarrow> int \<Rightarrow> string \<Rightarrow> int \<Rightarrow> solution list" where
  "on_caught ds solutionId startTime msg now =
     (case findById ds solutionId of
        None \<Rightarrow> ds
      | Some sol \<Rightarrow>
          save ds (sol\<lparr>status := ''failed'',
                       solutionText := Some (''Solving failed: '' @ msg),
                       processingTime := now - startTime\<rparr>) now)"

section \<open>The routes\<close>

text \<open>
  A response is either the success payload (HTTP 200) or an HTTP error status with the
  \<open>error\<close> string of its JSON body. Every handler runs in a \<open>try\<close> block whose \<open>catch\<close>
  answers 500; what throws inside the handlers is a materials value that cannot be mapped, a
  value that cannot be cast to its schema type, an id that is not an ObjectId, and a header
  value with a character that is not allowed. A driver that has lost its connection is
  outside the model: the collection answers every well-formed query.
\<close>

datatype 'a response = Success 'a | Failure nat string

record solve_json =
  r_success :: bool
  r_message :: string
  r_solutionId :: nat
  r_alreadySolved :: "bool option"
  r_status :: "string option"

text \<open>
  \<open>materials?.map(m => ({ fileId: m.driveFile?.driveFile?.id, ... })) || []\<close>, followed by
  the cast of the result to the schema's \<open>materials\<close>. \<open>m.driveFile\<close> throws on an entry
  that is \<open>null\<close>; \<open>materials?.map\<close> is \<open>undefined\<close> on \<open>null\<close> and on an absent
  \<open>materials\<close>, and is not a function on any other value that is not an array.
\<close>

definition map_material :: "runtime \<Rightarrow> jsval \<Rightarrow> js_error + material_info" where
  "map_material rt m =
     (if nullish m then Inl TypeError
      else
        let file = opt_prop (get_prop m ''driveFile'') ''driveFile'' in
        case (castString rt (opt_prop file ''id''), castString rt (opt_prop file ''title''),
              castString rt (opt_prop file ''alternateLink'')) of
          (Inr i, Inr t, Inr l) \<Rightarrow> Inr \<lparr>fileId = i, fileName = t, fileUrl = l\<rparr>
        | _ \<Rightarrow> Inl CastError)"

fun collect :: "(js_error + 'a) list \<Rightarrow> js_error + 'a list" where
  "collect [] = Inr []"
| "collect (Inl e # rs) = Inl e"
| "collect (Inr x # rs) = (case collect rs of Inl e \<Rightarrow> Inl e | Inr xs \<Rightarrow> Inr (x # xs))"

definition map_materials :: "runtime \<Rightarrow> jsval \<Rightarrow> js_error + material_info list" where
  "map_materials rt ms =
     (case ms of
        JUndefined \<Rightarrow> Inr []
      | JNull \<Rightarrow> Inr []
      | JArr l \<Rightarrow> collect (map (map_material rt) l)
      | _ \<Rightarrow> Inl TypeError)"

record system =
  docs :: "solution list"
  next_oid :: nat
  tasks :: "task list"

definition has_access_token :: "user \<Rightarrow> bool" where
  "has_access_token u = (case googleTokens u of None \<Rightarrow> False | Some g \<Rightarrow> truthy (accessToken g))"

text \<open>
  \<open>POST /solve\<close>. \<open>now\<close> is the clock when the document is created (the default of
  \<open>solvedAt\<close>), \<open>startTime\<close> the clock when \<open>solveAssignmentAsync\<close> starts. The new
  document takes the next unused ObjectId. The handler returns its response together
  with the system it leaves: the collection, and the solver tasks that are under way.
\<close>

definition new_solution :: "nat \<Rightarrow> user \<Rightarrow> string \<Rightarrow> string \<Rightarrow> string \<Rightarrow> string
    \<Rightarrow> material_info list \<Rightarrow> int \<Rightarrow> solution" where
  "new_solution i u aid title cid cname ms now =
     \<lparr>oid = i, userId = uid u, assignmentId = aid, assignmentTitle = title, courseId = cid,
      courseName = cname, solutionText = None, solutionPdf = None, solvedAt = now,
      status = ''processing'', processingTime = 0, materials = ms,
      createdAt = now, updatedAt = now\<rparr>"

definition post_solve :: "runtime \<Rightarrow> system \<Rightarrow> user \<Rightarrow> solve_body \<Rightarrow> int \<Rightarrow> int
    \<Rightarrow> solve_json response \<times> system" where
  "post_solve rt st u body now startTime =
     (case (req_assignmentId body, req_assignmentTitle body, req_courseId body, req_courseName body) of
        (Some aid, Some title, Some cid, Some cname) \<Rightarrow>
          if aid = [] \<or> title = [] \<or> cid = [] \<or> cname = [] then
            (Failure 400 ''Missing required fields: assignmentId, assignmentTitle, courseId, courseName'', st)
          else
            (case isAssignmentSolved (docs st) (uid u) aid of
               Some existingSolution \<Rightarrow>
                 (Success \<lparr>r_success = True, r_message = ''Assignment already solved'',
                            r_solutionId = oid existingSolution, r_alreadySolved = Some True,
                            r_status = None\<rparr>, st)
             | None \<Rightarrow>
                 if \<not> has_access_token u then
                   (Failure 401 ''Google authentication required to solve assignments'', st)
                 else
                   (case map_materials rt (req_materials body) of
                      Inl e \<Rightarrow> (Failure 500 ''Failed to start assignment solving'', st)
                    | Inr ms \<Rightarrow>
                        (let sol = new_solution (next_oid st) u aid title cid cname ms now;
                             t = solveAssignmentAsync rt (oid sol) startTime
                         in (Success \<lparr>r_success = True, r_message = ''Assignment solving started'',
                                       r_solutionId = oid sol, r_alreadySolved = None,
                                       r_status = Some ''processing''\<rparr>,
                             \<lparr>docs = save_new (docs st) sol, next_oid = Suc (next_oid st),
                              tasks = tasks st @ [t]\<rparr>))))
      | _ \<Rightarrow>
          (Failure 400 ''Missing required fields: assignmentId, assignmentTitle, courseId, courseName'', st))"

text \<open>
  \<open>GET /solution/:solutionId\<close>. The id of the URL is a text; the query casts it to an
  ObjectId and throws when it is not one.
\<close>

record solution_json =
  sj_id :: nat
  sj_assignmentTitle :: string
  sj_courseName :: string
  sj_status :: string
  sj_solutionText :: "string option"
  sj_solvedAt :: int
  sj_processingTime :: int

definition solution_fields :: "solution \<Rightarrow> solution_json" where
  "solution_fields d =
     \<lparr>sj_id = oid d, sj_assignmentTitle = assignmentTitle d, sj_courseName = courseName d,
      sj_status = status d, sj_solutionText = solutionText d, sj_solvedAt = solvedAt d,
      sj_processingTime = processingTime d\<rparr>"

definition get_solution :: "runtime \<Rightarrow> solution list \<Rightarrow> user \<Rightarrow> string \<Rightarrow> solution_json response" where
  "get_solution rt ds u solutionId =
     (case castObjectId rt solutionId of
        None \<Rightarrow> Failure 500 ''Failed to fetch solution''
      | Some i \<Rightarrow>
          (case findOne_id_user ds i (uid u) of
             None \<Rightarrow> Failure 404 ''Solution not found''
           | Some d \<Rightarrow> Success (solution_fields d)))"

text \<open>
  \<open>GET /solution/:solutionId/pdf\<close>. \<open>res.setHeader\<close> throws on a value that holds a
  character other than TAB, U+0020 to U+007E and U+0080 to U+00FF; of the
  \<open>Content-Disposition\<close> value only the title can hold one.
\<close>

definition valid_header_char :: "char \<Rightarrow> bool" where
  "valid_header_char c \<longleftrightarrow>
     (let n = (of_char c :: nat) in n = 9 \<or> (32 \<le> n \<and> n \<le> 126) \<or> 128 \<le> n)"

record pdf_download =
  content_type :: string
  content_disposition :: string
  body_bytes :: buffer

definition get_solution_pdf :: "runtime \<Rightarrow> solution list \<Rightarrow> user \<Rightarrow> string \<Rightarrow> pdf_download response" where
  "get_solution_pdf rt ds u solutionId =
     (case castObjectId rt solutionId of
        None \<Rightarrow> Failure 500 ''Failed to download solution PDF''
      | Some i \<Rightarrow>
          (case findOne_id_user ds i (uid u) of
             None \<Rightarrow> Failure 404 ''Solution not found''
           | Some d \<Rightarrow>
               (case solutionPdf d of
                  None \<Rightarrow> Failure 400 ''Solution PDF not available''
                | Some pdf \<Rightarrow>
                    if status d \<noteq> ''completed'' \<or> length pdf = 0 then
                      Failure 400 ''Solution PDF not available''
                    else if \<not> list_all valid_header_char (assignmentTitle d) then
                      Failure 500 ''Failed to download solution PDF''
                    else
                      Success \<lparr>content_type = ''application/pdf'',
                               content_disposition =
                                 ''attachment; filename='' @ [CHR 0x22] @ assignmentTitle d @
                                 ''_solution.pdf'' @ [CHR 0x22],
                               body_bytes = pdf\<rparr>)))"

text \<open>
  \<open>GET /solutions\<close>. \<open>parseInt\<close> works on the text of its argument (\<open>String(v)\<close>; the
  argument is that text, or \<open>None\<close> for \<open>undefined\<close>). It skips leading white space,
  reads a sign and a \<open>0x\<close> prefix, and then the longest run of digits; it is \<open>NaN\<close> when
  there is no digit or the argument is \<open>undefined\<close>. Its result is a double: an integer of magnitude up to \<open>2^53\<close>
  is exact (\<open>Whole\<close>); beyond that the double is the nearest one or an infinity, which the
  model does not compute (\<open>Beyond\<close>, with the integer the digits denote).
  \<open>parseInt(q) || 10\<close> is 10 for \<open>NaN\<close> and for 0.
\<close>

datatype js_number = NaN | Whole int | Beyond int

definition to_number :: "int \<Rightarrow> js_number" where
  "to_number n = (if \<bar>n\<bar> \<le> 9007199254740992 then Whole n else Beyond n)"

definition digit_value :: "nat \<Rightarrow> char \<Rightarrow> nat option" where
  "digit_value radix c =
     (case hex_digit c of None \<Rightarrow> None | Some d \<Rightarrow> if d < radix then Some d else None)"

definition parseInt :: "string option \<Rightarrow> js_number" where
  "parseInt v =
     (case v of
        None \<Rightarrow> NaN
      | Some s \<Rightarrow>
          (let s1 = dropWhile is_whitespace s;
               negative = (take 1 s1 = ''-'');
               s2 = (if take 1 s1 = ''-'' \<or> take 1 s1 = ''+'' then drop 1 s1 else s1);
               hex = (take 2 s2 = ''0x'' \<or> take 2 s2 = ''0X'');
               radix = (if hex then 16 else 10);
               s3 = (if hex then drop 2 s2 else s2);
               ds = takeWhile (\<lambda>c. digit_value radix c \<noteq> None) s3;
               n = foldl (\<lambda>acc c. case digit_value radix c of None \<Rightarrow> acc | Some d \<Rightarrow> acc * radix + d) 0 ds
           in if ds = [] then NaN else to_number (if negative then - int n else int n)))"

definition query_limit :: "string option \<Rightarrow> js_number" where
  "query_limit q =
     (case parseInt q of
        NaN \<Rightarrow> Whole 10
      | Whole n \<Rightarrow> if n = 0 then Whole 10 else Whole n
      | Beyond n \<Rightarrow> Beyond n)"

definition get_solutions :: "runtime \<Rightarrow> solution list \<Rightarrow> user \<Rightarrow> string option \<Rightarrow> summary list response" where
  "get_solutions rt ds u q =
     (case query_limit q of
        Whole n \<Rightarrow> Success (map getSummary (findUserSolutions ds (uid u) n))
      | Beyond n \<Rightarrow>
          (case find_limit_beyond rt n (sort_solvedAt_desc (filter (\<lambda>d. userId d = uid u) ds)) of
             None \<Rightarrow> Failure 500 ''Failed to fetch solutions''
           | Some found \<Rightarrow> Success (map getSummary (map select_without_pdf found)))
      | NaN \<Rightarrow> Success (map getSummary (findUserSolutions ds (uid u) 10)))"

section \<open>The system as a whole\<close>

text \<open>
  The events that change the system: a \<open>POST /solve\<close> request, a chunk on the standard
  output or standard error of a running solver, the \<open>close\<close> of a solver, and the
  resumption of a suspended \<open>catch\<close> block. A task is named by its position in the list of
  tasks; an event for a position that holds no such task changes nothing. Closing and
  resuming end the task. The three \<open>GET\<close> routes only read the collection.
\<close>

datatype event =
  Post user solve_body int int
| StdoutData nat string
| StderrData nat string
| Close nat "int option" int
| CatchResumes nat int

definition remove_nth :: "nat \<Rightarrow> 'a list \<Rightarrow> 'a list" where
  "remove_nth i xs = take i xs @ drop (Suc i) xs"

fun step :: "runtime \<Rightarrow> system \<Rightarrow> event \<Rightarrow> system" where
  "step rt st (Post u body now startTime) = snd (post_solve rt st u body now startTime)"
| "step rt st (StdoutData i chunk) =
     (if i < length (tasks st) then st\<lparr>tasks := (tasks st)[i := on_stdout (tasks st ! i) chunk]\<rparr>
      else st)"
| "step rt st (StderrData i chunk) =
     (if i < length (tasks st) then st\<lparr>tasks := (tasks st)[i := on_stderr (tasks st ! i) chunk]\<rparr>
      else st)"
| "step rt st (Close i code now) =
     (if i < length (tasks st) then
        (case tasks st ! i of
           Child sid t0 out err \<Rightarrow>
             st\<lparr>docs := on_close rt (docs st) sid t0 out err code now,
                tasks := remove_nth i (tasks st)\<rparr>
         | Caught _ _ _ \<Rightarrow> st)
      else st)"
| "step rt st (CatchResumes i now) =
     (if i < length (tasks st) then
        (case tasks st ! i of
           Caught sid t0 msg \<Rightarrow>
             st\<lparr>docs := on_caught (docs st) sid t0 msg now, tasks := remove_nth i (tasks st)\<rparr>
         | Child _ _ _ _ \<Rightarrow> st)
      else st)"

definition initial :: system where
  "initial = \<lparr>docs = [], next_oid = 0, tasks = []\<rparr>"

definition run :: "runtime \<Rightarrow> event list \<Rightarrow> system" where
  "run rt evs = foldl (step rt) initial evs"

section \<open>The frontend's polling loop\<close>

text \<open>
  \<open>pollSolutionStatus\<close> in \<open>DashboardNew.tsx\<close>. The result of the \<open>k\<close>-th call of
  \<open>assignmentService.getSolution\<close> is \<open>fetches k\<close>: the call throws, or it returns
  \<open>response.success\<close> and \<open>response.solution.status\<close>. The loop is modelled by the list
  of what it does, in order: timers (\<open>setTimeout\<close>, in milliseconds), fetches and messages.
\<close>

datatype fetch_result = FetchThrows | Fetched bool string

datatype ui_message = SolvedMessage | FailedMessage | TakingLongerMessage

datatype action = Wait nat | Fetch | Report ui_message

definition maxAttempts :: nat where
  "maxAttempts = 30"

function poll :: "(nat \<Rightarrow> fetch_result) \<Rightarrow> nat \<Rightarrow> action list" where
  "poll fetches attempts =
     (let attempts' = attempts + 1 in
      Fetch #
      (case fetches attempts' of
         FetchThrows \<Rightarrow>
           if attempts' < maxAttempts then Wait 10000 # poll fetches attempts' else []
       | Fetched ok st \<Rightarrow>
           if ok \<and> st = ''completed'' then [Report SolvedMessage]
           else if ok \<and> st = ''failed'' then [Report FailedMessage]
           else if ok \<and> st = ''processing'' \<and> attempts' < maxAttempts then
             Wait 10000 # poll fetches attempts'
           else if attempts' \<ge> maxAttempts then [Report TakingLongerMessage]
           else []))"
  by pat_completeness auto
termination
  by (relation "measure (\<lambda>(fetches, attempts). maxAttempts - attempts)") (auto simp: maxAttempts_def)

definition pollSolutionStatus :: "(nat \<Rightarrow> fetch_result) \<Rightarrow> action list" where
  "pollSolutionStatus fetches = Wait 5000 # poll fetches 0"


section \<open>Example data\<close>

text \<open>
  Concrete users, documents, requests and a runtime, on which the theorems below are
  instantiated. \<open>ex_parse\<close> stands for \<open>JSON.parse\<close> on the solver outputs used below: it
  gives what \<open>JSON.parse\<close> gives on \<open>null\<close>, on \<open>{}\<close> and on the four outputs with a
  \<open>solutionText\<close>, and throws on the other outputs used, none of which is JSON. An
  empty object cannot be cast to a String. \<open>ex_cast_id\<close> takes the 24
  hexadecimal digits of an ObjectId. A limit between \<open>2^53\<close> and \<open>2^63\<close> reaches the
  server as the nearest double, which is more than the number of documents found: all of
  them are returned. The examples use no array or object as a text or as PDF bytes and no
  other limit beyond \<open>2^53\<close>, so what \<open>ex_runtime\<close> answers there plays no part in them.
\<close>

definition ex_solution :: solution where
  "ex_solution =
     \<lparr>oid = 0, userId = 7, assignmentId = ''a1'', assignmentTitle = ''Essay'', courseId = ''c1'',
      courseName = ''History'', solutionText = Some ''Done'', solutionPdf = Some ''%PDF'',
      solvedAt = 1000, status = ''completed'', processingTime = 250, materials = [],
      createdAt = 1000, updatedAt = 1250\<rparr>"

definition ex_owner :: user where
  "ex_owner = \<lparr>uid = 7, googleTokens = Some \<lparr>accessToken = Some ''ya29''\<rparr>\<rparr>"

definition ex_other :: user where
  "ex_other = \<lparr>uid = 8, googleTokens = Some \<lparr>accessToken = Some ''ya30''\<rparr>\<rparr>"

definition ex_pending :: solution where
  "ex_pending =
     ex_solution\<lparr>oid := 1, status := ''processing'', solutionText := None, solutionPdf := None,
                  processingTime := 0\<rparr>"

definition ex_stamp :: string where
  "ex_stamp = ''2024-05-01T10:00:00.000Z''"

definition ex_numeric_output :: string where
  "ex_numeric_output = ''{'' @ [CHR 0x22] @ ''solutionText'' @ [CHR 0x22] @ '':5}''"

definition ex_object_output :: string where
  "ex_object_output = ''{'' @ [CHR 0x22] @ ''solutionText'' @ [CHR 0x22] @ '':{}}''"

definition ex_string_output :: string where
  "ex_string_output =
     ''{'' @ [CHR 0x22] @ ''solutionText'' @ [CHR 0x22] @ '':'' @ [CHR 0x22] @ ''Done'' @ [CHR 0x22] @ ''}''"

definition ex_true_output :: string where
  "ex_true_output = ''{'' @ [CHR 0x22] @ ''solutionText'' @ [CHR 0x22] @ '':true}''"

definition ex_parse :: "string \<Rightarrow> jsval option" where
  "ex_parse s =
     (if s = ''null'' then Some JNull
      else if s = ''{}'' then Some (JObj [])
      else if s = ex_numeric_output then Some (JObj [(''solutionText'', JNum ''5'')])
      else if s = ex_object_output then Some (JObj [(''solutionText'', JObj [])])
      else if s = ex_string_output then Some (JObj [(''solutionText'', JStr ''Done'')])
      else if s = ex_true_output then Some (JObj [(''solutionText'', JBool True)])
      else None)"

definition ex_cast_id :: "string \<Rightarrow> nat option" where
  "ex_cast_id s =
     (if length s = 24 \<and> list_all (\<lambda>c. hex_digit c \<noteq> None) s
      then Some (foldl (\<lambda>a c. 16 * a + (case hex_digit c of None \<Rightarrow> 0 | Some d \<Rightarrow> d)) 0 s)
      else None)"

definition ex_runtime :: runtime where
  "ex_runtime =
     \<lparr>JSON_parse = ex_parse, toISOString = (\<lambda>t. ex_stamp), GEMINI_API_KEY = Some ''key'',
      castObjectId = ex_cast_id, castString_object = (\<lambda>v. None),
      Buffer_from_object = (\<lambda>v. None),
      find_limit_beyond = (\<lambda>n found. if 0 < n \<and> n < 9223372036854775808 then Some found else None)\<rparr>"

definition ex_id0 :: string where
  "ex_id0 = ''000000000000000000000000''"

definition ex_id1 :: string where
  "ex_id1 = ''000000000000000000000001''"

definition ex_id2 :: string where
  "ex_id2 = ''000000000000000000000002''"

definition ex_two_lines :: solution where
  "ex_two_lines = ex_solution\<lparr>assignmentTitle := ''Essay'' @ newline @ ''Part 2''\<rparr>"

definition ex_older :: solution where
  "ex_older = ex_solution\<lparr>oid := 2, solvedAt := 500\<rparr>"

definition ex_foreign :: solution where
  "ex_foreign = ex_solution\<lparr>oid := 3, userId := 8, solvedAt := 2000\<rparr>"

definition ex_last_throws :: "nat \<Rightarrow> fetch_result" where
  "ex_last_throws k = (if k = 30 then FetchThrows else Fetched True ''processing'')"

definition ex_never_done :: "nat \<Rightarrow> fetch_result" where
  "ex_never_done k = Fetched True ''processing''"

definition ex_second_failed :: "nat \<Rightarrow> fetch_result" where
  "ex_second_failed k = (if k = 2 then Fetched True ''failed'' else FetchThrows)"

definition ex_third_completed :: "nat \<Rightarrow> fetch_result" where
  "ex_third_completed k = (if k = 3 then Fetched True ''completed'' else Fetched True ''processing'')"

definition ex_body :: solve_body where
  "ex_body =
     \<lparr>req_assignmentId = Some ''a7'', req_assignmentTitle = Some ''Lab report'',
      req_courseId = Some ''c1'', req_courseName = Some ''Physics'',
      req_materials =
        JArr [JObj [(''driveFile'', JObj [(''driveFile'',
          JObj [(''id'', JStr ''f1''), (''title'', JStr ''sheet.pdf'')])])]]\<rparr>"

definition ex_text_materials :: solve_body where
  "ex_text_materials = ex_body\<lparr>req_materials := JStr ''x''\<rparr>"

definition ex_null_material :: solve_body where
  "ex_null_material = ex_body\<lparr>req_materials := JArr [JNull]\<rparr>"

definition ex_system :: system where
  "ex_system = \<lparr>docs = [ex_solution], next_oid = 1, tasks = []\<rparr>"

definition ex_incomplete :: solve_body where
  "ex_incomplete = ex_body\<lparr>req_assignmentId := Some ''a1'', req_courseName := None\<rparr>"

definition ex_retry :: solve_body where
  "ex_retry = ex_body\<lparr>req_assignmentId := Some ''a1''\<rparr>"

definition ex_failed :: solution where
  "ex_failed = ex_pending\<lparr>status := ''failed'', solutionText := Some ''Solving failed: Unknown error''\<rparr>"

definition ex_failed_system :: system where
  "ex_failed_system = \<lparr>docs = [ex_failed], next_oid = 2, tasks = []\<rparr>"

definition ex_runtime_nokey :: runtime where
  "ex_runtime_nokey = ex_runtime\<lparr>GEMINI_API_KEY := None\<rparr>"

definition ex_output :: string where
  "ex_output = ''Answer'' @ newline"

definition ex_events :: "event list" where
  "ex_events = [Post ex_owner ex_body 5000 5001, StdoutData 0 ''{}'', Close 0 (Some 0) 6000]"

section \<open>Invariant\<close>

text \<open>
  What holds of every system reached from the empty one: ids are below the next unused id
  and unique; no two tasks work on the same solution; the solution of every task that is
  under way exists and has status \<open>processing\<close>; every status is one of the schema's
  three. \<open>lifecycle_step\<close> relates the collection before and after an event, and
  \<open>replace_doc\<close> is what \<open>save\<close> does to the collection.
\<close>

definition invariant :: "system \<Rightarrow> bool" where
  "invariant st \<longleftrightarrow>
     (\<forall>d\<in>set (docs st). oid d < next_oid st) \<and>
     distinct (map oid (docs st)) \<and>
     distinct (map task_solution (tasks st)) \<and>
     (\<forall>t\<in>set (tasks st). \<exists>d\<in>set (docs st). oid d = task_solution t \<and> status d = ''processing'') \<and>
     (\<forall>d\<in>set (docs st). status d \<in> status_enum)"

definition lifecycle_step :: "solution list \<Rightarrow> solution list \<Rightarrow> bool" where
  "lifecycle_step ds ds' \<longleftrightarrow>
     (\<forall>d'\<in>set ds'.
        case findById ds (oid d') of
          None \<Rightarrow> status d' = ''processing''
        | Some d \<Rightarrow>
            status d' = status d \<or>
            (status d = ''processing'' \<and> (status d' = ''completed'' \<or> status d' = ''failed''))) \<and>
     (\<forall>d\<in>set ds. \<exists>d'\<in>set ds'. oid d' = oid d)"

definition replace_doc :: "nat \<Rightarrow> solution \<Rightarrow> solution list \<Rightarrow> solution list" where
  "replace_doc i d' ds = map (\<lambda>e. if oid e = i then d' else e) ds"

section \<open>Properties\<close>

lemma utf8_append: "utf8 (a @ b) = utf8 a @ utf8 b"
  by (simp add: utf8_def)

lemma utf8_char_not_Nil: "utf8_char c \<noteq> []"
  by (simp add: utf8_char_def Let_def)

lemma utf8_Nil_iff: "utf8 s = [] \<longleftrightarrow> s = []"
  by (cases s) (simp_all add: utf8_def utf8_char_not_Nil)

lemma all_dropWhile: "(\<forall>x\<in>set (dropWhile P s). P x) \<longleftrightarrow> (\<forall>c\<in>set s. P c)"
  by (induction s) auto

lemma trim_Nil_iff: "trim s = [] \<longleftrightarrow> (\<forall>c\<in>set s. is_whitespace c)"
  by (simp add: trim_def all_dropWhile)

lemma find_Some_mem: "find P xs = Some x \<Longrightarrow> x \<in> set xs \<and> P x"
  by (induction xs) (auto split: if_splits)

lemma find_None_all: "find P xs = None \<longleftrightarrow> (\<forall>x\<in>set xs. \<not> P x)"
  by (induction xs) auto

lemma ex_cast_id0: "castObjectId ex_runtime ex_id0 = Some 0"
  by code_simp

lemma ex_cast_id1: "castObjectId ex_runtime ex_id1 = Some 1"
  by code_simp

lemma ex_cast_id2: "castObjectId ex_runtime ex_id2 = Some 2"
  by code_simp

lemma ex_cast_abc: "castObjectId ex_runtime ''abc'' = None"
  by code_simp

subsection \<open>Reading one solution\<close>

lemma findOne_id_user_unique:
  assumes "distinct (map oid ds)" "d \<in> set ds" "userId d = u"
  shows "findOne_id_user ds (oid d) u = Some d"
proof (cases "findOne_id_user ds (oid d) u")
  case None
  with assms show ?thesis
    unfolding findOne_id_user_def find_None_all by blast
next
  case (Some e)
  then have "e \<in> set ds \<and> oid e = oid d"
    unfolding findOne_id_user_def by (auto dest: find_Some_mem)
  with assms have "e = d" by (meson distinct_map inj_onD)
  with Some show ?thesis by simp
qed

lemma findOne_id_user_Some:
  "findOne_id_user ds i u = Some d \<Longrightarrow> d \<in> set ds \<and> oid d = i \<and> userId d = u"
  unfolding findOne_id_user_def by (auto dest: find_Some_mem)

lemma findOne_id_user_None:
  "findOne_id_user ds i u = None \<longleftrightarrow> \<not> (\<exists>d\<in>set ds. oid d = i \<and> userId d = u)"
  unfolding findOne_id_user_def find_None_all by blast

lemma findOne_other_user:
  assumes "distinct (map oid ds)" "d \<in> set ds" "userId d \<noteq> u"
  shows "findOne_id_user ds (oid d) u = None"
  unfolding findOne_id_user_None
proof
  assume "\<exists>e\<in>set ds. oid e = oid d \<and> userId e = u"
  then obtain e where e: "e \<in> set ds" "oid e = oid d" "userId e = u" by blast
  with assms have "e = d" by (meson distinct_map inj_onD)
  with e assms show False by simp
qed

text \<open>
  C5, amended. When the id of the URL is not an ObjectId the query throws and the answer
  is 500. When it is one, \<open>GET /solution/:solutionId\<close> returns the seven fields \<open>id\<close>,
  \<open>assignmentTitle\<close>, \<open>courseName\<close>, \<open>status\<close>, \<open>solutionText\<close>, \<open>solvedAt\<close> and
  \<open>processingTime\<close> of a solution exactly when the collection holds a document with that
  id whose \<open>userId\<close> is the authenticated user's, and the fields are that document's;
  otherwise it answers 404 \<open>Solution not found\<close>. Since ids are unique, asking for a
  document of another user answers 404: a successful answer always carries a document of
  the user who asks.
\<close>

theorem get_solution_owner_only:
  "(castObjectId rt sid = None \<longrightarrow> get_solution rt ds u sid = Failure 500 ''Failed to fetch solution'')
   \<and> (\<forall>i. castObjectId rt sid = Some i \<longrightarrow>
        (if \<exists>d\<in>set ds. oid d = i \<and> userId d = uid u
         then \<exists>d\<in>set ds. oid d = i \<and> userId d = uid u \<and>
                get_solution rt ds u sid =
                  Success \<lparr>sj_id = oid d, sj_assignmentTitle = assignmentTitle d,
                           sj_courseName = courseName d, sj_status = status d,
                           sj_solutionText = solutionText d, sj_solvedAt = solvedAt d,
                           sj_processingTime = processingTime d\<rparr>
         else get_solution rt ds u sid = Failure 404 ''Solution not found'')
        \<and> (distinct (map oid ds) \<longrightarrow>
             (\<forall>d\<in>set ds. oid d = i \<and> userId d \<noteq> uid u \<longrightarrow>
                get_solution rt ds u sid = Failure 404 ''Solution not found'')))
   \<and> (\<forall>j. get_solution rt ds u sid = Success j \<longrightarrow>
        (\<exists>d\<in>set ds. userId d = uid u \<and> castObjectId rt sid = Some (oid d) \<and> sj_id j = oid d \<and>
           sj_assignmentTitle j = assignmentTitle d \<and> sj_solutionText j = solutionText d))"
proof (intro conjI allI impI)
  assume "castObjectId rt sid = None"
  then show "get_solution rt ds u sid = Failure 500 ''Failed to fetch solution''"
    by (simp add: get_solution_def)
next
  fix i assume cast: "castObjectId rt sid = Some i"
  show "if \<exists>d\<in>set ds. oid d = i \<and> userId d = uid u
         then \<exists>d\<in>set ds. oid d = i \<and> userId d = uid u \<and>
                get_solution rt ds u sid =
                  Success \<lparr>sj_id = oid d, sj_assignmentTitle = assignmentTitle d,
                           sj_courseName = courseName d, sj_status = status d,
                           sj_solutionText = solutionText d, sj_solvedAt = solvedAt d,
                           sj_processingTime = processingTime d\<rparr>
         else get_solution rt ds u sid = Failure 404 ''Solution not found''"
  proof (cases "findOne_id_user ds i (uid u)")
    case None
    then have no: "\<not> (\<exists>d\<in>set ds. oid d = i \<and> userId d = uid u)"
      unfolding findOne_id_user_None .
    from None cast have "get_solution rt ds u sid = Failure 404 ''Solution not found''"
      by (simp add: get_solution_def)
    then show ?thesis by (subst if_not_P [OF no])
  next
    case (Some d)
    note mem = findOne_id_user_Some [OF Some]
    then have yes: "\<exists>d\<in>set ds. oid d = i \<and> userId d = uid u" by blast
    from Some cast have "get_solution rt ds u sid =
                  Success \<lparr>sj_id = oid d, sj_assignmentTitle = assignmentTitle d,
                           sj_courseName = courseName d, sj_status = status d,
                           sj_solutionText = solutionText d, sj_solvedAt = solvedAt d,
                           sj_processingTime = processingTime d\<rparr>"
      by (simp add: get_solution_def solution_fields_def)
    with mem have "\<exists>d\<in>set ds. oid d = i \<and> userId d = uid u \<and>
                get_solution rt ds u sid =
                  Success \<lparr>sj_id = oid d, sj_assignmentTitle = assignmentTitle d,
                           sj_courseName = courseName d, sj_status = status d,
                           sj_solutionText = solutionText d, sj_solvedAt = solvedAt d,
                           sj_processingTime = processingTime d\<rparr>"
      by blast
    then show ?thesis by (subst if_P [OF yes])
  qed
  show "\<forall>d\<in>set ds. oid d = i \<and> userId d \<noteq> uid u \<longrightarrow>
                get_solution rt ds u sid = Failure 404 ''Solution not found''"
    if dist: "distinct (map oid ds)"
  proof (intro ballI impI)
    fix d
    assume "d \<in> set ds" "oid d = i \<and> userId d \<noteq> uid u"
    with dist have "findOne_id_user ds i (uid u) = None"
      using findOne_other_user [of ds d "uid u"] by auto
    with cast show "get_solution rt ds u sid = Failure 404 ''Solution not found''"
      by (simp add: get_solution_def)
  qed
next
  fix j assume ok: "get_solution rt ds u sid = Success j"
  then obtain i where cast: "castObjectId rt sid = Some i"
    by (cases "castObjectId rt sid") (auto simp: get_solution_def)
  with ok obtain d where found: "findOne_id_user ds i (uid u) = Some d" and j: "j = solution_fields d"
    by (cases "findOne_id_user ds i (uid u)") (auto simp: get_solution_def)
  from findOne_id_user_Some [OF found] cast j
  show "\<exists>d\<in>set ds. userId d = uid u \<and> castObjectId rt sid = Some (oid d) \<and> sj_id j = oid d \<and>
           sj_assignmentTitle j = assignmentTitle d \<and> sj_solutionText j = solutionText d"
    by (auto simp: solution_fields_def)
qed

text \<open>
  \<open>abc\<close> is not an ObjectId: the answer is 500, not 404.
\<close>

theorem get_solution_malformed_id_counterexample:
  "castObjectId ex_runtime ''abc'' = None
   \<and> get_solution ex_runtime [ex_solution] ex_owner ''abc'' = Failure 500 ''Failed to fetch solution''"
  by (simp add: ex_cast_abc get_solution_def)

theorem get_solution_owner_only_witness:
  "castObjectId ex_runtime ex_id0 = Some 0
   \<and> (\<exists>d\<in>set [ex_solution]. oid d = 0 \<and> userId d = uid ex_owner)
   \<and> get_solution ex_runtime [ex_solution] ex_owner ex_id0 =
       Success \<lparr>sj_id = 0, sj_assignmentTitle = ''Essay'', sj_courseName = ''History'',
                sj_status = ''completed'', sj_solutionText = Some ''Done'', sj_solvedAt = 1000,
                sj_processingTime = 250\<rparr>
   \<and> distinct (map oid [ex_solution]) \<and> userId ex_solution \<noteq> uid ex_other
   \<and> get_solution ex_runtime [ex_solution] ex_other ex_id0 = Failure 404 ''Solution not found''
   \<and> castObjectId ex_runtime ex_id1 = Some 1
   \<and> get_solution ex_runtime [ex_solution] ex_owner ex_id1 = Failure 404 ''Solution not found''
   \<and> castObjectId ex_runtime ''abc'' = None
   \<and> get_solution ex_runtime [ex_solution] ex_owner ''abc'' = Failure 500 ''Failed to fetch solution''"
  using get_solution_owner_only [of ex_runtime ex_id0 "[ex_solution]" ex_owner]
    get_solution_owner_only [of ex_runtime ex_id0 "[ex_solution]" ex_other]
    get_solution_owner_only [of ex_runtime ex_id1 "[ex_solution]" ex_owner]
    get_solution_owner_only [of ex_runtime "''abc''" "[ex_solution]" ex_owner]
  by (simp add: ex_cast_id0 ex_cast_id1 ex_cast_abc ex_solution_def ex_owner_def ex_other_def)

subsection \<open>Downloading the PDF\<close>

lemma get_solution_pdf_found:
  assumes "castObjectId rt sid = Some i" "findOne_id_user ds i (uid u) = Some d"
  shows "if status d = ''completed'' \<and> (\<exists>pdf. solutionPdf d = Some pdf \<and> pdf \<noteq> [])
         then (if list_all valid_header_char (assignmentTitle d)
               then \<exists>pdf. solutionPdf d = Some pdf \<and>
                      get_solution_pdf rt ds u sid =
                        Success \<lparr>content_type = ''application/pdf'',
                                 content_disposition =
                                   ''attachment; filename='' @ [CHR 0x22] @ assignmentTitle d @
                                   ''_solution.pdf'' @ [CHR 0x22],
                                 body_bytes = pdf\<rparr>
               else get_solution_pdf rt ds u sid = Failure 500 ''Failed to download solution PDF'')
         else get_solution_pdf rt ds u sid = Failure 400 ''Solution PDF not available''"
  using assms by (cases "solutionPdf d") (simp_all add: get_solution_pdf_def)

text \<open>
  C6, amended. When the id of the URL is not an ObjectId the answer is 500. When it is
  one and the authenticated user has no solution with that id, the answer is 404. When the
  user has one, \<open>GET /solution/:solutionId/pdf\<close> answers 400 \<open>Solution PDF not available\<close>
  unless its status is \<open>completed\<close> and its PDF is present and not empty; and then it sends
  the stored bytes as \<open>application/pdf\<close>, as an attachment named after the title, exactly
  when the title holds only characters that are allowed in a header value, and answers 500
  when it does not. With unique ids the solution is the one document with that id.
\<close>

theorem get_solution_pdf_cases:
  "(castObjectId rt sid = None \<longrightarrow>
      get_solution_pdf rt ds u sid = Failure 500 ''Failed to download solution PDF'')
   \<and> (\<forall>i. castObjectId rt sid = Some i \<longrightarrow>
        (if \<exists>d\<in>set ds. oid d = i \<and> userId d = uid u
         then \<exists>d\<in>set ds. oid d = i \<and> userId d = uid u \<and>
           (if status d = ''completed'' \<and> (\<exists>pdf. solutionPdf d = Some pdf \<and> pdf \<noteq> [])
            then (if list_all valid_header_char (assignmentTitle d)
                  then \<exists>pdf. solutionPdf d = Some pdf \<and>
                         get_solution_pdf rt ds u sid =
                           Success \<lparr>content_type = ''application/pdf'',
                                    content_disposition =
                                      ''attachment; filename='' @ [CHR 0x22] @ assignmentTitle d @
                                      ''_solution.pdf'' @ [CHR 0x22],
                                    body_bytes = pdf\<rparr>
                  else get_solution_pdf rt ds u sid = Failure 500 ''Failed to download solution PDF'')
            else get_solution_pdf rt ds u sid = Failure 400 ''Solution PDF not available'')
         else get_solution_pdf rt ds u sid = Failure 404 ''Solution not found'')
        \<and> (distinct (map oid ds) \<longrightarrow>
             (\<forall>d\<in>set ds. oid d = i \<and> userId d = uid u \<longrightarrow>
               (if status d = ''completed'' \<and> (\<exists>pdf. solutionPdf d = Some pdf \<and> pdf \<noteq> [])
                then (if list_all valid_header_char (assignmentTitle d)
                      then \<exists>pdf. solutionPdf d = Some pdf \<and>
                             get_solution_pdf rt ds u sid =
                               Success \<lparr>content_type = ''application/pdf'',
                                        content_disposition =
                                          ''attachment; filename='' @ [CHR 0x22] @ assignmentTitle d @
                                          ''_solution.pdf'' @ [CHR 0x22],
                                        body_bytes = pdf\<rparr>
                      else get_solution_pdf rt ds u sid = Failure 500 ''Failed to download solution PDF'')
                else get_solution_pdf rt ds u sid = Failure 400 ''Solution PDF not available''))))"
proof (intro conjI allI impI)
  assume "castObjectId rt sid = None"
  then show "get_solution_pdf rt ds u sid = Failure 500 ''Failed to download solution PDF''"
    by (simp add: get_solution_pdf_def)
next
  fix i assume cast: "castObjectId rt sid = Some i"
  show "if \<exists>d\<in>set ds. oid d = i \<and> userId d = uid u
         then \<exists>d\<in>set ds. oid d = i \<and> userId d = uid u \<and>
           (if status d = ''completed'' \<and> (\<exists>pdf. solutionPdf d = Some pdf \<and> pdf \<noteq> [])
            then (if list_all valid_header_char (assignmentTitle d)
                  then \<exists>pdf. solutionPdf d = Some pdf \<and>
                         get_solution_pdf rt ds u sid =
                           Success \<lparr>content_type = ''application/pdf'',
                                    content_disposition =
                                      ''attachment; filename='' @ [CHR 0x22] @ assignmentTitle d @
                                      ''_solution.pdf'' @ [CHR 0x22],
                                    body_bytes = pdf\<rparr>
                  else get_solution_pdf rt ds u sid = Failure 500 ''Failed to download solution PDF'')
            else get_solution_pdf rt ds u sid = Failure 400 ''Solution PDF not available'')
         else get_solution_pdf rt ds u sid = Failure 404 ''Solution not found''"
  proof (cases "findOne_id_user ds i (uid u)")
    case None
    then have no: "\<not> (\<exists>d\<in>set ds. oid d = i \<and> userId d = uid u)"
      unfolding findOne_id_user_None .
    from None cast have "get_solution_pdf rt ds u sid = Failure 404 ''Solution not found''"
      by (simp add: get_solution_pdf_def)
    then show ?thesis by (subst if_not_P [OF no])
  next
    case (Some d)
    note mem = findOne_id_user_Some [OF Some]
    then have yes: "\<exists>d\<in>set ds. oid d = i \<and> userId d = uid u" by blast
    show ?thesis
      by (subst if_P [OF yes], rule bexI [of _ d])
        (use mem get_solution_pdf_found [OF cast Some] in simp_all)
  qed
  show "\<forall>d\<in>set ds. oid d = i \<and> userId d = uid u \<longrightarrow>
               (if status d = ''completed'' \<and> (\<exists>pdf. solutionPdf d = Some pdf \<and> pdf \<noteq> [])
                then (if list_all valid_header_char (assignmentTitle d)
                      then \<exists>pdf. solutionPdf d = Some pdf \<and>
                             get_solution_pdf rt ds u sid =
                               Success \<lparr>content_type = ''application/pdf'',
                                        content_disposition =
                                          ''attachment; filename='' @ [CHR 0x22] @ assignmentTitle d @
                                          ''_solution.pdf'' @ [CHR 0x22],
                                        body_bytes = pdf\<rparr>
                      else get_solution_pdf rt ds u sid = Failure 500 ''Failed to download solution PDF'')
                else get_solution_pdf rt ds u sid = Failure 400 ''Solution PDF not available'')"
    if dist: "distinct (map oid ds)"
  proof (intro ballI impI)
    fix d assume d: "d \<in> set ds" "oid d = i \<and> userId d = uid u"
    with dist have "findOne_id_user ds i (uid u) = Some d"
      using findOne_id_user_unique [of ds d "uid u"] by auto
    from get_solution_pdf_found [OF cast this]
    show "if status d = ''completed'' \<and> (\<exists>pdf. solutionPdf d = Some pdf \<and> pdf \<noteq> [])
                then (if list_all valid_header_char (assignmentTitle d)
                      then \<exists>pdf. solutionPdf d = Some pdf \<and>
                             get_solution_pdf rt ds u sid =
                               Success \<lparr>content_type = ''application/pdf'',
                                        content_disposition =
                                          ''attachment; filename='' @ [CHR 0x22] @ assignmentTitle d @
                                          ''_solution.pdf'' @ [CHR 0x22],
                                        body_bytes = pdf\<rparr>
                      else get_solution_pdf rt ds u sid = Failure 500 ''Failed to download solution PDF'')
                else get_solution_pdf rt ds u sid = Failure 400 ''Solution PDF not available''" .
  qed
qed

text \<open>
  The user's solution is completed and has a PDF, but its title holds a line feed:
  \<open>res.setHeader\<close> throws and the answer is 500.
\<close>

theorem get_solution_pdf_title_counterexample:
  "castObjectId ex_runtime ex_id0 = Some 0
   \<and> oid ex_two_lines = 0 \<and> userId ex_two_lines = uid ex_owner
   \<and> status ex_two_lines = ''completed'' \<and> solutionPdf ex_two_lines = Some ''%PDF''
   \<and> get_solution_pdf ex_runtime [ex_two_lines] ex_owner ex_id0 =
       Failure 500 ''Failed to download solution PDF''"
  by (simp add: ex_cast_id0 get_solution_pdf_def findOne_id_user_def ex_two_lines_def ex_solution_def
      ex_owner_def newline_def valid_header_char_def)

theorem get_solution_pdf_cases_witness:
  "distinct (map oid [ex_solution, ex_pending])
   \<and> castObjectId ex_runtime ex_id0 = Some 0
   \<and> list_all valid_header_char (assignmentTitle ex_solution)
   \<and> get_solution_pdf ex_runtime [ex_solution, ex_pending] ex_owner ex_id0 =
       Success \<lparr>content_type = ''application/pdf'',
                content_disposition = ''attachment; filename='' @ [CHR 0x22] @ ''Essay_solution.pdf'' @ [CHR 0x22],
                body_bytes = ''%PDF''\<rparr>
   \<and> castObjectId ex_runtime ex_id1 = Some 1
   \<and> get_solution_pdf ex_runtime [ex_solution, ex_pending] ex_owner ex_id1 =
       Failure 400 ''Solution PDF not available''
   \<and> castObjectId ex_runtime ex_id2 = Some 2
   \<and> get_solution_pdf ex_runtime [ex_solution, ex_pending] ex_owner ex_id2 =
       Failure 404 ''Solution not found''
   \<and> castObjectId ex_runtime ''abc'' = None
   \<and> get_solution_pdf ex_runtime [ex_solution, ex_pending] ex_owner ''abc'' =
       Failure 500 ''Failed to download solution PDF''"
  using get_solution_pdf_cases [of ex_runtime ex_id0 "[ex_solution, ex_pending]" ex_owner]
    get_solution_pdf_cases [of ex_runtime ex_id1 "[ex_solution, ex_pending]" ex_owner]
    get_solution_pdf_cases [of ex_runtime ex_id2 "[ex_solution, ex_pending]" ex_owner]
    get_solution_pdf_cases [of ex_runtime "''abc''" "[ex_solution, ex_pending]" ex_owner]
  by (simp add: ex_cast_id0 ex_cast_id1 ex_cast_id2 ex_cast_abc ex_solution_def ex_pending_def
      ex_owner_def valid_header_char_def)

subsection \<open>The fallback PDF\<close>

lemma findById_save:
  "findById ds i = Some sol \<Longrightarrow> oid d = i \<Longrightarrow> findById (save ds d now) i = Some (d\<lparr>updatedAt := now\<rparr>)"
  by (induction ds) (auto simp: findById_def save_def split: if_splits)

lemma findById_oid: "findById ds i = Some sol \<Longrightarrow> oid sol = i \<and> sol \<in> set ds"
  unfolding findById_def by (auto dest: find_Some_mem)

lemma whitespace_set:
  "set s \<subseteq> {CHR 0x09, CHR 0x0A, CHR 0x0B, CHR 0x0C, CHR 0x0D, CHR 0x20, CHR 0xA0}
     \<longleftrightarrow> (\<forall>c\<in>set s. is_whitespace c)"
  by (simp add: subset_iff is_whitespace_def Ball_def)

lemma pdf_header_text:
  "pdf_header = [CHR 0x0A] @ ''PDF Content:'' @ [CHR 0x0A] @ ''Assignment Solution'' @ [CHR 0x0A, CHR 0x0A]"
  by (simp add: pdf_header_def newline_def)

lemma pdf_footer_text:
  "pdf_footer stamp =
     [CHR 0x0A, CHR 0x0A] @ ''Generated by Assignment Solver'' @ [CHR 0x0A] @ ''Date: '' @ stamp @ [CHR 0x0A]"
  by (simp add: pdf_footer_def newline_def)

lemma utf8_Cons:
  "utf8 (c # s) =
     (if (of_char c :: nat) < 128 then [c]
      else [char_of (192 + (of_char c :: nat) div 64), char_of (128 + (of_char c :: nat) mod 64)]) @ utf8 s"
  by (simp add: utf8_def utf8_char_def Let_def)

lemma createSimplePdf_returns: "\<exists>b. createSimplePdf stamp v = Inr b"
  by (cases "createSimplePdf_try stamp v") (simp_all add: createSimplePdf_def)

lemma createSimplePdf_blank:
  "createSimplePdf stamp v = Inr [] \<longleftrightarrow> (\<forall>s. v = JStr s \<longrightarrow> (\<forall>c\<in>set s. is_whitespace c))"
  by (cases v) (auto simp: createSimplePdf_def createSimplePdf_try_def utf8_Nil_iff trim_Nil_iff
      pdf_header_def)

lemma createSimplePdf_contains:
  assumes "\<not> (\<forall>c\<in>set s. is_whitespace c)"
  shows "createSimplePdf stamp (JStr s) = Inr (utf8 pdf_header @ utf8 s @ utf8 (pdf_footer stamp))"
proof -
  from assms have "trim s \<noteq> []" "s \<noteq> []" by (auto simp: trim_Nil_iff)
  then show ?thesis by (simp add: createSimplePdf_def createSimplePdf_try_def utf8_append)
qed

lemma completed_try_fallback:
  assumes parsed: "\<not> nullish (parsedResult rt out)"
    and nopdf: "truthy_val (get_prop (parsedResult rt out) ''pdfBytes'') \<longrightarrow>
                  (\<exists>e. Buffer_from_hex rt (get_prop (parsedResult rt out) ''pdfBytes'') = Inl e)"
    and stored: "js_or_val (get_prop (parsedResult rt out) ''solutionText'') (JStr out) = JStr s"
    and nonblank: "\<not> (\<forall>c\<in>set s. is_whitespace c)"
  shows "completed_try rt sol out processing now =
           Inr (sol\<lparr>solutionText := Some s,
                    solutionPdf := Some (utf8 pdf_header @ utf8 s @ utf8 (pdf_footer (toISOString rt now))),
                    status := ''completed'', processingTime := processing\<rparr>)"
proof -
  let ?pdf = "utf8 pdf_header @ utf8 s @ utf8 (pdf_footer (toISOString rt now))"
  have fb: "createSimplePdf (toISOString rt now) (JStr s) = Inr ?pdf"
    using nonblank by (rule createSimplePdf_contains)
  from nonblank have "s \<noteq> []" by auto
  then have ne: "?pdf \<noteq> []" by (simp add: utf8_Nil_iff)
  have cast: "castString rt (JStr s) = Inr (Some s)" by (simp add: castString_def)
  show ?thesis
  proof (cases "truthy_val (get_prop (parsedResult rt out) ''pdfBytes'')")
    case True
    with nopdf obtain e where "Buffer_from_hex rt (get_prop (parsedResult rt out) ''pdfBytes'') = Inl e"
      by blast
    with True parsed stored fb cast ne show ?thesis
      by (simp add: completed_try_def Let_def)
  next
    case False
    with parsed stored fb cast ne show ?thesis
      by (simp add: completed_try_def Let_def)
  qed
qed

lemma on_close_fallback:
  assumes found: "findById ds sid = Some sol"
    and out: "trim out \<noteq> []"
    and parsed: "\<not> nullish (parsedResult rt out)"
    and nopdf: "truthy_val (get_prop (parsedResult rt out) ''pdfBytes'') \<longrightarrow>
                  (\<exists>e. Buffer_from_hex rt (get_prop (parsedResult rt out) ''pdfBytes'') = Inl e)"
    and stored: "js_or_val (get_prop (parsedResult rt out) ''solutionText'') (JStr out) = JStr s"
    and nonblank: "\<not> (\<forall>c\<in>set s. is_whitespace c)"
  shows "\<exists>d. findById (on_close rt ds sid t0 out err (Some 0) now) sid = Some d
           \<and> solutionText d = Some s
           \<and> solutionPdf d = Some (utf8 pdf_header @ utf8 s @ utf8 (pdf_footer (toISOString rt now)))"
proof -
  let ?upd = "sol\<lparr>solutionText := Some s,
                    solutionPdf := Some (utf8 pdf_header @ utf8 s @ utf8 (pdf_footer (toISOString rt now))),
                    status := ''completed'', processingTime := now - t0\<rparr>"
  from findById_oid [OF found] have "oid ?upd = sid" by simp
  from findById_save [OF found this]
  have "findById (save ds ?upd now) sid = Some (?upd\<lparr>updatedAt := now\<rparr>)" .
  moreover have "on_close rt ds sid t0 out err (Some 0) now = save ds ?upd now"
    using found out completed_try_fallback [OF parsed nopdf stored nonblank, of sol "now - t0" now]
    by (simp add: on_close_def Let_def)
  ultimately show ?thesis by simp
qed

text \<open>
  C10, amended. \<open>createSimplePdf\<close> returns a buffer for every value and never throws. The
  buffer is empty exactly when the value is not a string or is a string of white space only
  (the empty string is one); for any other string it is the UTF-8 encoding of the template
  around the text, and so contains the UTF-8 bytes of the text. \<open>utf8\<close> keeps a code unit
  below U+0080 and writes two bytes for one from U+0080 on. Hence, when the solver exits
  with code 0, its parsed output is not \<open>null\<close> and carries no usable \<open>pdfBytes\<close>, and the
  solution text is a string that is not blank, the completion callback stores that text
  and the PDF made of it by \<open>createSimplePdf\<close>.
\<close>

theorem createSimplePdf_total:
  "(\<exists>b. createSimplePdf stamp v = Inr b)
   \<and> (createSimplePdf stamp v = Inr [] \<longleftrightarrow>
        (\<forall>s. v = JStr s \<longrightarrow>
           set s \<subseteq> {CHR 0x09, CHR 0x0A, CHR 0x0B, CHR 0x0C, CHR 0x0D, CHR 0x20, CHR 0xA0}))
   \<and> (\<forall>s. v = JStr s \<and>
           \<not> set s \<subseteq> {CHR 0x09, CHR 0x0A, CHR 0x0B, CHR 0x0C, CHR 0x0D, CHR 0x20, CHR 0xA0} \<longrightarrow>
         utf8 s \<noteq> [] \<and>
         createSimplePdf stamp v =
           Inr (utf8 ([CHR 0x0A] @ ''PDF Content:'' @ [CHR 0x0A] @ ''Assignment Solution'' @
                      [CHR 0x0A, CHR 0x0A])
                @ utf8 s
                @ utf8 ([CHR 0x0A, CHR 0x0A] @ ''Generated by Assignment Solver'' @ [CHR 0x0A] @
                        ''Date: '' @ stamp @ [CHR 0x0A])))
   \<and> utf8 [] = []
   \<and> (\<forall>c s. utf8 (c # s) =
         (if (of_char c :: nat) < 128 then [c]
          else [char_of (192 + (of_char c :: nat) div 64), char_of (128 + (of_char c :: nat) mod 64)])
         @ utf8 s)
   \<and> (\<forall>sol s.
         findById ds sid = Some sol \<and> trim out \<noteq> [] \<and> \<not> nullish (parsedResult rt out) \<and>
         (truthy_val (get_prop (parsedResult rt out) ''pdfBytes'') \<longrightarrow>
            (\<exists>e. Buffer_from_hex rt (get_prop (parsedResult rt out) ''pdfBytes'') = Inl e)) \<and>
         js_or_val (get_prop (parsedResult rt out) ''solutionText'') (JStr out) = JStr s \<and>
         \<not> set s \<subseteq> {CHR 0x09, CHR 0x0A, CHR 0x0B, CHR 0x0C, CHR 0x0D, CHR 0x20, CHR 0xA0} \<longrightarrow>
         (\<exists>d. findById (on_close rt ds sid t0 out err (Some 0) now) sid = Some d \<and>
            solutionText d = Some s \<and>
            solutionPdf d =
              Some (utf8 ([CHR 0x0A] @ ''PDF Content:'' @ [CHR 0x0A] @ ''Assignment Solution'' @
                          [CHR 0x0A, CHR 0x0A])
                    @ utf8 s
                    @ utf8 ([CHR 0x0A, CHR 0x0A] @ ''Generated by Assignment Solver'' @ [CHR 0x0A] @
                            ''Date: '' @ toISOString rt now @ [CHR 0x0A]))))"
  unfolding whitespace_set pdf_header_text [symmetric] pdf_footer_text [symmetric]
proof (intro conjI allI impI)
  show "\<exists>b. createSimplePdf stamp v = Inr b" by (rule createSimplePdf_returns)
next
  show "createSimplePdf stamp v = Inr [] \<longleftrightarrow> (\<forall>s. v = JStr s \<longrightarrow> (\<forall>c\<in>set s. is_whitespace c))"
    by (rule createSimplePdf_blank)
next
  fix s assume h: "v = JStr s \<and> \<not> (\<forall>c\<in>set s. is_whitespace c)"
  then have "s \<noteq> []" by auto
  then show "utf8 s \<noteq> []" by (simp add: utf8_Nil_iff)
  from h show "createSimplePdf stamp v = Inr (utf8 pdf_header @ utf8 s @ utf8 (pdf_footer stamp))"
    using createSimplePdf_contains [of s stamp] by blast
next
  show "utf8 [] = []" by (simp add: utf8_def)
next
  fix c s
  show "utf8 (c # s) =
         (if (of_char c :: nat) < 128 then [c]
          else [char_of (192 + (of_char c :: nat) div 64), char_of (128 + (of_char c :: nat) mod 64)])
         @ utf8 s"
    by (rule utf8_Cons)
next
  fix sol s
  assume h: "findById ds sid = Some sol \<and> trim out \<noteq> [] \<and> \<not> nullish (parsedResult rt out) \<and>
         (truthy_val (get_prop (parsedResult rt out) ''pdfBytes'') \<longrightarrow>
            (\<exists>e. Buffer_from_hex rt (get_prop (parsedResult rt out) ''pdfBytes'') = Inl e)) \<and>
         js_or_val (get_prop (parsedResult rt out) ''solutionText'') (JStr out) = JStr s \<and>
         \<not> (\<forall>c\<in>set s. is_whitespace c)"
  show "\<exists>d. findById (on_close rt ds sid t0 out err (Some 0) now) sid = Some d \<and>
            solutionText d = Some s \<and>
            solutionPdf d = Some (utf8 pdf_header @ utf8 s @ utf8 (pdf_footer (toISOString rt now)))"
    using h on_close_fallback [of ds sid sol out rt s t0 err now] by blast
qed

lemma char_of_195_169: "char_of (195::nat) = CHR 0xC3 \<and> char_of (169::nat) = CHR 0xA9"
  by code_simp

lemma trim_x42: "trim ''x=42'' = ''x=42''"
  by (simp add: trim_def is_whitespace_def)

lemma trim_spaces: "trim ''  '' = []"
  by (simp add: trim_def is_whitespace_def)

lemma parsed_x42: "parsedResult ex_runtime ''x=42'' = JObj [(''solutionText'', JStr ''x=42'')]"
  by (simp add: parsedResult_def ex_runtime_def ex_parse_def ex_numeric_output_def
      ex_object_output_def ex_string_output_def ex_true_output_def trim_x42)

lemma parsed_numeric:
  "parsedResult ex_runtime ex_numeric_output = JObj [(''solutionText'', JNum ''5'')]"
  by (simp add: parsedResult_def ex_runtime_def ex_parse_def ex_numeric_output_def)

lemma trim_numeric: "trim ex_numeric_output \<noteq> []"
  by (simp add: trim_Nil_iff ex_numeric_output_def is_whitespace_def)

lemma findById_ex_pending: "findById [ex_pending] 1 = Some ex_pending"
  by (simp add: findById_def ex_pending_def)

text \<open>
  The solver prints \<open>{"solutionText":5}\<close> and exits with code 0. The text is the number 5:
  \<open>text.trim\<close> is not a function, \<open>createSimplePdf\<close> catches the error and returns the
  empty buffer, and the solution is completed with the text \<open>5\<close> and no PDF.
\<close>

theorem createSimplePdf_number_counterexample:
  "createSimplePdf ex_stamp (JNum ''5'') = Inr []
   \<and> findById [ex_pending] 1 = Some ex_pending
   \<and> trim ex_numeric_output \<noteq> []
   \<and> parsedResult ex_runtime ex_numeric_output = JObj [(''solutionText'', JNum ''5'')]
   \<and> map (\<lambda>d. (status d, solutionText d, solutionPdf d))
         (on_close ex_runtime [ex_pending] 1 1000 ex_numeric_output [] (Some 0) 1500)
       = [(''completed'', Some ''5'', None)]"
proof -
  have a: "createSimplePdf ex_stamp (JNum ''5'') = Inr []"
    by (simp add: createSimplePdf_def createSimplePdf_try_def)
  have "completed_try ex_runtime ex_pending ex_numeric_output 500 1500 =
          Inr (ex_pending\<lparr>solutionText := Some ''5'', solutionPdf := None, status := ''completed'',
                          processingTime := 500\<rparr>)"
    by (simp add: completed_try_def Let_def parsed_numeric nullish_def js_or_val_def
        createSimplePdf_def createSimplePdf_try_def castString_def ex_pending_def)
  then have "map (\<lambda>d. (status d, solutionText d, solutionPdf d))
         (on_close ex_runtime [ex_pending] 1 1000 ex_numeric_output [] (Some 0) 1500)
       = [(''completed'', Some ''5'', None)]"
    using trim_numeric findById_ex_pending by (simp add: on_close_def Let_def save_def)
  with a findById_ex_pending trim_numeric parsed_numeric show ?thesis by simp
qed

theorem createSimplePdf_total_witness:
  "createSimplePdf ex_stamp JNull = Inr []
   \<and> createSimplePdf ex_stamp (JStr ''  '') = Inr []
   \<and> createSimplePdf ex_stamp (JStr ''x=42'') =
       Inr (utf8 ([CHR 0x0A] @ ''PDF Content:'' @ [CHR 0x0A] @ ''Assignment Solution'' @
                  [CHR 0x0A, CHR 0x0A])
            @ utf8 ''x=42''
            @ utf8 ([CHR 0x0A, CHR 0x0A] @ ''Generated by Assignment Solver'' @ [CHR 0x0A] @
                    ''Date: '' @ ex_stamp @ [CHR 0x0A]))
   \<and> utf8 [CHR 0xE9] = [CHR 0xC3, CHR 0xA9]
   \<and> findById [ex_pending] 1 = Some ex_pending
   \<and> trim ''x=42'' \<noteq> []
   \<and> parsedResult ex_runtime ''x=42'' = JObj [(''solutionText'', JStr ''x=42'')]
   \<and> (\<exists>d. findById (on_close ex_runtime [ex_pending] 1 1000 ''x=42'' [] (Some 0) 1500) 1 = Some d \<and>
         solutionText d = Some ''x=42'' \<and>
         solutionPdf d =
           Some (utf8 ([CHR 0x0A] @ ''PDF Content:'' @ [CHR 0x0A] @ ''Assignment Solution'' @
                       [CHR 0x0A, CHR 0x0A])
                 @ utf8 ''x=42''
                 @ utf8 ([CHR 0x0A, CHR 0x0A] @ ''Generated by Assignment Solver'' @ [CHR 0x0A] @
                         ''Date: '' @ ex_stamp @ [CHR 0x0A])))"
proof -
  note th = createSimplePdf_total [where ds = "[ex_pending]" and sid = 1 and out = "''x=42''"
      and rt = ex_runtime and ?t0.0 = 1000 and err = "[]" and now = 1500 and stamp = ex_stamp]
  have stamp: "toISOString ex_runtime 1500 = ex_stamp" by (simp add: ex_runtime_def)
  have ws: "\<not> set ''x=42'' \<subseteq> {CHR 0x09, CHR 0x0A, CHR 0x0B, CHR 0x0C, CHR 0x0D, CHR 0x20, CHR 0xA0}"
    by simp
  have a: "createSimplePdf ex_stamp JNull = Inr []"
    using th [where v = JNull, THEN conjunct2, THEN conjunct1] by simp
  have b: "createSimplePdf ex_stamp (JStr ''  '') = Inr []"
    using th [where v = "JStr ''  ''", THEN conjunct2, THEN conjunct1] by simp
  have c: "createSimplePdf ex_stamp (JStr ''x=42'') =
       Inr (utf8 ([CHR 0x0A] @ ''PDF Content:'' @ [CHR 0x0A] @ ''Assignment Solution'' @
                  [CHR 0x0A, CHR 0x0A])
            @ utf8 ''x=42''
            @ utf8 ([CHR 0x0A, CHR 0x0A] @ ''Generated by Assignment Solver'' @ [CHR 0x0A] @
                    ''Date: '' @ ex_stamp @ [CHR 0x0A]))"
    using th [where v = "JStr ''x=42''", THEN conjunct2, THEN conjunct2, THEN conjunct1,
        rule_format, of "''x=42''"] ws
    by blast
  have d: "utf8 [CHR 0xE9] = [CHR 0xC3, CHR 0xA9]"
    using th [where v = JNull, THEN conjunct2, THEN conjunct2, THEN conjunct2, THEN conjunct1]
      th [where v = JNull, THEN conjunct2, THEN conjunct2, THEN conjunct2, THEN conjunct2,
        THEN conjunct1, rule_format, of "CHR 0xE9" "[]"]
      char_of_195_169
    by simp
  have e: "\<exists>d. findById (on_close ex_runtime [ex_pending] 1 1000 ''x=42'' [] (Some 0) 1500) 1 = Some d \<and>
         solutionText d = Some ''x=42'' \<and>
         solutionPdf d =
           Some (utf8 ([CHR 0x0A] @ ''PDF Content:'' @ [CHR 0x0A] @ ''Assignment Solution'' @
                       [CHR 0x0A, CHR 0x0A])
                 @ utf8 ''x=42''
                 @ utf8 ([CHR 0x0A, CHR 0x0A] @ ''Generated by Assignment Solver'' @ [CHR 0x0A] @
                         ''Date: '' @ ex_stamp @ [CHR 0x0A]))"
  proof -
    have hyp: "findById [ex_pending] 1 = Some ex_pending \<and> trim ''x=42'' \<noteq> [] \<and>
         \<not> nullish (parsedResult ex_runtime ''x=42'') \<and>
         (truthy_val (get_prop (parsedResult ex_runtime ''x=42'') ''pdfBytes'') \<longrightarrow>
            (\<exists>e. Buffer_from_hex ex_runtime (get_prop (parsedResult ex_runtime ''x=42'') ''pdfBytes'') = Inl e)) \<and>
         js_or_val (get_prop (parsedResult ex_runtime ''x=42'') ''solutionText'') (JStr ''x=42'') = JStr ''x=42'' \<and>
         \<not> set ''x=42'' \<subseteq> {CHR 0x09, CHR 0x0A, CHR 0x0B, CHR 0x0C, CHR 0x0D, CHR 0x20, CHR 0xA0}"
      using findById_ex_pending by (simp add: trim_x42 parsed_x42 nullish_def js_or_val_def)
    from th [where v = JNull, THEN conjunct2, THEN conjunct2, THEN conjunct2, THEN conjunct2,
        THEN conjunct2, rule_format, OF hyp]
    show ?thesis unfolding stamp .
  qed
  from a b c d e findById_ex_pending parsed_x42 show ?thesis
    by (simp only: trim_x42 simp_thms) simp
qed

subsection \<open>Listing a user's solutions\<close>

lemma limit_docs_subset: "set (limit_docs n ds) \<subseteq> set ds"
  by (auto simp: limit_docs_def dest: in_set_takeD)

lemma limit_docs_length: "0 < n \<Longrightarrow> length (limit_docs n ds) \<le> nat n"
  by (simp add: limit_docs_def)

lemma sorted_limit_docs:
  "sorted_wrt R ds \<Longrightarrow> sorted_wrt R (limit_docs n ds)"
  by (simp add: limit_docs_def sorted_wrt_take)

lemma sorted_sort_solvedAt_desc:
  "sorted_wrt (\<lambda>a b. solvedAt b \<le> solvedAt a) (sort_solvedAt_desc ds)"
proof -
  have "sorted (map (\<lambda>d. - solvedAt d) (sort_key (\<lambda>d. - solvedAt d) ds))"
    by (rule sorted_sort_key)
  then show ?thesis
    by (simp add: sort_solvedAt_desc_def sorted_map)
qed

lemma findUserSolutions_sorted:
  "sorted_wrt (\<lambda>a b. solvedAt b \<le> solvedAt a) (findUserSolutions ds u lim)"
proof -
  have "sorted_wrt (\<lambda>a b. solvedAt b \<le> solvedAt a)
          (limit_docs lim (sort_solvedAt_desc (filter (\<lambda>d. userId d = u) ds)))"
    by (intro sorted_limit_docs sorted_sort_solvedAt_desc)
  then show ?thesis
    by (simp add: findUserSolutions_def sorted_wrt_map select_without_pdf_def)
qed

lemma findUserSolutions_members:
  assumes "d \<in> set (findUserSolutions ds u lim)"
  shows "userId d = u \<and> solutionPdf d = None \<and> (\<exists>e\<in>set ds. userId e = u \<and> d = e\<lparr>solutionPdf := None\<rparr>)"
proof -
  from assms obtain e where e: "e \<in> set (limit_docs lim (sort_solvedAt_desc (filter (\<lambda>d. userId d = u) ds)))"
    and d: "d = select_without_pdf e"
    by (auto simp: findUserSolutions_def)
  from e limit_docs_subset have "e \<in> set (sort_solvedAt_desc (filter (\<lambda>d. userId d = u) ds))"
    by blast
  then have "e \<in> set ds \<and> userId e = u"
    by (simp add: sort_solvedAt_desc_def)
  with d show ?thesis
    by (auto simp: select_without_pdf_def)
qed

lemma findUserSolutions_length:
  "0 < lim \<Longrightarrow> length (findUserSolutions ds u lim) \<le> nat lim"
  by (simp add: findUserSolutions_def limit_docs_length)

lemma findUserSolutions_zero:
  "length (findUserSolutions ds u 0) = length (filter (\<lambda>d. userId d = u) ds)"
  by (simp add: findUserSolutions_def limit_docs_def sort_solvedAt_desc_def)

lemma findUserSolutions_zero_set:
  "set (findUserSolutions ds u 0) = (\<lambda>d. d\<lparr>solutionPdf := None\<rparr>) ` {d \<in> set ds. userId d = u}"
  by (auto simp: findUserSolutions_def limit_docs_def sort_solvedAt_desc_def select_without_pdf_def)

lemma findUserSolutions_take:
  "0 < lim \<Longrightarrow> findUserSolutions ds u lim = take (nat lim) (findUserSolutions ds u 0)"
  by (simp add: findUserSolutions_def limit_docs_def take_map)

lemma getSummary_fields:
  "getSummary =
     (\<lambda>d. \<lparr>sum_id = oid d, sum_assignmentTitle = assignmentTitle d, sum_courseName = courseName d,
            sum_solvedAt = solvedAt d, sum_status = status d, sum_processingTime = processingTime d\<rparr>)"
  by (rule ext) (simp add: getSummary_def)

text \<open>
  With a limit of 0 the query returns every solution of the user: one document, which is
  more than 0.
\<close>

theorem findUserSolutions_limit_zero_counterexample:
  "\<not> (length (findUserSolutions [ex_solution] 7 0) \<le> nat 0)"
  by (simp add: findUserSolutions_def limit_docs_def sort_solvedAt_desc_def ex_solution_def)

text \<open>
  C8, amended. For every user id and every positive limit \<open>findUserSolutions\<close> returns at
  most \<open>limit\<close> solutions, the first \<open>limit\<close> of what it returns with limit 0; with limit 0
  it returns all of the user's solutions. For every limit each result belongs to the user
  and is a stored document without its PDF, and the results are in descending order of
  \<open>solvedAt\<close>. \<open>GET /solutions\<close> answers with the six summary fields of each solution
  that \<open>findUserSolutions\<close> returns, for the limit 10 when the \<open>limit\<close> parameter is absent,
  does not start with an integer or gives 0, and for the integer read otherwise, as long as
  its magnitude is at most \<open>2^53\<close>; beyond that the answer is 500 when the driver rejects the
  limit and the summaries of what it returns otherwise.
\<close>

theorem findUserSolutions_listing:
  "(0 < lim \<longrightarrow> length (findUserSolutions ds u lim) \<le> nat lim
               \<and> findUserSolutions ds u lim = take (nat lim) (findUserSolutions ds u 0))
   \<and> length (findUserSolutions ds u 0) = length (filter (\<lambda>d. userId d = u) ds)
   \<and> set (findUserSolutions ds u 0) = (\<lambda>d. d\<lparr>solutionPdf := None\<rparr>) ` {d \<in> set ds. userId d = u}
   \<and> (\<forall>d\<in>set (findUserSolutions ds u lim).
         userId d = u \<and> solutionPdf d = None \<and> (\<exists>e\<in>set ds. userId e = u \<and> d = e\<lparr>solutionPdf := None\<rparr>))
   \<and> sorted_wrt (\<lambda>a b. solvedAt b \<le> solvedAt a) (findUserSolutions ds u lim)
   \<and> parseInt None = NaN
   \<and> (parseInt q = NaN \<longrightarrow>
         get_solutions rt ds usr q =
           Success (map (\<lambda>d. \<lparr>sum_id = oid d, sum_assignmentTitle = assignmentTitle d,
                                sum_courseName = courseName d, sum_solvedAt = solvedAt d,
                                sum_status = status d, sum_processingTime = processingTime d\<rparr>)
                      (findUserSolutions ds (uid usr) 10)))
   \<and> (\<forall>n. parseInt q = Whole n \<longrightarrow>
         get_solutions rt ds usr q =
           Success (map (\<lambda>d. \<lparr>sum_id = oid d, sum_assignmentTitle = assignmentTitle d,
                                sum_courseName = courseName d, sum_solvedAt = solvedAt d,
                                sum_status = status d, sum_processingTime = processingTime d\<rparr>)
                      (findUserSolutions ds (uid usr) (if n = 0 then 10 else n))))
   \<and> (\<forall>n. parseInt q = Beyond n \<longrightarrow>
         get_solutions rt ds usr q =
           (case find_limit_beyond rt n (sort_key (\<lambda>d. - solvedAt d) (filter (\<lambda>d. userId d = uid usr) ds)) of
              None \<Rightarrow> Failure 500 ''Failed to fetch solutions''
            | Some found \<Rightarrow>
                Success (map (\<lambda>d. \<lparr>sum_id = oid d, sum_assignmentTitle = assignmentTitle d,
                                     sum_courseName = courseName d, sum_solvedAt = solvedAt d,
                                     sum_status = status d, sum_processingTime = processingTime d\<rparr>)
                           (map (\<lambda>d. d\<lparr>solutionPdf := None\<rparr>) found))))"
proof (intro conjI allI impI ballI)
  assume "0 < lim"
  then show "length (findUserSolutions ds u lim) \<le> nat lim"
    by (rule findUserSolutions_length)
  from \<open>0 < lim\<close> show "findUserSolutions ds u lim = take (nat lim) (findUserSolutions ds u 0)"
    by (rule findUserSolutions_take)
next
  show "length (findUserSolutions ds u 0) = length (filter (\<lambda>d. userId d = u) ds)"
    by (rule findUserSolutions_zero)
next
  show "set (findUserSolutions ds u 0) = (\<lambda>d. d\<lparr>solutionPdf := None\<rparr>) ` {d \<in> set ds. userId d = u}"
    by (rule findUserSolutions_zero_set)
next
  fix d assume d: "d \<in> set (findUserSolutions ds u lim)"
  from findUserSolutions_members [OF d]
  show "userId d = u" "solutionPdf d = None" "\<exists>e\<in>set ds. userId e = u \<and> d = e\<lparr>solutionPdf := None\<rparr>"
    by blast+
next
  show "sorted_wrt (\<lambda>a b. solvedAt b \<le> solvedAt a) (findUserSolutions ds u lim)"
    by (rule findUserSolutions_sorted)
next
  show "parseInt None = NaN" by (simp add: parseInt_def)
next
  assume "parseInt q = NaN"
  then show "get_solutions rt ds usr q =
           Success (map (\<lambda>d. \<lparr>sum_id = oid d, sum_assignmentTitle = assignmentTitle d,
                                sum_courseName = courseName d, sum_solvedAt = solvedAt d,
                                sum_status = status d, sum_processingTime = processingTime d\<rparr>)
                      (findUserSolutions ds (uid usr) 10))"
    by (simp add: get_solutions_def query_limit_def getSummary_fields)
next
  fix n assume "parseInt q = Whole n"
  then show "get_solutions rt ds usr q =
           Success (map (\<lambda>d. \<lparr>sum_id = oid d, sum_assignmentTitle = assignmentTitle d,
                                sum_courseName = courseName d, sum_solvedAt = solvedAt d,
                                sum_status = status d, sum_processingTime = processingTime d\<rparr>)
                      (findUserSolutions ds (uid usr) (if n = 0 then 10 else n)))"
    by (simp add: get_solutions_def query_limit_def getSummary_fields)
next
  fix n assume "parseInt q = Beyond n"
  then show "get_solutions rt ds usr q =
           (case find_limit_beyond rt n (sort_key (\<lambda>d. - solvedAt d) (filter (\<lambda>d. userId d = uid usr) ds)) of
              None \<Rightarrow> Failure 500 ''Failed to fetch solutions''
            | Some found \<Rightarrow>
                Success (map (\<lambda>d. \<lparr>sum_id = oid d, sum_assignmentTitle = assignmentTitle d,
                                     sum_courseName = courseName d, sum_solvedAt = solvedAt d,
                                     sum_status = status d, sum_processingTime = processingTime d\<rparr>)
                           (map (\<lambda>d. d\<lparr>solutionPdf := None\<rparr>) found)))"
    by (simp add: get_solutions_def query_limit_def getSummary_fields sort_solvedAt_desc_def
        select_without_pdf_def split: option.split)
qed

lemma parseInt_abc: "parseInt (Some ''abc'') = NaN"
  by (simp add: parseInt_def Let_def is_whitespace_def digit_value_def hex_digit_def)

lemma parseInt_1px: "parseInt (Some '' 1px'') = Whole 1"
  by (simp add: parseInt_def Let_def is_whitespace_def digit_value_def hex_digit_def to_number_def)

lemma parseInt_0: "parseInt (Some ''0'') = Whole 0"
  by (simp add: parseInt_def Let_def is_whitespace_def digit_value_def hex_digit_def to_number_def)

lemma parseInt_minus: "parseInt (Some ''-0x1F'') = Whole (- 31)"
  by (simp add: parseInt_def Let_def is_whitespace_def digit_value_def hex_digit_def to_number_def)

lemma parseInt_beyond: "parseInt (Some ''9007199254740993'') = Beyond 9007199254740993"
  by (simp add: parseInt_def Let_def is_whitespace_def digit_value_def hex_digit_def to_number_def)

lemma findUserSolutions_ex:
  "findUserSolutions [ex_older, ex_foreign, ex_solution] 7 1 = [ex_solution\<lparr>solutionPdf := None\<rparr>]
   \<and> findUserSolutions [ex_older, ex_foreign, ex_solution] 7 10 =
       [ex_solution\<lparr>solutionPdf := None\<rparr>, ex_older\<lparr>solutionPdf := None\<rparr>]
   \<and> sort_key (\<lambda>d. - solvedAt d) (filter (\<lambda>d. userId d = 7) [ex_older, ex_foreign, ex_solution]) =
       [ex_solution, ex_older]"
  by (simp add: findUserSolutions_def limit_docs_def sort_solvedAt_desc_def ex_solution_def
      ex_older_def ex_foreign_def select_without_pdf_def)

lemma sorted_ex:
  "sort_key (\<lambda>d. - solvedAt d) (filter (\<lambda>d. userId d = 7) [ex_older, ex_foreign, ex_solution]) =
     [ex_solution, ex_older]"
  by (simp add: ex_solution_def ex_older_def ex_foreign_def)

theorem findUserSolutions_listing_witness:
  "(0::int) < 1
   \<and> findUserSolutions [ex_older, ex_foreign, ex_solution] 7 1 = [ex_solution\<lparr>solutionPdf := None\<rparr>]
   \<and> parseInt (Some ''abc'') = NaN
   \<and> get_solutions ex_runtime [ex_older, ex_foreign, ex_solution] ex_owner (Some ''abc'') =
       Success [\<lparr>sum_id = 0, sum_assignmentTitle = ''Essay'', sum_courseName = ''History'',
                 sum_solvedAt = 1000, sum_status = ''completed'', sum_processingTime = 250\<rparr>,
                \<lparr>sum_id = 2, sum_assignmentTitle = ''Essay'', sum_courseName = ''History'',
                 sum_solvedAt = 500, sum_status = ''completed'', sum_processingTime = 250\<rparr>]
   \<and> parseInt (Some ''0'') = Whole 0
   \<and> get_solutions ex_runtime [ex_older, ex_foreign, ex_solution] ex_owner (Some ''0'') =
       Success [\<lparr>sum_id = 0, sum_assignmentTitle = ''Essay'', sum_courseName = ''History'',
                 sum_solvedAt = 1000, sum_status = ''completed'', sum_processingTime = 250\<rparr>,
                \<lparr>sum_id = 2, sum_assignmentTitle = ''Essay'', sum_courseName = ''History'',
                 sum_solvedAt = 500, sum_status = ''completed'', sum_processingTime = 250\<rparr>]
   \<and> parseInt (Some '' 1px'') = Whole 1
   \<and> get_solutions ex_runtime [ex_older, ex_foreign, ex_solution] ex_owner (Some '' 1px'') =
       Success [\<lparr>sum_id = 0, sum_assignmentTitle = ''Essay'', sum_courseName = ''History'',
                 sum_solvedAt = 1000, sum_status = ''completed'', sum_processingTime = 250\<rparr>]
   \<and> parseInt (Some ''-0x1F'') = Whole (- 31)
   \<and> parseInt (Some ''9007199254740993'') = Beyond 9007199254740993
   \<and> get_solutions ex_runtime [ex_older, ex_foreign, ex_solution] ex_owner (Some ''9007199254740993'') =
       Success [\<lparr>sum_id = 0, sum_assignmentTitle = ''Essay'', sum_courseName = ''History'',
                 sum_solvedAt = 1000, sum_status = ''completed'', sum_processingTime = 250\<rparr>,
                \<lparr>sum_id = 2, sum_assignmentTitle = ''Essay'', sum_courseName = ''History'',
                 sum_solvedAt = 500, sum_status = ''completed'', sum_processingTime = 250\<rparr>]"
proof -
  note th = findUserSolutions_listing [where ds = "[ex_older, ex_foreign, ex_solution]" and u = 7
      and lim = 1 and rt = ex_runtime and usr = ex_owner]
  have u: "uid ex_owner = 7" by (simp add: ex_owner_def)
  have flb: "find_limit_beyond ex_runtime 9007199254740993 [ex_solution, ex_older] = Some [ex_solution, ex_older]"
    by (simp add: ex_runtime_def)
  have a: "findUserSolutions [ex_older, ex_foreign, ex_solution] 7 1 = [ex_solution\<lparr>solutionPdf := None\<rparr>]"
    using th [where q = None, THEN conjunct1] findUserSolutions_ex by simp
  have b: "get_solutions ex_runtime [ex_older, ex_foreign, ex_solution] ex_owner (Some ''abc'') =
       Success [\<lparr>sum_id = 0, sum_assignmentTitle = ''Essay'', sum_courseName = ''History'',
                 sum_solvedAt = 1000, sum_status = ''completed'', sum_processingTime = 250\<rparr>,
                \<lparr>sum_id = 2, sum_assignmentTitle = ''Essay'', sum_courseName = ''History'',
                 sum_solvedAt = 500, sum_status = ''completed'', sum_processingTime = 250\<rparr>]"
    using th [where q = "Some ''abc''", THEN conjunct2, THEN conjunct2, THEN conjunct2, THEN conjunct2,
        THEN conjunct2, THEN conjunct2, THEN conjunct1, rule_format, OF parseInt_abc]
    by (simp add: u findUserSolutions_ex) (simp add: ex_solution_def ex_older_def)
  have c: "get_solutions ex_runtime [ex_older, ex_foreign, ex_solution] ex_owner (Some ''0'') =
       Success [\<lparr>sum_id = 0, sum_assignmentTitle = ''Essay'', sum_courseName = ''History'',
                 sum_solvedAt = 1000, sum_status = ''completed'', sum_processingTime = 250\<rparr>,
                \<lparr>sum_id = 2, sum_assignmentTitle = ''Essay'', sum_courseName = ''History'',
                 sum_solvedAt = 500, sum_status = ''completed'', sum_processingTime = 250\<rparr>]"
    using th [where q = "Some ''0''", THEN conjunct2, THEN conjunct2, THEN conjunct2, THEN conjunct2,
        THEN conjunct2, THEN conjunct2, THEN conjunct2, THEN conjunct1, rule_format, OF parseInt_0]
    by (simp add: u findUserSolutions_ex) (simp add: ex_solution_def ex_older_def)
  have d: "get_solutions ex_runtime [ex_older, ex_foreign, ex_solution] ex_owner (Some '' 1px'') =
       Success [\<lparr>sum_id = 0, sum_assignmentTitle = ''Essay'', sum_courseName = ''History'',
                 sum_solvedAt = 1000, sum_status = ''completed'', sum_processingTime = 250\<rparr>]"
    using th [where q = "Some '' 1px''", THEN conjunct2, THEN conjunct2, THEN conjunct2, THEN conjunct2,
        THEN conjunct2, THEN conjunct2, THEN conjunct2, THEN conjunct1, rule_format, OF parseInt_1px]
    by (simp add: u findUserSolutions_ex) (simp add: ex_solution_def)
  have e: "get_solutions ex_runtime [ex_older, ex_foreign, ex_solution] ex_owner (Some ''9007199254740993'') =
       Success [\<lparr>sum_id = 0, sum_assignmentTitle = ''Essay'', sum_courseName = ''History'',
                 sum_solvedAt = 1000, sum_status = ''completed'', sum_processingTime = 250\<rparr>,
                \<lparr>sum_id = 2, sum_assignmentTitle = ''Essay'', sum_courseName = ''History'',
                 sum_solvedAt = 500, sum_status = ''completed'', sum_processingTime = 250\<rparr>]"
    using th [where q = "Some ''9007199254740993''", THEN conjunct2, THEN conjunct2, THEN conjunct2,
        THEN conjunct2, THEN conjunct2, THEN conjunct2, THEN conjunct2, THEN conjunct2, rule_format,
        OF parseInt_beyond]
    unfolding u sorted_ex flb by (simp add: ex_solution_def ex_older_def)
  from a b c d e parseInt_abc parseInt_0 parseInt_1px parseInt_minus parseInt_beyond
  show ?thesis by simp
qed

subsection \<open>Polling for the result\<close>

lemma poll_attempts: "count_list (poll fetches a) Fetch \<le> maxAttempts - a \<or> (maxAttempts \<le> a \<and> count_list (poll fetches a) Fetch = 1)"
proof (induction fetches a rule: poll.induct)
  case (1 fetches attempts)
  show ?case
  proof (cases "fetches (attempts + 1)")
    case FetchThrows
    show ?thesis
    proof (cases "attempts + 1 < maxAttempts")
      case True
      with "1.IH"(1) [OF refl FetchThrows True] FetchThrows show ?thesis
        by (subst poll.simps) (auto simp: Let_def)
    next
      case False
      with FetchThrows show ?thesis
        by (subst poll.simps) (auto simp: Let_def)
    qed
  next
    case (Fetched ok st)
    show ?thesis
    proof (cases "ok \<and> st \<noteq> ''completed'' \<and> st \<noteq> ''failed'' \<and> st = ''processing'' \<and> attempts + 1 < maxAttempts")
      case True
      with "1.IH"(2) [OF refl Fetched] Fetched show ?thesis
        by (subst poll.simps) (auto simp: Let_def)
    next
      case False
      with Fetched show ?thesis
        by (subst poll.simps) (auto simp: Let_def)
    qed
  qed
qed

lemma poll_continue:
  "(\<forall>j. a < j \<and> j \<le> a + n \<longrightarrow> (fetches j = FetchThrows \<or> fetches j = Fetched True ''processing'')) \<Longrightarrow> a + n < maxAttempts \<Longrightarrow>
   poll fetches a = concat (replicate n [Fetch, Wait 10000]) @ poll fetches (a + n)"
proof (induction n arbitrary: a)
  case 0
  then show ?case by simp
next
  case (Suc n)
  from Suc.prems have c: "fetches (a + 1) = FetchThrows \<or> fetches (a + 1) = Fetched True ''processing''" by simp
  from Suc.prems have lt: "a + 1 < maxAttempts" by simp
  have step: "poll fetches a = [Fetch, Wait 10000] @ poll fetches (a + 1)"
    using c lt by (subst poll.simps) (auto simp: Let_def)
  have "poll fetches (a + 1) = concat (replicate n [Fetch, Wait 10000]) @ poll fetches (a + 1 + n)"
    using Suc.prems by (intro Suc.IH) auto
  with step show ?case by simp
qed

lemma poll_last: "poll fetches a \<noteq> [] \<and> (\<forall>n. last (poll fetches a) \<noteq> Wait n)"
proof (induction fetches a rule: poll.induct)
  case (1 fetches attempts)
  show ?case
  proof (cases "fetches (attempts + 1)")
    case FetchThrows
    show ?thesis
    proof (cases "attempts + 1 < maxAttempts")
      case True
      with "1.IH"(1) [OF refl FetchThrows True] FetchThrows show ?thesis
        by (subst poll.simps, subst (2) poll.simps) (auto simp: Let_def)
    next
      case False
      with FetchThrows show ?thesis
        by (subst poll.simps, subst (2) poll.simps) (auto simp: Let_def)
    qed
  next
    case (Fetched ok st)
    show ?thesis
    proof (cases "ok \<and> st \<noteq> ''completed'' \<and> st \<noteq> ''failed'' \<and> st = ''processing'' \<and> attempts + 1 < maxAttempts")
      case True
      with "1.IH"(2) [OF refl Fetched] Fetched show ?thesis
        by (subst poll.simps, subst (2) poll.simps) (auto simp: Let_def)
    next
      case False
      with Fetched show ?thesis
        by (subst poll.simps, subst (2) poll.simps) (auto simp: Let_def)
    qed
  qed
qed


lemma pollSolutionStatus_stops:
  assumes k: "0 < k" "k \<le> maxAttempts"
    and before: "\<forall>j. 0 < j \<and> j < k \<longrightarrow> fetches j = FetchThrows \<or> fetches j = Fetched True ''processing''"
  shows "pollSolutionStatus fetches =
           Wait 5000 # concat (replicate (k - 1) [Fetch, Wait 10000]) @ poll fetches (k - 1)"
proof -
  have "poll fetches 0 = concat (replicate (k - 1) [Fetch, Wait 10000]) @ poll fetches (0 + (k - 1))"
    using k before by (intro poll_continue) auto
  then show ?thesis by (simp add: pollSolutionStatus_def)
qed

text \<open>
  What holds of the loop for every sequence of fetch results. \<open>pollSolutionStatus\<close>
  fetches the solution after 5 seconds and then every 10 seconds. It makes at most 30
  attempts and never ends on a timer, so the loop always stops. While the attempts before
  the \<open>k\<close>-th throw or return \<open>processing\<close>, it stops at the \<open>k\<close>-th attempt as soon as
  that returns \<open>completed\<close> (reporting success) or \<open>failed\<close> (reporting the failure); and
  when the 30th attempt returns without one of these two statuses it stops and reports
  that solving is taking longer than expected.
\<close>

theorem pollSolutionStatus_bounded:
  "maxAttempts = 30
   \<and> count_list (pollSolutionStatus fetches) Fetch \<le> maxAttempts
   \<and> (\<forall>n. last (pollSolutionStatus fetches) \<noteq> Wait n)
   \<and> (\<forall>k. 0 < k \<and> k \<le> maxAttempts \<and>
          (\<forall>j. 0 < j \<and> j < k \<longrightarrow> fetches j = FetchThrows \<or> fetches j = Fetched True ''processing'') \<longrightarrow>
        (fetches k = Fetched True ''completed'' \<longrightarrow>
           pollSolutionStatus fetches =
             Wait 5000 # concat (replicate (k - 1) [Fetch, Wait 10000]) @ [Fetch, Report SolvedMessage])
        \<and> (fetches k = Fetched True ''failed'' \<longrightarrow>
           pollSolutionStatus fetches =
             Wait 5000 # concat (replicate (k - 1) [Fetch, Wait 10000]) @ [Fetch, Report FailedMessage])
        \<and> (k = maxAttempts \<and>
            (\<exists>ok st. fetches k = Fetched ok st \<and> \<not> (ok \<and> (st = ''completed'' \<or> st = ''failed''))) \<longrightarrow>
           pollSolutionStatus fetches =
             Wait 5000 # concat (replicate (k - 1) [Fetch, Wait 10000]) @ [Fetch, Report TakingLongerMessage]))"
proof (intro conjI allI impI)
  show "maxAttempts = 30" by (simp add: maxAttempts_def)
  show "count_list (pollSolutionStatus fetches) Fetch \<le> maxAttempts"
    using poll_attempts [of fetches 0] by (auto simp: pollSolutionStatus_def maxAttempts_def)
  show "last (pollSolutionStatus fetches) \<noteq> Wait n" for n
    using poll_last [of fetches 0] by (simp add: pollSolutionStatus_def)
next
  fix k
  assume h: "0 < k \<and> k \<le> maxAttempts \<and>
          (\<forall>j. 0 < j \<and> j < k \<longrightarrow> fetches j = FetchThrows \<or> fetches j = Fetched True ''processing'')"
  then have trace: "pollSolutionStatus fetches =
           Wait 5000 # concat (replicate (k - 1) [Fetch, Wait 10000]) @ poll fetches (k - 1)"
    by (intro pollSolutionStatus_stops) auto
  from h have k: "k - 1 + 1 = k" by simp
  show "pollSolutionStatus fetches =
             Wait 5000 # concat (replicate (k - 1) [Fetch, Wait 10000]) @ [Fetch, Report SolvedMessage]"
    if "fetches k = Fetched True ''completed''"
    using that k by (subst trace, subst poll.simps) (simp add: Let_def)
  show "pollSolutionStatus fetches =
             Wait 5000 # concat (replicate (k - 1) [Fetch, Wait 10000]) @ [Fetch, Report FailedMessage]"
    if "fetches k = Fetched True ''failed''"
    using that k by (subst trace, subst poll.simps) (simp add: Let_def)
  show "pollSolutionStatus fetches =
             Wait 5000 # concat (replicate (k - 1) [Fetch, Wait 10000]) @ [Fetch, Report TakingLongerMessage]"
    if "k = maxAttempts \<and>
            (\<exists>ok st. fetches k = Fetched ok st \<and> \<not> (ok \<and> (st = ''completed'' \<or> st = ''failed'')))"
    using that k by (subst trace, subst poll.simps) (auto simp: Let_def)
qed

theorem pollSolutionStatus_bounded_witness:
  "(0::nat) < 3 \<and> 3 \<le> maxAttempts
   \<and> ex_third_completed 1 = Fetched True ''processing''
   \<and> ex_third_completed 2 = Fetched True ''processing''
   \<and> ex_third_completed 3 = Fetched True ''completed''
   \<and> pollSolutionStatus ex_third_completed =
       [Wait 5000, Fetch, Wait 10000, Fetch, Wait 10000, Fetch, Report SolvedMessage]
   \<and> count_list (pollSolutionStatus ex_third_completed) Fetch = 3
   \<and> ex_second_failed 1 = FetchThrows
   \<and> ex_second_failed 2 = Fetched True ''failed''
   \<and> pollSolutionStatus ex_second_failed = [Wait 5000, Fetch, Wait 10000, Fetch, Report FailedMessage]
   \<and> pollSolutionStatus ex_never_done =
       Wait 5000 # concat (replicate 29 [Fetch, Wait 10000]) @ [Fetch, Report TakingLongerMessage]"
proof -
  have before: "\<forall>j. 0 < j \<and> j < 3 \<longrightarrow>
      ex_third_completed j = FetchThrows \<or> ex_third_completed j = Fetched True ''processing''"
    by (simp add: ex_third_completed_def)
  have "pollSolutionStatus ex_third_completed =
      Wait 5000 # concat (replicate (3 - 1) [Fetch, Wait 10000]) @ [Fetch, Report SolvedMessage]"
    using pollSolutionStatus_bounded
      [of ex_third_completed, THEN conjunct2, THEN conjunct2, THEN conjunct2, rule_format, of 3]
      before
    by (simp add: ex_third_completed_def maxAttempts_def)
  then have completed: "pollSolutionStatus ex_third_completed =
       [Wait 5000, Fetch, Wait 10000, Fetch, Wait 10000, Fetch, Report SolvedMessage]"
    by (simp add: numeral_2_eq_2)
  have before2: "\<forall>j. 0 < j \<and> j < 2 \<longrightarrow>
      ex_second_failed j = FetchThrows \<or> ex_second_failed j = Fetched True ''processing''"
    by (simp add: ex_second_failed_def)
  have "pollSolutionStatus ex_second_failed =
      Wait 5000 # concat (replicate (2 - 1) [Fetch, Wait 10000]) @ [Fetch, Report FailedMessage]"
    using pollSolutionStatus_bounded
      [of ex_second_failed, THEN conjunct2, THEN conjunct2, THEN conjunct2, rule_format, of 2]
      before2
    by (simp add: ex_second_failed_def maxAttempts_def)
  then have failed: "pollSolutionStatus ex_second_failed =
       [Wait 5000, Fetch, Wait 10000, Fetch, Report FailedMessage]"
    by simp
  have before30: "\<forall>j. 0 < j \<and> j < 30 \<longrightarrow>
      ex_never_done j = FetchThrows \<or> ex_never_done j = Fetched True ''processing''"
    by (simp add: ex_never_done_def)
  have "pollSolutionStatus ex_never_done =
      Wait 5000 # concat (replicate (30 - 1) [Fetch, Wait 10000]) @ [Fetch, Report TakingLongerMessage]"
    using pollSolutionStatus_bounded
      [of ex_never_done, THEN conjunct2, THEN conjunct2, THEN conjunct2, rule_format, of 30]
      before30
    by (auto simp: ex_never_done_def maxAttempts_def)
  then have longer: "pollSolutionStatus ex_never_done =
       Wait 5000 # concat (replicate 29 [Fetch, Wait 10000]) @ [Fetch, Report TakingLongerMessage]"
    by simp
  from completed have "count_list (pollSolutionStatus ex_third_completed) Fetch = 3"
    by simp
  with completed failed longer show ?thesis
    by (simp add: ex_third_completed_def ex_second_failed_def maxAttempts_def)
qed

text \<open>
  C7, where the code departs from the claim. When none of the first 29 attempts returns
  a final status and the call of \<open>getSolution\<close> throws on the 30th, the \<open>catch\<close> block
  only declines to schedule another attempt: the loop stops after 30 fetches and reports
  nothing, where the claim has it report that solving is taking longer than expected (as
  the \<open>try\<close> block does when the 30th attempt returns).
\<close>

theorem pollSolutionStatus_silent_stop:
  "(\<forall>j. 0 < j \<and> j < maxAttempts \<longrightarrow>
        fetches j = FetchThrows \<or> fetches j = Fetched True ''processing'')
   \<and> fetches maxAttempts = FetchThrows \<longrightarrow>
   pollSolutionStatus fetches = Wait 5000 # concat (replicate 29 [Fetch, Wait 10000]) @ [Fetch]
   \<and> count_list (pollSolutionStatus fetches) Fetch = 30
   \<and> (\<forall>m. Report m \<notin> set (pollSolutionStatus fetches))"
proof
  assume h: "(\<forall>j. 0 < j \<and> j < maxAttempts \<longrightarrow>
        fetches j = FetchThrows \<or> fetches j = Fetched True ''processing'')
   \<and> fetches maxAttempts = FetchThrows"
  have "poll fetches 0 = concat (replicate 29 [Fetch, Wait 10000]) @ poll fetches (0 + 29)"
    using h by (intro poll_continue) (auto simp: maxAttempts_def)
  moreover have "poll fetches 29 = [Fetch]"
    using h by (subst poll.simps) (simp add: maxAttempts_def Let_def)
  ultimately have trace: "pollSolutionStatus fetches =
      Wait 5000 # concat (replicate 29 [Fetch, Wait 10000]) @ [Fetch]"
    by (simp add: pollSolutionStatus_def)
  have count: "count_list (concat (replicate n [Fetch, Wait 10000])) Fetch = n" for n
    by (induction n) simp_all
  have none: "Report m \<notin> set (concat (replicate n [Fetch, Wait 10000]))" for m n
    by (induction n) simp_all
  show "pollSolutionStatus fetches = Wait 5000 # concat (replicate 29 [Fetch, Wait 10000]) @ [Fetch]
   \<and> count_list (pollSolutionStatus fetches) Fetch = 30
   \<and> (\<forall>m. Report m \<notin> set (pollSolutionStatus fetches))"
    unfolding trace using count [of 29] none [of _ 29] by simp
qed

theorem pollSolutionStatus_silent_stop_witness:
  "ex_last_throws 1 = Fetched True ''processing''
   \<and> ex_last_throws 29 = Fetched True ''processing''
   \<and> ex_last_throws 30 = FetchThrows
   \<and> pollSolutionStatus ex_last_throws = Wait 5000 # concat (replicate 29 [Fetch, Wait 10000]) @ [Fetch]
   \<and> count_list (pollSolutionStatus ex_last_throws) Fetch = 30
   \<and> Report TakingLongerMessage \<notin> set (pollSolutionStatus ex_last_throws)"
proof -
  have before: "(\<forall>j. 0 < j \<and> j < maxAttempts \<longrightarrow>
        ex_last_throws j = FetchThrows \<or> ex_last_throws j = Fetched True ''processing'')
   \<and> ex_last_throws maxAttempts = FetchThrows"
    by (simp add: ex_last_throws_def maxAttempts_def)
  note r = pollSolutionStatus_silent_stop [of ex_last_throws, THEN mp, OF before]
  have a: "ex_last_throws 1 = Fetched True ''processing''"
    and b: "ex_last_throws 29 = Fetched True ''processing''"
    and c: "ex_last_throws 30 = FetchThrows"
    by (simp_all add: ex_last_throws_def)
  from r have d: "Report TakingLongerMessage \<notin> set (pollSolutionStatus ex_last_throws)"
    by (rule conjunct2 [THEN conjunct2, THEN spec])
  show ?thesis using a b c d r by blast
qed

subsection \<open>Starting to solve an assignment\<close>

lemma truthy_Some: "truthy v \<longleftrightarrow> (\<exists>s. v = Some s \<and> s \<noteq> [])"
  by (cases v) (simp_all add: truthy_def)

lemma has_access_token_iff:
  "has_access_token u \<longleftrightarrow> (\<exists>g tok. googleTokens u = Some g \<and> accessToken g = Some tok \<and> tok \<noteq> [])"
  by (cases "googleTokens u") (auto simp: has_access_token_def truthy_Some)

lemma isAssignmentSolved_Some:
  "isAssignmentSolved ds usr a = Some d \<Longrightarrow>
     d \<in> set ds \<and> userId d = usr \<and> assignmentId d = a \<and> status d = ''completed''"
  unfolding isAssignmentSolved_def by (auto dest: find_Some_mem)

lemma isAssignmentSolved_None:
  "isAssignmentSolved ds usr a = None \<longleftrightarrow>
     (\<forall>d\<in>set ds. userId d = usr \<and> assignmentId d = a \<longrightarrow> status d \<noteq> ''completed'')"
  unfolding isAssignmentSolved_def find_None_all by blast

lemma post_solve_missing:
  assumes "\<not> (truthy (req_assignmentId body) \<and> truthy (req_assignmentTitle body) \<and>
              truthy (req_courseId body) \<and> truthy (req_courseName body))"
  shows "post_solve rt st u body now startTime =
           (Failure 400 ''Missing required fields: assignmentId, assignmentTitle, courseId, courseName'', st)"
  using assms
  by (cases "req_assignmentId body"; cases "req_assignmentTitle body"; cases "req_courseId body";
      cases "req_courseName body") (auto simp: post_solve_def truthy_def)

lemma post_solve_started:
  assumes "req_assignmentId body = Some aid" "req_assignmentTitle body = Some title"
    "req_courseId body = Some cid" "req_courseName body = Some cname"
    "aid \<noteq> []" "title \<noteq> []" "cid \<noteq> []" "cname \<noteq> []"
    "has_access_token u" "isAssignmentSolved (docs st) (uid u) aid = None"
    "map_materials rt (req_materials body) = Inr ms"
  shows "post_solve rt st u body now startTime =
           (Success \<lparr>r_success = True, r_message = ''Assignment solving started'',
                     r_solutionId = next_oid st, r_alreadySolved = None,
                     r_status = Some ''processing''\<rparr>,
            \<lparr>docs = docs st @ [new_solution (next_oid st) u aid title cid cname ms now],
             next_oid = Suc (next_oid st),
             tasks = tasks st @ [solveAssignmentAsync rt (next_oid st) startTime]\<rparr>)"
  using assms by (simp add: post_solve_def Let_def save_new_def new_solution_def)

lemma post_solve_materials:
  assumes "req_assignmentId body = Some aid" "req_assignmentTitle body = Some title"
    "req_courseId body = Some cid" "req_courseName body = Some cname"
    "aid \<noteq> []" "title \<noteq> []" "cid \<noteq> []" "cname \<noteq> []"
    "has_access_token u" "isAssignmentSolved (docs st) (uid u) aid = None"
    "map_materials rt (req_materials body) = Inl e"
  shows "post_solve rt st u body now startTime = (Failure 500 ''Failed to start assignment solving'', st)"
  using assms by (simp add: post_solve_def)

lemma post_solve_already:
  assumes "req_assignmentId body = Some aid" "req_assignmentTitle body = Some title"
    "req_courseId body = Some cid" "req_courseName body = Some cname"
    "aid \<noteq> []" "title \<noteq> []" "cid \<noteq> []" "cname \<noteq> []"
    "isAssignmentSolved (docs st) (uid u) aid = Some ex"
  shows "post_solve rt st u body now startTime =
           (Success \<lparr>r_success = True, r_message = ''Assignment already solved'',
                     r_solutionId = oid ex, r_alreadySolved = Some True, r_status = None\<rparr>, st)"
  using assms by (simp add: post_solve_def)

lemma material_info_eq:
  "r = \<lparr>fileId = i, fileName = t, fileUrl = l\<rparr> \<longleftrightarrow> fileId r = i \<and> fileName r = t \<and> fileUrl r = l"
  by (cases r) auto

lemma map_material_Inr:
  "map_material rt m = Inr r \<longleftrightarrow>
     m \<noteq> JNull \<and> m \<noteq> JUndefined \<and>
     castString rt (opt_prop (opt_prop (get_prop m ''driveFile'') ''driveFile'') ''id'') = Inr (fileId r) \<and>
     castString rt (opt_prop (opt_prop (get_prop m ''driveFile'') ''driveFile'') ''title'') = Inr (fileName r) \<and>
     castString rt (opt_prop (opt_prop (get_prop m ''driveFile'') ''driveFile'') ''alternateLink'') = Inr (fileUrl r)"
proof (cases "nullish m")
  case True
  then show ?thesis by (auto simp: map_material_def nullish_def)
next
  case False
  then have m: "m \<noteq> JNull" "m \<noteq> JUndefined" by (auto simp: nullish_def)
  let ?file = "opt_prop (get_prop m ''driveFile'') ''driveFile''"
  show ?thesis
  proof (cases "castString rt (opt_prop ?file ''id'')")
    case (Inl a)
    with False show ?thesis by (simp add: map_material_def Let_def)
  next
    case i: (Inr i)
    show ?thesis
    proof (cases "castString rt (opt_prop ?file ''title'')")
      case (Inl a)
      with False i show ?thesis by (simp add: map_material_def Let_def)
    next
      case t: (Inr t)
      show ?thesis
      proof (cases "castString rt (opt_prop ?file ''alternateLink'')")
        case (Inl a)
        with False i t show ?thesis by (simp add: map_material_def Let_def)
      next
        case l: (Inr l)
        have "map_material rt m = Inr \<lparr>fileId = i, fileName = t, fileUrl = l\<rparr>"
          using False i t l by (simp add: map_material_def Let_def)
        then show ?thesis
          using m i t l material_info_eq [of r i t l] by auto
      qed
    qed
  qed
qed

lemma collect_Inr: "collect rs = Inr xs \<longleftrightarrow> list_all2 (\<lambda>r x. r = Inr x) rs xs"
proof (induction rs arbitrary: xs rule: collect.induct)
  case 1
  then show ?case by auto
next
  case (2 e rs)
  then show ?case by (simp add: list_all2_Cons1)
next
  case (3 x rs)
  then show ?case
    by (cases "collect rs") (auto simp: list_all2_Cons1)
qed

lemma map_materials_array:
  "map_materials rt (JArr l) = Inr ms \<longleftrightarrow> list_all2 (\<lambda>m r. map_material rt m = Inr r) l ms"
  by (simp add: map_materials_def collect_Inr list_all2_map1)

lemma map_materials_other:
  "v \<noteq> JUndefined \<Longrightarrow> v \<noteq> JNull \<Longrightarrow> (\<forall>l. v \<noteq> JArr l) \<Longrightarrow> map_materials rt v = Inl TypeError"
  by (cases v) (simp_all add: map_materials_def)

lemma map_materials_null_entry:
  "JNull \<in> set l \<Longrightarrow> \<exists>e. map_materials rt (JArr l) = Inl e"
proof -
  assume n: "JNull \<in> set l"
  have "\<not> (\<exists>ms. map_materials rt (JArr l) = Inr ms)"
  proof
    assume "\<exists>ms. map_materials rt (JArr l) = Inr ms"
    then obtain ms where "list_all2 (\<lambda>m r. map_material rt m = Inr r) l ms"
      unfolding map_materials_array by blast
    with n obtain r where "map_material rt JNull = Inr r"
      by (auto simp: list_all2_conv_all_nth in_set_conv_nth)
    then show False by (simp add: map_material_Inr)
  qed
  then show ?thesis by (cases "map_materials rt (JArr l)") auto
qed

text \<open>
  C2, amended. A required field is missing when it is absent or empty (\<open>!assignmentId\<close>),
  and the user has an access token when \<open>googleTokens\<close> holds a non-empty \<open>accessToken\<close>.
  When the four required fields are non-empty strings, the user has an access token and
  no completed solution of the assignment, the outcome depends on \<open>materials\<close>.
  When they can be mapped (they are absent, \<open>null\<close>, or an array with no \<open>null\<close> entry
  whose drive-file id, title and link can each be stored as a string), \<open>POST /solve\<close>
  appends one new document with status \<open>processing\<close>, built from the request, and answers
  \<open>success: true\<close> with the new document's id and status \<open>processing\<close>; the answer is
  given while the solver task of the new document is still under way: with the API key
  set the task is a child process that has written nothing and has not closed. When they
  cannot be mapped the answer is 500 and the system is unchanged. When a required field is
  missing the answer is 400 and the system is unchanged.
\<close>

theorem post_solve_starts:
  "(\<forall>aid title cid cname.
      req_assignmentId body = Some aid \<and> aid \<noteq> [] \<and>
      req_assignmentTitle body = Some title \<and> title \<noteq> [] \<and>
      req_courseId body = Some cid \<and> cid \<noteq> [] \<and>
      req_courseName body = Some cname \<and> cname \<noteq> [] \<and>
      (\<exists>g tok. googleTokens u = Some g \<and> accessToken g = Some tok \<and> tok \<noteq> []) \<and>
      (\<forall>d\<in>set (docs st). userId d = uid u \<and> assignmentId d = aid \<longrightarrow> status d \<noteq> ''completed'') \<longrightarrow>
      (\<forall>ms. map_materials rt (req_materials body) = Inr ms \<longrightarrow>
         post_solve rt st u body now startTime =
           (Success \<lparr>r_success = True, r_message = ''Assignment solving started'',
                     r_solutionId = next_oid st, r_alreadySolved = None,
                     r_status = Some ''processing''\<rparr>,
            \<lparr>docs = docs st @
               [\<lparr>oid = next_oid st, userId = uid u, assignmentId = aid, assignmentTitle = title,
                 courseId = cid, courseName = cname, solutionText = None, solutionPdf = None,
                 solvedAt = now, status = ''processing'', processingTime = 0, materials = ms,
                 createdAt = now, updatedAt = now\<rparr>],
             next_oid = Suc (next_oid st),
             tasks = tasks st @
               [case GEMINI_API_KEY rt of
                  None \<Rightarrow> Caught (next_oid st) startTime ''GEMINI_API_KEY not found in environment variables''
                | Some k \<Rightarrow>
                    if k = [] then Caught (next_oid st) startTime ''GEMINI_API_KEY not found in environment variables''
                    else Child (next_oid st) startTime [] []]\<rparr>))
      \<and> ((\<exists>e. map_materials rt (req_materials body) = Inl e) \<longrightarrow>
           post_solve rt st u body now startTime =
             (Failure 500 ''Failed to start assignment solving'', st)))
   \<and> (req_assignmentId body = None \<or> req_assignmentId body = Some [] \<or>
       req_assignmentTitle body = None \<or> req_assignmentTitle body = Some [] \<or>
       req_courseId body = None \<or> req_courseId body = Some [] \<or>
       req_courseName body = None \<or> req_courseName body = Some [] \<longrightarrow>
        post_solve rt st u body now startTime =
          (Failure 400 ''Missing required fields: assignmentId, assignmentTitle, courseId, courseName'', st))
   \<and> (req_materials body = JUndefined \<or> req_materials body = JNull \<longrightarrow>
        map_materials rt (req_materials body) = Inr [])
   \<and> (\<forall>l ms. req_materials body = JArr l \<longrightarrow>
        (map_materials rt (req_materials body) = Inr ms \<longleftrightarrow>
           list_all2 (\<lambda>m r. m \<noteq> JNull \<and> m \<noteq> JUndefined \<and>
              castString rt (opt_prop (opt_prop (get_prop m ''driveFile'') ''driveFile'') ''id'')
                = Inr (fileId r) \<and>
              castString rt (opt_prop (opt_prop (get_prop m ''driveFile'') ''driveFile'') ''title'')
                = Inr (fileName r) \<and>
              castString rt (opt_prop (opt_prop (get_prop m ''driveFile'') ''driveFile'') ''alternateLink'')
                = Inr (fileUrl r)) l ms))
   \<and> ((\<exists>b. req_materials body = JBool b) \<or> (\<exists>t. req_materials body = JNum t) \<or>
       (\<exists>s. req_materials body = JStr s) \<or> (\<exists>kvs. req_materials body = JObj kvs) \<or>
       (\<exists>l. req_materials body = JArr l \<and> JNull \<in> set l) \<longrightarrow>
        (\<exists>e. map_materials rt (req_materials body) = Inl e))"
proof (intro conjI allI impI)
  fix aid title cid cname ms
  assume h: "req_assignmentId body = Some aid \<and> aid \<noteq> [] \<and>
      req_assignmentTitle body = Some title \<and> title \<noteq> [] \<and>
      req_courseId body = Some cid \<and> cid \<noteq> [] \<and>
      req_courseName body = Some cname \<and> cname \<noteq> [] \<and>
      (\<exists>g tok. googleTokens u = Some g \<and> accessToken g = Some tok \<and> tok \<noteq> []) \<and>
      (\<forall>d\<in>set (docs st). userId d = uid u \<and> assignmentId d = aid \<longrightarrow> status d \<noteq> ''completed'')"
    and ms: "map_materials rt (req_materials body) = Inr ms"
  from h have f: "req_assignmentId body = Some aid" "req_assignmentTitle body = Some title"
    "req_courseId body = Some cid" "req_courseName body = Some cname"
    "aid \<noteq> []" "title \<noteq> []" "cid \<noteq> []" "cname \<noteq> []"
    by blast+
  from h have tok: "has_access_token u" unfolding has_access_token_iff by blast
  from h have fresh: "isAssignmentSolved (docs st) (uid u) aid = None"
    unfolding isAssignmentSolved_None by blast
  have task: "solveAssignmentAsync rt (next_oid st) startTime =
      (case GEMINI_API_KEY rt of
         None \<Rightarrow> Caught (next_oid st) startTime ''GEMINI_API_KEY not found in environment variables''
       | Some k \<Rightarrow>
           if k = [] then Caught (next_oid st) startTime ''GEMINI_API_KEY not found in environment variables''
           else Child (next_oid st) startTime [] [])"
    by (cases "GEMINI_API_KEY rt") (simp_all add: solveAssignmentAsync_def truthy_def)
  show "post_solve rt st u body now startTime =
           (Success \<lparr>r_success = True, r_message = ''Assignment solving started'',
                     r_solutionId = next_oid st, r_alreadySolved = None,
                     r_status = Some ''processing''\<rparr>,
            \<lparr>docs = docs st @
               [\<lparr>oid = next_oid st, userId = uid u, assignmentId = aid, assignmentTitle = title,
                 courseId = cid, courseName = cname, solutionText = None, solutionPdf = None,
                 solvedAt = now, status = ''processing'', processingTime = 0, materials = ms,
                 createdAt = now, updatedAt = now\<rparr>],
             next_oid = Suc (next_oid st),
             tasks = tasks st @
               [case GEMINI_API_KEY rt of
                  None \<Rightarrow> Caught (next_oid st) startTime ''GEMINI_API_KEY not found in environment variables''
                | Some k \<Rightarrow>
                    if k = [] then Caught (next_oid st) startTime ''GEMINI_API_KEY not found in environment variables''
                    else Child (next_oid st) startTime [] []]\<rparr>)"
    unfolding post_solve_started [OF f tok fresh ms] task new_solution_def ..
next
  fix aid title cid cname
  assume h: "req_assignmentId body = Some aid \<and> aid \<noteq> [] \<and>
      req_assignmentTitle body = Some title \<and> title \<noteq> [] \<and>
      req_courseId body = Some cid \<and> cid \<noteq> [] \<and>
      req_courseName body = Some cname \<and> cname \<noteq> [] \<and>
      (\<exists>g tok. googleTokens u = Some g \<and> accessToken g = Some tok \<and> tok \<noteq> []) \<and>
      (\<forall>d\<in>set (docs st). userId d = uid u \<and> assignmentId d = aid \<longrightarrow> status d \<noteq> ''completed'')"
    and "\<exists>e. map_materials rt (req_materials body) = Inl e"
  then obtain e where e: "map_materials rt (req_materials body) = Inl e" by blast
  from h have f: "req_assignmentId body = Some aid" "req_assignmentTitle body = Some title"
    "req_courseId body = Some cid" "req_courseName body = Some cname"
    "aid \<noteq> []" "title \<noteq> []" "cid \<noteq> []" "cname \<noteq> []"
    by blast+
  from h have tok: "has_access_token u" unfolding has_access_token_iff by blast
  from h have fresh: "isAssignmentSolved (docs st) (uid u) aid = None"
    unfolding isAssignmentSolved_None by blast
  show "post_solve rt st u body now startTime = (Failure 500 ''Failed to start assignment solving'', st)"
    by (rule post_solve_materials [OF f tok fresh e])
next
  assume "req_assignmentId body = None \<or> req_assignmentId body = Some [] \<or>
       req_assignmentTitle body = None \<or> req_assignmentTitle body = Some [] \<or>
       req_courseId body = None \<or> req_courseId body = Some [] \<or>
       req_courseName body = None \<or> req_courseName body = Some []"
  then have "\<not> (truthy (req_assignmentId body) \<and> truthy (req_assignmentTitle body) \<and>
              truthy (req_courseId body) \<and> truthy (req_courseName body))"
    unfolding truthy_Some by auto
  then show "post_solve rt st u body now startTime =
          (Failure 400 ''Missing required fields: assignmentId, assignmentTitle, courseId, courseName'', st)"
    by (rule post_solve_missing)
next
  assume "req_materials body = JUndefined \<or> req_materials body = JNull"
  then show "map_materials rt (req_materials body) = Inr []"
    by (auto simp: map_materials_def)
next
  fix l ms assume l: "req_materials body = JArr l"
  show "map_materials rt (req_materials body) = Inr ms \<longleftrightarrow>
           list_all2 (\<lambda>m r. m \<noteq> JNull \<and> m \<noteq> JUndefined \<and>
              castString rt (opt_prop (opt_prop (get_prop m ''driveFile'') ''driveFile'') ''id'')
                = Inr (fileId r) \<and>
              castString rt (opt_prop (opt_prop (get_prop m ''driveFile'') ''driveFile'') ''title'')
                = Inr (fileName r) \<and>
              castString rt (opt_prop (opt_prop (get_prop m ''driveFile'') ''driveFile'') ''alternateLink'')
                = Inr (fileUrl r)) l ms"
    unfolding l map_materials_array map_material_Inr ..
next
  assume a: "(\<exists>b. req_materials body = JBool b) \<or> (\<exists>t. req_materials body = JNum t) \<or>
       (\<exists>s. req_materials body = JStr s) \<or> (\<exists>kvs. req_materials body = JObj kvs) \<or>
       (\<exists>l. req_materials body = JArr l \<and> JNull \<in> set l)"
  show "\<exists>e. map_materials rt (req_materials body) = Inl e"
  proof (cases "\<exists>l. req_materials body = JArr l")
    case True
    with a obtain l where "req_materials body = JArr l" "JNull \<in> set l" by auto
    then show ?thesis using map_materials_null_entry [of l rt] by simp
  next
    case False
    with a have "req_materials body \<noteq> JUndefined" "req_materials body \<noteq> JNull"
      "\<forall>l. req_materials body \<noteq> JArr l"
      by auto
    then have "map_materials rt (req_materials body) = Inl TypeError"
      by (rule map_materials_other)
    then show ?thesis by blast
  qed
qed

lemma ex_body_materials:
  "map_materials ex_runtime (req_materials ex_body) =
     Inr [\<lparr>fileId = Some ''f1'', fileName = Some ''sheet.pdf'', fileUrl = None\<rparr>]"
  by (simp add: ex_body_def map_materials_def map_material_def opt_prop_def nullish_def
      castString_def Let_def)

lemma ex_owner_token: "googleTokens ex_owner = Some \<lparr>accessToken = Some ''ya29''\<rparr>"
  by (simp add: ex_owner_def)

lemma ex_system_unsolved:
  "\<forall>d\<in>set (docs ex_system). userId d = uid ex_owner \<and> assignmentId d = ''a7'' \<longrightarrow> status d \<noteq> ''completed''"
  by (simp add: ex_system_def ex_solution_def)

text \<open>
  The four required fields are present, the user has an access token and has not solved
  assignment \<open>a7\<close>, but \<open>materials\<close> is the string \<open>x\<close>, or the array \<open>[null]\<close>: mapping
  the materials throws, the answer is 500 and no document is created.
\<close>

theorem post_solve_materials_counterexample:
  "req_assignmentId ex_text_materials = Some ''a7''
   \<and> req_assignmentTitle ex_text_materials = Some ''Lab report''
   \<and> req_courseId ex_text_materials = Some ''c1''
   \<and> req_courseName ex_text_materials = Some ''Physics''
   \<and> req_materials ex_text_materials = JStr ''x''
   \<and> googleTokens ex_owner = Some \<lparr>accessToken = Some ''ya29''\<rparr>
   \<and> isAssignmentSolved (docs ex_system) (uid ex_owner) ''a7'' = None
   \<and> post_solve ex_runtime ex_system ex_owner ex_text_materials 5000 5001 =
       (Failure 500 ''Failed to start assignment solving'', ex_system)
   \<and> req_assignmentId ex_null_material = Some ''a7''
   \<and> req_assignmentTitle ex_null_material = Some ''Lab report''
   \<and> req_courseId ex_null_material = Some ''c1''
   \<and> req_courseName ex_null_material = Some ''Physics''
   \<and> req_materials ex_null_material = JArr [JNull]
   \<and> post_solve ex_runtime ex_system ex_owner ex_null_material 5000 5001 =
       (Failure 500 ''Failed to start assignment solving'', ex_system)"
proof -
  have unsolved: "isAssignmentSolved (docs ex_system) (uid ex_owner) ''a7'' = None"
    by (simp add: isAssignmentSolved_def ex_system_def ex_solution_def)
  have token: "has_access_token ex_owner"
    by (simp add: has_access_token_def ex_owner_def truthy_def)
  have a: "post_solve ex_runtime ex_system ex_owner ex_text_materials 5000 5001 =
       (Failure 500 ''Failed to start assignment solving'', ex_system)"
    using unsolved token
    by (simp add: post_solve_def ex_text_materials_def ex_body_def map_materials_def)
  have b: "post_solve ex_runtime ex_system ex_owner ex_null_material 5000 5001 =
       (Failure 500 ''Failed to start assignment solving'', ex_system)"
    using unsolved token
    by (simp add: post_solve_def ex_null_material_def ex_body_def map_materials_def
        map_material_def nullish_def)
  from a b unsolved show ?thesis
    by (simp add: ex_text_materials_def ex_null_material_def ex_body_def ex_owner_def)
qed

theorem post_solve_starts_witness:
  "req_assignmentId ex_body = Some ''a7'' \<and> req_assignmentTitle ex_body = Some ''Lab report''
   \<and> req_courseId ex_body = Some ''c1'' \<and> req_courseName ex_body = Some ''Physics''
   \<and> googleTokens ex_owner = Some \<lparr>accessToken = Some ''ya29''\<rparr>
   \<and> map assignmentId (docs ex_system) = [''a1'']
   \<and> map_materials ex_runtime (req_materials ex_body) =
       Inr [\<lparr>fileId = Some ''f1'', fileName = Some ''sheet.pdf'', fileUrl = None\<rparr>]
   \<and> GEMINI_API_KEY ex_runtime = Some ''key''
   \<and> post_solve ex_runtime ex_system ex_owner ex_body 5000 5001 =
       (Success \<lparr>r_success = True, r_message = ''Assignment solving started'', r_solutionId = 1,
                 r_alreadySolved = None, r_status = Some ''processing''\<rparr>,
        \<lparr>docs = [ex_solution,
                  \<lparr>oid = 1, userId = 7, assignmentId = ''a7'', assignmentTitle = ''Lab report'',
                   courseId = ''c1'', courseName = ''Physics'', solutionText = None,
                   solutionPdf = None, solvedAt = 5000, status = ''processing'',
                   processingTime = 0,
                   materials = [\<lparr>fileId = Some ''f1'', fileName = Some ''sheet.pdf'', fileUrl = None\<rparr>],
                   createdAt = 5000, updatedAt = 5000\<rparr>],
         next_oid = 2, tasks = [Child 1 5001 [] []]\<rparr>)
   \<and> req_courseName ex_incomplete = None
   \<and> post_solve ex_runtime ex_system ex_owner ex_incomplete 5000 5001 =
        (Failure 400 ''Missing required fields: assignmentId, assignmentTitle, courseId, courseName'',
         ex_system)
   \<and> req_materials ex_text_materials = JStr ''x''
   \<and> post_solve ex_runtime ex_system ex_owner ex_text_materials 5000 5001 =
        (Failure 500 ''Failed to start assignment solving'', ex_system)"
proof -
  have fields: "req_assignmentId ex_body = Some ''a7'' \<and> ''a7'' \<noteq> [] \<and>
      req_assignmentTitle ex_body = Some ''Lab report'' \<and> ''Lab report'' \<noteq> [] \<and>
      req_courseId ex_body = Some ''c1'' \<and> ''c1'' \<noteq> [] \<and>
      req_courseName ex_body = Some ''Physics'' \<and> ''Physics'' \<noteq> [] \<and>
      (\<exists>g tok. googleTokens ex_owner = Some g \<and> accessToken g = Some tok \<and> tok \<noteq> []) \<and>
      (\<forall>d\<in>set (docs ex_system). userId d = uid ex_owner \<and> assignmentId d = ''a7'' \<longrightarrow> status d \<noteq> ''completed'')"
    using ex_system_unsolved by (simp add: ex_body_def ex_owner_def)
  have fields_x: "req_assignmentId ex_text_materials = Some ''a7'' \<and> ''a7'' \<noteq> [] \<and>
      req_assignmentTitle ex_text_materials = Some ''Lab report'' \<and> ''Lab report'' \<noteq> [] \<and>
      req_courseId ex_text_materials = Some ''c1'' \<and> ''c1'' \<noteq> [] \<and>
      req_courseName ex_text_materials = Some ''Physics'' \<and> ''Physics'' \<noteq> [] \<and>
      (\<exists>g tok. googleTokens ex_owner = Some g \<and> accessToken g = Some tok \<and> tok \<noteq> []) \<and>
      (\<forall>d\<in>set (docs ex_system). userId d = uid ex_owner \<and> assignmentId d = ''a7'' \<longrightarrow> status d \<noteq> ''completed'')"
    using ex_system_unsolved by (simp add: ex_text_materials_def ex_body_def ex_owner_def)
  have text_x: "req_materials ex_text_materials = JStr ''x''"
    by (simp add: ex_text_materials_def)
  note th = post_solve_starts [where rt = ex_runtime and st = ex_system and u = ex_owner
      and now = 5000 and startTime = 5001]
  have started: "post_solve ex_runtime ex_system ex_owner ex_body 5000 5001 =
       (Success \<lparr>r_success = True, r_message = ''Assignment solving started'', r_solutionId = 1,
                 r_alreadySolved = None, r_status = Some ''processing''\<rparr>,
        \<lparr>docs = [ex_solution,
                  \<lparr>oid = 1, userId = 7, assignmentId = ''a7'', assignmentTitle = ''Lab report'',
                   courseId = ''c1'', courseName = ''Physics'', solutionText = None,
                   solutionPdf = None, solvedAt = 5000, status = ''processing'',
                   processingTime = 0,
                   materials = [\<lparr>fileId = Some ''f1'', fileName = Some ''sheet.pdf'', fileUrl = None\<rparr>],
                   createdAt = 5000, updatedAt = 5000\<rparr>],
         next_oid = 2, tasks = [Child 1 5001 [] []]\<rparr>)"
    unfolding th [where body = ex_body, THEN conjunct1, rule_format, OF fields, THEN conjunct1,
        rule_format, OF ex_body_materials]
    by (simp add: ex_system_def ex_owner_def ex_runtime_def)
  have missing: "post_solve ex_runtime ex_system ex_owner ex_incomplete 5000 5001 =
        (Failure 400 ''Missing required fields: assignmentId, assignmentTitle, courseId, courseName'',
         ex_system)"
    by (rule th [where body = ex_incomplete, THEN conjunct2, THEN conjunct1, rule_format])
      (simp add: ex_incomplete_def)
  have "\<exists>e. map_materials ex_runtime (req_materials ex_text_materials) = Inl e"
    by (rule th [where body = ex_text_materials, THEN conjunct2, THEN conjunct2, THEN conjunct2,
          THEN conjunct2, rule_format])
      (simp add: text_x)
  then have failed: "post_solve ex_runtime ex_system ex_owner ex_text_materials 5000 5001 =
        (Failure 500 ''Failed to start assignment solving'', ex_system)"
    by (rule th [where body = ex_text_materials, THEN conjunct1, rule_format, OF fields_x,
          THEN conjunct2, rule_format])
  have rest: "req_assignmentId ex_body = Some ''a7'' \<and> req_assignmentTitle ex_body = Some ''Lab report''
    \<and> req_courseId ex_body = Some ''c1'' \<and> req_courseName ex_body = Some ''Physics''
    \<and> map assignmentId (docs ex_system) = [''a1'']
    \<and> GEMINI_API_KEY ex_runtime = Some ''key''
    \<and> req_courseName ex_incomplete = None"
    by (simp add: ex_body_def ex_system_def ex_solution_def ex_runtime_def ex_incomplete_def)
  show ?thesis
    using rest ex_owner_token ex_body_materials started missing text_x failed by blast
qed

subsection \<open>An assignment that is already solved\<close>

lemma post_solve_effect:
  "snd (post_solve rt st u body now startTime) = st \<or>
   (\<exists>sol t. docs (snd (post_solve rt st u body now startTime)) = docs st @ [sol] \<and>
      tasks (snd (post_solve rt st u body now startTime)) = tasks st @ [t] \<and>
      task_solution t = oid sol \<and> oid sol = next_oid st \<and> status sol = ''processing'' \<and>
      next_oid (snd (post_solve rt st u body now startTime)) = Suc (next_oid st))"
  by (auto simp: post_solve_def Let_def save_new_def new_solution_def solveAssignmentAsync_def
      split: option.splits sum.splits)

text \<open>
  C4, amended. When the requesting user already has a completed solution of the
  assignment named in the request, \<open>POST /solve\<close> leaves the whole system as it is: no
  document is created or changed and no solver task is started. When, besides, none of the
  four required fields is missing, the answer is \<open>success: true\<close>,
  \<open>alreadySolved: true\<close> and the id of a completed solution of that user and
  assignment. In general a request either leaves the system unchanged or appends exactly
  one document together with the one solver task for it.
\<close>

theorem post_solve_already_solved:
  "((\<exists>d\<in>set (docs st). userId d = uid u \<and> assignmentId d = aid \<and> status d = ''completed'') \<and>
    req_assignmentId body = Some aid \<longrightarrow>
      snd (post_solve rt st u body now startTime) = st
      \<and> (truthy (req_assignmentId body) \<and> truthy (req_assignmentTitle body) \<and>
          truthy (req_courseId body) \<and> truthy (req_courseName body) \<longrightarrow>
           (\<exists>ex\<in>set (docs st). userId ex = uid u \<and> assignmentId ex = aid \<and> status ex = ''completed'' \<and>
              fst (post_solve rt st u body now startTime) =
                Success \<lparr>r_success = True, r_message = ''Assignment already solved'',
                         r_solutionId = oid ex, r_alreadySolved = Some True, r_status = None\<rparr>)))
   \<and> (snd (post_solve rt st u body now startTime) = st \<or>
       (\<exists>sol t. docs (snd (post_solve rt st u body now startTime)) = docs st @ [sol] \<and>
          tasks (snd (post_solve rt st u body now startTime)) = tasks st @ [t] \<and>
          task_solution t = oid sol))"
proof (intro conjI impI)
  assume h: "(\<exists>d\<in>set (docs st). userId d = uid u \<and> assignmentId d = aid \<and> status d = ''completed'') \<and>
    req_assignmentId body = Some aid"
  then have "isAssignmentSolved (docs st) (uid u) aid \<noteq> None"
    unfolding isAssignmentSolved_None by blast
  then obtain ex where ex: "isAssignmentSolved (docs st) (uid u) aid = Some ex" by blast
  note mem = isAssignmentSolved_Some [OF ex]
  show "snd (post_solve rt st u body now startTime) = st"
  proof (cases "truthy (req_assignmentId body) \<and> truthy (req_assignmentTitle body) \<and>
          truthy (req_courseId body) \<and> truthy (req_courseName body)")
    case True
    with h ex show ?thesis
      by (auto simp: truthy_Some post_solve_already)
  next
    case False
    then show ?thesis by (simp add: post_solve_missing)
  qed
  assume "truthy (req_assignmentId body) \<and> truthy (req_assignmentTitle body) \<and>
          truthy (req_courseId body) \<and> truthy (req_courseName body)"
  with h ex have "fst (post_solve rt st u body now startTime) =
                Success \<lparr>r_success = True, r_message = ''Assignment already solved'',
                         r_solutionId = oid ex, r_alreadySolved = Some True, r_status = None\<rparr>"
    by (auto simp: truthy_Some post_solve_already)
  with mem show "\<exists>ex\<in>set (docs st). userId ex = uid u \<and> assignmentId ex = aid \<and> status ex = ''completed'' \<and>
              fst (post_solve rt st u body now startTime) =
                Success \<lparr>r_success = True, r_message = ''Assignment already solved'',
                         r_solutionId = oid ex, r_alreadySolved = Some True, r_status = None\<rparr>"
    by blast
next
  show "snd (post_solve rt st u body now startTime) = st \<or>
       (\<exists>sol t. docs (snd (post_solve rt st u body now startTime)) = docs st @ [sol] \<and>
          tasks (snd (post_solve rt st u body now startTime)) = tasks st @ [t] \<and>
          task_solution t = oid sol)"
    using post_solve_effect [of rt st u body now startTime] by blast
qed

text \<open>
  The user has a completed solution of assignment \<open>a1\<close>; a request for \<open>a1\<close> without
  \<open>courseName\<close> is answered 400, not \<open>alreadySolved\<close>: the required fields are checked
  first.
\<close>

theorem post_solve_already_solved_counterexample:
  "isAssignmentSolved (docs ex_system) (uid ex_owner) ''a1'' = Some ex_solution
   \<and> req_assignmentId ex_incomplete = Some ''a1''
   \<and> fst (post_solve ex_runtime ex_system ex_owner ex_incomplete 5000 5001) =
       Failure 400 ''Missing required fields: assignmentId, assignmentTitle, courseId, courseName''"
  by (simp add: isAssignmentSolved_def ex_system_def ex_solution_def ex_owner_def ex_incomplete_def
      ex_body_def post_solve_def)

theorem post_solve_already_solved_witness:
  "(\<exists>d\<in>set (docs ex_system). userId d = uid ex_owner \<and> assignmentId d = ''a1'' \<and> status d = ''completed'')
   \<and> req_assignmentId ex_retry = Some ''a1''
   \<and> truthy (req_assignmentId ex_retry) \<and> truthy (req_assignmentTitle ex_retry)
   \<and> truthy (req_courseId ex_retry) \<and> truthy (req_courseName ex_retry)
   \<and> post_solve ex_runtime ex_system ex_owner ex_retry 5000 5001 =
       (Success \<lparr>r_success = True, r_message = ''Assignment already solved'', r_solutionId = 0,
                 r_alreadySolved = Some True, r_status = None\<rparr>, ex_system)"
proof -
  have solved: "\<exists>d\<in>set (docs ex_system). userId d = uid ex_owner \<and> assignmentId d = ''a1'' \<and> status d = ''completed''"
    by (simp add: ex_system_def ex_solution_def ex_owner_def)
  have fields: "req_assignmentId ex_retry = Some ''a1''
      \<and> truthy (req_assignmentId ex_retry) \<and> truthy (req_assignmentTitle ex_retry)
      \<and> truthy (req_courseId ex_retry) \<and> truthy (req_courseName ex_retry)"
    by (simp add: ex_retry_def ex_body_def truthy_def)
  from post_solve_already_solved [of ex_system ex_owner "''a1''" ex_retry ex_runtime 5000 5001]
    solved fields
  have "snd (post_solve ex_runtime ex_system ex_owner ex_retry 5000 5001) = ex_system"
    and "\<exists>ex\<in>set (docs ex_system). fst (post_solve ex_runtime ex_system ex_owner ex_retry 5000 5001) =
                Success \<lparr>r_success = True, r_message = ''Assignment already solved'',
                         r_solutionId = oid ex, r_alreadySolved = Some True, r_status = None\<rparr>"
    by blast+
  then have "post_solve ex_runtime ex_system ex_owner ex_retry 5000 5001 =
       (Success \<lparr>r_success = True, r_message = ''Assignment already solved'', r_solutionId = 0,
                 r_alreadySolved = Some True, r_status = None\<rparr>, ex_system)"
    by (cases "post_solve ex_runtime ex_system ex_owner ex_retry 5000 5001")
      (auto simp: ex_system_def ex_solution_def)
  with solved fields show ?thesis by (simp add: truthy_def)
qed

subsection \<open>Repeated attempts\<close>

lemma findById_append_fresh:
  "\<forall>d\<in>set ds. oid d \<noteq> i \<Longrightarrow> findById (ds @ [sol]) i = (if oid sol = i then Some sol else None)"
  by (induction ds) (auto simp: findById_def)

lemma save_append_fresh:
  assumes "\<forall>e\<in>set ds. oid e \<noteq> oid d" "oid sol = oid d"
  shows "save (ds @ [sol]) d now = ds @ [d\<lparr>updatedAt := now\<rparr>]"
proof -
  from assms(1) have "map (\<lambda>e. if oid e = oid d then d\<lparr>updatedAt := now\<rparr> else e) ds = ds"
    by (intro map_idI) auto
  with assms(2) show ?thesis by (simp add: save_def)
qed

lemma on_caught_fresh:
  assumes "\<forall>d\<in>set ds. oid d \<noteq> oid sol"
  shows "on_caught (ds @ [sol]) (oid sol) t0 msg later =
           ds @ [sol\<lparr>status := ''failed'', solutionText := Some (''Solving failed: '' @ msg),
                     processingTime := later - t0, updatedAt := later\<rparr>]"
proof -
  let ?d = "sol\<lparr>status := ''failed'', solutionText := Some (''Solving failed: '' @ msg),
                 processingTime := later - t0\<rparr>"
  from assms have "findById (ds @ [sol]) (oid sol) = Some sol"
    by (simp add: findById_append_fresh)
  then have "on_caught (ds @ [sol]) (oid sol) t0 msg later = save (ds @ [sol]) ?d later"
    by (simp add: on_caught_def)
  also have "\<dots> = ds @ [?d\<lparr>updatedAt := later\<rparr>]"
    using assms by (intro save_append_fresh) simp_all
  finally show ?thesis by simp
qed

text \<open>
  C9, amended. \<open>isAssignmentSolved\<close> returns a document exactly when the user has a
  completed solution of the assignment, and then one of these. So when none of the user's
  solutions of the assignment is completed (earlier attempts are \<open>processing\<close> or
  \<open>failed\<close>), a request with the four required fields and materials that can be mapped,
  from a user with an access token, appends one more document for the same user and
  assignment, with status \<open>processing\<close>: the user then has one more document for that
  assignment than before. With the API key set, a new child process is spawned for it.
  Without the key no process is spawned: the task is the suspended \<open>catch\<close> block, and
  when it resumes the new document is marked \<open>failed\<close>.
\<close>

theorem post_solve_repeat:
  "(\<forall>d. isAssignmentSolved ds usr a = Some d \<longrightarrow>
        d \<in> set ds \<and> userId d = usr \<and> assignmentId d = a \<and> status d = ''completed'')
   \<and> (isAssignmentSolved ds usr a = None \<longleftrightarrow>
        (\<forall>d\<in>set ds. userId d = usr \<and> assignmentId d = a \<longrightarrow> status d \<noteq> ''completed''))
   \<and> (req_assignmentId body = Some aid \<and> aid \<noteq> [] \<and>
       req_assignmentTitle body = Some title \<and> title \<noteq> [] \<and>
       req_courseId body = Some cid \<and> cid \<noteq> [] \<and>
       req_courseName body = Some cname \<and> cname \<noteq> [] \<and>
       (\<exists>g tok. googleTokens u = Some g \<and> accessToken g = Some tok \<and> tok \<noteq> []) \<and>
       map_materials rt (req_materials body) = Inr ms \<and>
       (\<forall>d\<in>set (docs st). userId d = uid u \<and> assignmentId d = aid \<longrightarrow> status d \<noteq> ''completed'') \<longrightarrow>
         (\<exists>sol. docs (snd (post_solve rt st u body now startTime)) = docs st @ [sol] \<and>
            oid sol = next_oid st \<and>
            userId sol = uid u \<and> assignmentId sol = aid \<and> status sol = ''processing'' \<and>
            length (filter (\<lambda>d. userId d = uid u \<and> assignmentId d = aid)
                      (docs (snd (post_solve rt st u body now startTime)))) =
              Suc (length (filter (\<lambda>d. userId d = uid u \<and> assignmentId d = aid) (docs st))) \<and>
            ((\<exists>k. GEMINI_API_KEY rt = Some k \<and> k \<noteq> []) \<longrightarrow>
               tasks (snd (post_solve rt st u body now startTime)) =
                 tasks st @ [Child (oid sol) startTime [] []]) \<and>
            (GEMINI_API_KEY rt = None \<or> GEMINI_API_KEY rt = Some [] \<longrightarrow>
               tasks (snd (post_solve rt st u body now startTime)) =
                 tasks st @ [Caught (oid sol) startTime ''GEMINI_API_KEY not found in environment variables''] \<and>
               ((\<forall>d\<in>set (docs st). oid d \<noteq> next_oid st) \<longrightarrow>
                  (\<forall>later.
                     docs (step rt (snd (post_solve rt st u body now startTime))
                             (CatchResumes (length (tasks st)) later)) =
                       docs st @
                         [sol\<lparr>status := ''failed'',
                              solutionText :=
                                Some ''Solving failed: GEMINI_API_KEY not found in environment variables'',
                              processingTime := later - startTime, updatedAt := later\<rparr>])))))"
proof (intro conjI allI impI)
  fix d assume "isAssignmentSolved ds usr a = Some d"
  then show "d \<in> set ds" "userId d = usr" "assignmentId d = a" "status d = ''completed''"
    by (auto dest: isAssignmentSolved_Some)
next
  show "isAssignmentSolved ds usr a = None \<longleftrightarrow>
        (\<forall>d\<in>set ds. userId d = usr \<and> assignmentId d = a \<longrightarrow> status d \<noteq> ''completed'')"
    by (rule isAssignmentSolved_None)
next
  assume h: "req_assignmentId body = Some aid \<and> aid \<noteq> [] \<and>
       req_assignmentTitle body = Some title \<and> title \<noteq> [] \<and>
       req_courseId body = Some cid \<and> cid \<noteq> [] \<and>
       req_courseName body = Some cname \<and> cname \<noteq> [] \<and>
       (\<exists>g tok. googleTokens u = Some g \<and> accessToken g = Some tok \<and> tok \<noteq> []) \<and>
       map_materials rt (req_materials body) = Inr ms \<and>
       (\<forall>d\<in>set (docs st). userId d = uid u \<and> assignmentId d = aid \<longrightarrow> status d \<noteq> ''completed'')"
  then have f: "req_assignmentId body = Some aid" "req_assignmentTitle body = Some title"
    "req_courseId body = Some cid" "req_courseName body = Some cname"
    "aid \<noteq> []" "title \<noteq> []" "cid \<noteq> []" "cname \<noteq> []"
    by blast+
  from h have tok: "has_access_token u" unfolding has_access_token_iff by blast
  from h have fresh: "isAssignmentSolved (docs st) (uid u) aid = None"
    unfolding isAssignmentSolved_None by blast
  from h have ms: "map_materials rt (req_materials body) = Inr ms" by blast
  let ?sol = "new_solution (next_oid st) u aid title cid cname ms now"
  let ?msg = "''GEMINI_API_KEY not found in environment variables''"
  note eq = post_solve_started [OF f tok fresh ms, of now startTime]
  have sid: "oid ?sol = next_oid st" by (simp add: new_solution_def)
  have a: "docs (snd (post_solve rt st u body now startTime)) = docs st @ [?sol]"
    by (simp add: eq)
  have b: "oid ?sol = next_oid st \<and> userId ?sol = uid u \<and> assignmentId ?sol = aid \<and>
      status ?sol = ''processing''"
    by (simp add: new_solution_def)
  have c: "length (filter (\<lambda>d. userId d = uid u \<and> assignmentId d = aid)
                      (docs (snd (post_solve rt st u body now startTime)))) =
              Suc (length (filter (\<lambda>d. userId d = uid u \<and> assignmentId d = aid) (docs st)))"
    by (simp add: eq new_solution_def)
  have d: "(\<exists>k. GEMINI_API_KEY rt = Some k \<and> k \<noteq> []) \<longrightarrow>
               tasks (snd (post_solve rt st u body now startTime)) =
                 tasks st @ [Child (oid ?sol) startTime [] []]"
    by (auto simp: eq sid solveAssignmentAsync_def truthy_def)
  have e: "GEMINI_API_KEY rt = None \<or> GEMINI_API_KEY rt = Some [] \<longrightarrow>
               tasks (snd (post_solve rt st u body now startTime)) =
                 tasks st @ [Caught (oid ?sol) startTime ?msg] \<and>
               ((\<forall>d\<in>set (docs st). oid d \<noteq> next_oid st) \<longrightarrow>
                  (\<forall>later.
                     docs (step rt (snd (post_solve rt st u body now startTime))
                             (CatchResumes (length (tasks st)) later)) =
                       docs st @
                         [?sol\<lparr>status := ''failed'',
                              solutionText := Some ''Solving failed: GEMINI_API_KEY not found in environment variables'',
                              processingTime := later - startTime, updatedAt := later\<rparr>]))"
  proof (intro impI conjI allI)
    assume nokey: "GEMINI_API_KEY rt = None \<or> GEMINI_API_KEY rt = Some []"
    then have task: "solveAssignmentAsync rt (next_oid st) startTime = Caught (next_oid st) startTime ?msg"
      by (auto simp: solveAssignmentAsync_def truthy_def)
    show "tasks (snd (post_solve rt st u body now startTime)) =
                 tasks st @ [Caught (oid ?sol) startTime ?msg]"
      by (simp add: eq sid task)
    fix later
    assume unused: "\<forall>d\<in>set (docs st). oid d \<noteq> next_oid st"
    then have "\<forall>d\<in>set (docs st). oid d \<noteq> oid ?sol" by (simp only: sid)
    from on_caught_fresh [OF this, of startTime ?msg later]
    have "on_caught (docs st @ [?sol]) (next_oid st) startTime ?msg later =
            docs st @ [?sol\<lparr>status := ''failed'', solutionText := Some (''Solving failed: '' @ ?msg),
                            processingTime := later - startTime, updatedAt := later\<rparr>]"
      by (simp only: sid)
    then show "docs (step rt (snd (post_solve rt st u body now startTime))
                             (CatchResumes (length (tasks st)) later)) =
                       docs st @
                         [?sol\<lparr>status := ''failed'',
                              solutionText := Some ''Solving failed: GEMINI_API_KEY not found in environment variables'',
                              processingTime := later - startTime, updatedAt := later\<rparr>]"
      by (simp add: eq task)
  qed
  from a b c d e
  show "\<exists>sol. docs (snd (post_solve rt st u body now startTime)) = docs st @ [sol] \<and>
            oid sol = next_oid st \<and>
            userId sol = uid u \<and> assignmentId sol = aid \<and> status sol = ''processing'' \<and>
            length (filter (\<lambda>d. userId d = uid u \<and> assignmentId d = aid)
                      (docs (snd (post_solve rt st u body now startTime)))) =
              Suc (length (filter (\<lambda>d. userId d = uid u \<and> assignmentId d = aid) (docs st))) \<and>
            ((\<exists>k. GEMINI_API_KEY rt = Some k \<and> k \<noteq> []) \<longrightarrow>
               tasks (snd (post_solve rt st u body now startTime)) =
                 tasks st @ [Child (oid sol) startTime [] []]) \<and>
            (GEMINI_API_KEY rt = None \<or> GEMINI_API_KEY rt = Some [] \<longrightarrow>
               tasks (snd (post_solve rt st u body now startTime)) =
                 tasks st @ [Caught (oid sol) startTime ''GEMINI_API_KEY not found in environment variables''] \<and>
               ((\<forall>d\<in>set (docs st). oid d \<noteq> next_oid st) \<longrightarrow>
                  (\<forall>later.
                     docs (step rt (snd (post_solve rt st u body now startTime))
                             (CatchResumes (length (tasks st)) later)) =
                       docs st @
                         [sol\<lparr>status := ''failed'',
                              solutionText :=
                                Some ''Solving failed: GEMINI_API_KEY not found in environment variables'',
                              processingTime := later - startTime, updatedAt := later\<rparr>])))"
    by (intro exI [of _ "?sol"] conjI) (simp_all only: simp_thms)
qed

lemma ex_retry_materials:
  "map_materials rt (req_materials ex_retry) =
     Inr [\<lparr>fileId = Some ''f1'', fileName = Some ''sheet.pdf'', fileUrl = None\<rparr>]"
  by (simp add: ex_retry_def ex_body_def map_materials_def map_material_def opt_prop_def nullish_def
      castString_def Let_def)

text \<open>
  The user's earlier attempt at \<open>a1\<close> has failed and the API key is not set: the new
  request creates document 2, and the only task is the suspended \<open>catch\<close> block; no
  child process is spawned.
\<close>

theorem post_solve_repeat_counterexample:
  "map status (docs ex_failed_system) = [''failed'']
   \<and> map userId (docs ex_failed_system) = [uid ex_owner]
   \<and> map assignmentId (docs ex_failed_system) = [''a1'']
   \<and> req_assignmentId ex_retry = Some ''a1''
   \<and> GEMINI_API_KEY ex_runtime_nokey = None
   \<and> map oid (docs (snd (post_solve ex_runtime_nokey ex_failed_system ex_owner ex_retry 5000 5001))) = [1, 2]
   \<and> tasks (snd (post_solve ex_runtime_nokey ex_failed_system ex_owner ex_retry 5000 5001)) =
       [Caught 2 5001 ''GEMINI_API_KEY not found in environment variables'']"
proof -
  have "isAssignmentSolved (docs ex_failed_system) (uid ex_owner) ''a1'' = None"
    by (simp add: isAssignmentSolved_def ex_failed_system_def ex_failed_def ex_pending_def
        ex_solution_def)
  moreover have "has_access_token ex_owner"
    by (simp add: has_access_token_def ex_owner_def truthy_def)
  ultimately have "post_solve ex_runtime_nokey ex_failed_system ex_owner ex_retry 5000 5001 =
      (Success \<lparr>r_success = True, r_message = ''Assignment solving started'',
                r_solutionId = next_oid ex_failed_system, r_alreadySolved = None,
                r_status = Some ''processing''\<rparr>,
       \<lparr>docs = docs ex_failed_system @
          [new_solution (next_oid ex_failed_system) ex_owner ''a1'' ''Lab report'' ''c1'' ''Physics''
             [\<lparr>fileId = Some ''f1'', fileName = Some ''sheet.pdf'', fileUrl = None\<rparr>] 5000],
        next_oid = Suc (next_oid ex_failed_system),
        tasks = tasks ex_failed_system @
          [solveAssignmentAsync ex_runtime_nokey (next_oid ex_failed_system) 5001]\<rparr>)"
    by (intro post_solve_started ex_retry_materials) (simp_all add: ex_retry_def ex_body_def)
  then show ?thesis
    by (simp add: ex_failed_system_def ex_failed_def ex_pending_def ex_solution_def ex_owner_def
        ex_retry_def ex_body_def ex_runtime_nokey_def ex_runtime_def new_solution_def
        solveAssignmentAsync_def truthy_def)
qed

theorem post_solve_repeat_witness:
  "req_assignmentId ex_retry = Some ''a1''
   \<and> req_assignmentTitle ex_retry = Some ''Lab report''
   \<and> req_courseId ex_retry = Some ''c1''
   \<and> req_courseName ex_retry = Some ''Physics''
   \<and> googleTokens ex_owner = Some \<lparr>accessToken = Some ''ya29''\<rparr>
   \<and> map status (docs ex_failed_system) = [''failed'']
   \<and> map oid (docs ex_failed_system) = [1]
   \<and> next_oid ex_failed_system = 2
   \<and> GEMINI_API_KEY ex_runtime = Some ''key''
   \<and> map assignmentId (docs (snd (post_solve ex_runtime ex_failed_system ex_owner ex_retry 5000 5001))) =
       [''a1'', ''a1'']
   \<and> map status (docs (snd (post_solve ex_runtime ex_failed_system ex_owner ex_retry 5000 5001))) =
       [''failed'', ''processing'']
   \<and> tasks (snd (post_solve ex_runtime ex_failed_system ex_owner ex_retry 5000 5001)) =
       [Child 2 5001 [] []]
   \<and> GEMINI_API_KEY ex_runtime_nokey = None
   \<and> tasks (snd (post_solve ex_runtime_nokey ex_failed_system ex_owner ex_retry 5000 5001)) =
       [Caught 2 5001 ''GEMINI_API_KEY not found in environment variables'']
   \<and> map (\<lambda>d. (oid d, status d, solutionText d))
        (docs (step ex_runtime_nokey
                (snd (post_solve ex_runtime_nokey ex_failed_system ex_owner ex_retry 5000 5001))
                (CatchResumes 0 5002))) =
       [(1, ''failed'', Some ''Solving failed: Unknown error''),
        (2, ''failed'', Some ''Solving failed: GEMINI_API_KEY not found in environment variables'')]"
proof -
  have hyp: "req_assignmentId ex_retry = Some ''a1'' \<and> ''a1'' \<noteq> [] \<and>
       req_assignmentTitle ex_retry = Some ''Lab report'' \<and> ''Lab report'' \<noteq> [] \<and>
       req_courseId ex_retry = Some ''c1'' \<and> ''c1'' \<noteq> [] \<and>
       req_courseName ex_retry = Some ''Physics'' \<and> ''Physics'' \<noteq> [] \<and>
       (\<exists>g tok. googleTokens ex_owner = Some g \<and> accessToken g = Some tok \<and> tok \<noteq> []) \<and>
       map_materials rt (req_materials ex_retry) =
         Inr [\<lparr>fileId = Some ''f1'', fileName = Some ''sheet.pdf'', fileUrl = None\<rparr>] \<and>
       (\<forall>d\<in>set (docs ex_failed_system).
           userId d = uid ex_owner \<and> assignmentId d = ''a1'' \<longrightarrow> status d \<noteq> ''completed'')" for rt
    using ex_retry_materials [of rt]
    by (simp add: ex_retry_def ex_body_def ex_owner_def ex_failed_system_def ex_failed_def
        ex_pending_def ex_solution_def)
  have sys: "docs ex_failed_system = [ex_failed]" "tasks ex_failed_system = []"
    "next_oid ex_failed_system = 2"
    by (simp_all add: ex_failed_system_def)
  have doc: "oid ex_failed = 1" "status ex_failed = ''failed''" "assignmentId ex_failed = ''a1''"
    "solutionText ex_failed = Some ''Solving failed: Unknown error''"
    by (simp_all add: ex_failed_def ex_pending_def ex_solution_def)
  have key: "GEMINI_API_KEY ex_runtime = Some ''key''" and nokey: "GEMINI_API_KEY ex_runtime_nokey = None"
    by (simp_all add: ex_runtime_def ex_runtime_nokey_def)
  note th = post_solve_repeat [where body = ex_retry and u = ex_owner and st = ex_failed_system
      and now = 5000 and startTime = 5001 and ds = "[]" and usr = 0 and a = "[]",
      THEN conjunct2, THEN conjunct2, rule_format]
  from th [OF hyp, of ex_runtime]
  obtain sol where sol:
    "docs (snd (post_solve ex_runtime ex_failed_system ex_owner ex_retry 5000 5001)) =
       docs ex_failed_system @ [sol]"
    "oid sol = next_oid ex_failed_system" "assignmentId sol = ''a1''" "status sol = ''processing''"
    "(\<exists>k. GEMINI_API_KEY ex_runtime = Some k \<and> k \<noteq> []) \<longrightarrow>
       tasks (snd (post_solve ex_runtime ex_failed_system ex_owner ex_retry 5000 5001)) =
         tasks ex_failed_system @ [Child (oid sol) 5001 [] []]"
    by blast
  from sol(5) key
  have child: "tasks (snd (post_solve ex_runtime ex_failed_system ex_owner ex_retry 5000 5001)) =
      [Child 2 5001 [] []]"
    by (simp add: sys sol(2))
  from th [OF hyp, of ex_runtime_nokey]
  obtain sol' where sol':
    "oid sol' = next_oid ex_failed_system"
    "GEMINI_API_KEY ex_runtime_nokey = None \<or> GEMINI_API_KEY ex_runtime_nokey = Some [] \<longrightarrow>
       tasks (snd (post_solve ex_runtime_nokey ex_failed_system ex_owner ex_retry 5000 5001)) =
         tasks ex_failed_system @ [Caught (oid sol') 5001 ''GEMINI_API_KEY not found in environment variables''] \<and>
       ((\<forall>d\<in>set (docs ex_failed_system). oid d \<noteq> next_oid ex_failed_system) \<longrightarrow>
          (\<forall>later.
             docs (step ex_runtime_nokey
                     (snd (post_solve ex_runtime_nokey ex_failed_system ex_owner ex_retry 5000 5001))
                     (CatchResumes (length (tasks ex_failed_system)) later)) =
               docs ex_failed_system @
                 [sol'\<lparr>status := ''failed'',
                       solutionText :=
                         Some ''Solving failed: GEMINI_API_KEY not found in environment variables'',
                       processingTime := later - 5001, updatedAt := later\<rparr>]))"
    by blast
  from nokey have absent: "GEMINI_API_KEY ex_runtime_nokey = None \<or> GEMINI_API_KEY ex_runtime_nokey = Some []"
    by (rule disjI1)
  note both = sol'(2) [THEN mp, OF absent]
  note resumed = both [THEN conjunct2]
  from both [THEN conjunct1]
  have caught: "tasks (snd (post_solve ex_runtime_nokey ex_failed_system ex_owner ex_retry 5000 5001)) =
      [Caught 2 5001 ''GEMINI_API_KEY not found in environment variables'']"
    by (simp add: sys sol'(1))
  have "\<forall>d\<in>set (docs ex_failed_system). oid d \<noteq> next_oid ex_failed_system"
    by (simp add: sys doc)
  with resumed
  have "docs (step ex_runtime_nokey
                (snd (post_solve ex_runtime_nokey ex_failed_system ex_owner ex_retry 5000 5001))
                (CatchResumes (length (tasks ex_failed_system)) 5002)) =
          docs ex_failed_system @
            [sol'\<lparr>status := ''failed'',
                  solutionText :=
                    Some ''Solving failed: GEMINI_API_KEY not found in environment variables'',
                  processingTime := 5002 - 5001, updatedAt := 5002\<rparr>]"
    by blast
  then have failed: "map (\<lambda>d. (oid d, status d, solutionText d))
        (docs (step ex_runtime_nokey
                (snd (post_solve ex_runtime_nokey ex_failed_system ex_owner ex_retry 5000 5001))
                (CatchResumes 0 5002))) =
       [(1, ''failed'', Some ''Solving failed: Unknown error''),
        (2, ''failed'', Some ''Solving failed: GEMINI_API_KEY not found in environment variables'')]"
    by (simp add: sys doc sol'(1))
  have listing: "map assignmentId (docs (snd (post_solve ex_runtime ex_failed_system ex_owner ex_retry 5000 5001))) =
       [''a1'', ''a1'']"
    "map status (docs (snd (post_solve ex_runtime ex_failed_system ex_owner ex_retry 5000 5001))) =
       [''failed'', ''processing'']"
    by (simp_all add: sol sys doc)
  have rest: "req_assignmentId ex_retry = Some ''a1''
   \<and> req_assignmentTitle ex_retry = Some ''Lab report''
   \<and> req_courseId ex_retry = Some ''c1''
   \<and> req_courseName ex_retry = Some ''Physics''
   \<and> map status (docs ex_failed_system) = [''failed'']
   \<and> map oid (docs ex_failed_system) = [1]"
    by (simp add: ex_retry_def ex_body_def sys doc)
  show ?thesis
    using rest ex_owner_token sys(3) key listing child nokey caught failed by blast
qed

subsection \<open>The completion callback\<close>

lemma trim_spec:
  "(\<exists>a b. s = a @ trim s @ b \<and> (\<forall>c\<in>set a. is_whitespace c) \<and> (\<forall>c\<in>set b. is_whitespace c))
   \<and> (trim s \<noteq> [] \<longrightarrow> \<not> is_whitespace (hd (trim s)) \<and> \<not> is_whitespace (last (trim s)))"
proof
  let ?rest = "dropWhile is_whitespace s"
  let ?ys = "dropWhile is_whitespace (rev ?rest)"
  have t: "trim s = rev ?ys" by (simp add: trim_def)
  have "rev ?rest = takeWhile is_whitespace (rev ?rest) @ ?ys"
    by (rule takeWhile_dropWhile_id [symmetric])
  then have "rev (rev ?rest) = rev (takeWhile is_whitespace (rev ?rest) @ ?ys)" by (rule arg_cong)
  then have "?rest = rev ?ys @ rev (takeWhile is_whitespace (rev ?rest))"
    by (simp only: rev_rev_ident rev_append)
  then have rest: "?rest = trim s @ rev (takeWhile is_whitespace (rev ?rest))"
    by (simp only: t)
  have whole: "s = takeWhile is_whitespace s @ ?rest"
    by (rule takeWhile_dropWhile_id [symmetric])
  from rest have "takeWhile is_whitespace s @ ?rest =
      takeWhile is_whitespace s @ trim s @ rev (takeWhile is_whitespace (rev ?rest))"
    by (rule arg_cong)
  with whole have "s = takeWhile is_whitespace s @ trim s @ rev (takeWhile is_whitespace (rev ?rest))"
    by (rule trans)
  moreover have "\<forall>c\<in>set (takeWhile is_whitespace s). is_whitespace c"
    by (auto dest: set_takeWhileD)
  moreover have "\<forall>c\<in>set (rev (takeWhile is_whitespace (rev ?rest))). is_whitespace c"
    by (auto dest: set_takeWhileD)
  ultimately show "\<exists>a b. s = a @ trim s @ b \<and> (\<forall>c\<in>set a. is_whitespace c) \<and> (\<forall>c\<in>set b. is_whitespace c)"
    by blast
  show "trim s \<noteq> [] \<longrightarrow> \<not> is_whitespace (hd (trim s)) \<and> \<not> is_whitespace (last (trim s))"
  proof
    assume ne: "trim s \<noteq> []"
    then have ys: "?ys \<noteq> []" by (simp add: t)
    then have "\<not> is_whitespace (hd ?ys)" by (rule hd_dropWhile)
    then have l: "\<not> is_whitespace (last (trim s))" using ys by (simp add: t last_rev)
    have r: "?rest \<noteq> []"
    proof
      assume e: "?rest = []"
      have "trim s = rev (dropWhile is_whitespace (rev ?rest))" by (simp only: trim_def)
      also have "\<dots> = []" unfolding e by simp
      finally show False using ne by simp
    qed
    then have "\<not> is_whitespace (hd ?rest)" by (rule hd_dropWhile)
    moreover from rest ne have "hd ?rest = hd (trim s)"
      by (metis hd_append2)
    ultimately show "\<not> is_whitespace (hd (trim s)) \<and> \<not> is_whitespace (last (trim s))"
      using l by simp
  qed
qed

lemma completed_try_null:
  "nullish (parsedResult rt out) \<Longrightarrow> completed_try rt sol out processing now = Inl TypeError"
  by (simp add: completed_try_def Let_def)

lemma completed_try_made:
  "\<exists>pdf. (if truthy_val pb then (case Buffer_from_hex rt pb of Inr b \<Rightarrow> Inr b | Inl e \<Rightarrow> createSimplePdf stamp v)
          else createSimplePdf stamp v) = (Inr pdf :: js_error + buffer)"
proof -
  obtain b where "createSimplePdf stamp v = Inr b"
    using createSimplePdf_returns by blast
  then show ?thesis by (cases "Buffer_from_hex rt pb") auto
qed

lemma completed_try_uncast:
  assumes "\<not> nullish (parsedResult rt out)"
    and "castString rt (js_or_val (get_prop (parsedResult rt out) ''solutionText'') (JStr out)) = Inl e"
  shows "completed_try rt sol out processing now = Inl e"
proof -
  obtain pdf where
    "(if truthy_val (get_prop (parsedResult rt out) ''pdfBytes'')
      then (case Buffer_from_hex rt (get_prop (parsedResult rt out) ''pdfBytes'') of
              Inr b \<Rightarrow> Inr b
            | Inl e \<Rightarrow> createSimplePdf (toISOString rt now)
                        (js_or_val (get_prop (parsedResult rt out) ''solutionText'') (JStr out)))
      else createSimplePdf (toISOString rt now)
             (js_or_val (get_prop (parsedResult rt out) ''solutionText'') (JStr out)))
     = (Inr pdf :: js_error + buffer)"
    using completed_try_made by blast
  with assms show ?thesis by (simp add: completed_try_def Let_def)
qed

lemma completed_try_cast:
  assumes "\<not> nullish (parsedResult rt out)"
    and "castString rt (js_or_val (get_prop (parsedResult rt out) ''solutionText'') (JStr out)) = Inr stored"
  shows "\<exists>pdf. completed_try rt sol out processing now =
           Inr (sol\<lparr>solutionText := stored, solutionPdf := pdf, status := ''completed'',
                    processingTime := processing\<rparr>)"
proof -
  obtain pdf where
    "(if truthy_val (get_prop (parsedResult rt out) ''pdfBytes'')
      then (case Buffer_from_hex rt (get_prop (parsedResult rt out) ''pdfBytes'') of
              Inr b \<Rightarrow> Inr b
            | Inl e \<Rightarrow> createSimplePdf (toISOString rt now)
                        (js_or_val (get_prop (parsedResult rt out) ''solutionText'') (JStr out)))
      else createSimplePdf (toISOString rt now)
             (js_or_val (get_prop (parsedResult rt out) ''solutionText'') (JStr out)))
     = (Inr pdf :: js_error + buffer)"
    using completed_try_made by blast
  with assms have "completed_try rt sol out processing now =
           Inr (sol\<lparr>solutionText := stored,
                    solutionPdf := (if pdf \<noteq> [] then Some pdf else solutionPdf sol),
                    status := ''completed'', processingTime := processing\<rparr>)"
    by (simp add: completed_try_def Let_def)
  then show ?thesis by (rule exI)
qed

lemma on_close_completed:
  assumes found: "findById ds sid = Some sol"
    and ok: "trim out \<noteq> []"
    and parsed: "\<not> nullish (parsedResult rt out)"
    and cast: "castString rt (js_or_val (get_prop (parsedResult rt out) ''solutionText'') (JStr out)) = Inr stored"
  shows "\<exists>d. findById (on_close rt ds sid t0 out err (Some 0) now) sid = Some d
           \<and> status d = ''completed'' \<and> solutionText d = stored
           \<and> processingTime d = now - t0"
proof -
  from completed_try_cast [OF parsed cast, of sol "now - t0" now]
  obtain pdf where upd: "completed_try rt sol out (now - t0) now =
      Inr (sol\<lparr>solutionText := stored, solutionPdf := pdf, status := ''completed'',
               processingTime := now - t0\<rparr>)"
    by blast
  let ?upd = "sol\<lparr>solutionText := stored, solutionPdf := pdf, status := ''completed'',
               processingTime := now - t0\<rparr>"
  from found have "oid ?upd = sid" by (simp add: findById_oid)
  from findById_save [OF found this]
  have "findById (save ds ?upd now) sid = Some (?upd\<lparr>updatedAt := now\<rparr>)" .
  moreover have "on_close rt ds sid t0 out err (Some 0) now = save ds ?upd now"
    using found ok upd by (simp add: on_close_def Let_def)
  ultimately show ?thesis by simp
qed

lemma on_close_unsaved:
  assumes found: "findById ds sid = Some sol"
    and ok: "trim out \<noteq> []"
    and thrown: "nullish (parsedResult rt out) \<or>
      (\<exists>e. castString rt (js_or_val (get_prop (parsedResult rt out) ''solutionText'') (JStr out)) = Inl e)"
  shows "on_close rt ds sid t0 out err (Some 0) now = ds"
proof -
  have "\<exists>e. completed_try rt sol out (now - t0) now = Inl e"
  proof (cases "nullish (parsedResult rt out)")
    case True
    then show ?thesis by (simp add: completed_try_null)
  next
    case False
    with thrown obtain e where
      "castString rt (js_or_val (get_prop (parsedResult rt out) ''solutionText'') (JStr out)) = Inl e"
      by blast
    from completed_try_uncast [OF False this] show ?thesis by blast
  qed
  then obtain e where "completed_try rt sol out (now - t0) now = Inl e" by blast
  with found ok show ?thesis by (simp add: on_close_def Let_def)
qed

lemma on_close_failed:
  assumes found: "findById ds sid = Some sol"
    and bad: "\<not> (code = Some 0 \<and> trim out \<noteq> [])"
  shows "\<exists>d. findById (on_close rt ds sid t0 out err code now) sid = Some d
           \<and> status d = ''failed''
           \<and> solutionText d = Some (''Solving failed: '' @ (if err = [] then ''Unknown error'' else err))
           \<and> processingTime d = now - t0"
proof -
  let ?upd = "failed_update sol err (now - t0)"
  from found have "oid sol = sid" by (simp add: findById_oid)
  then have "oid ?upd = sid" by (simp add: failed_update_def)
  from findById_save [OF found this]
  have "findById (save ds ?upd now) sid = Some (?upd\<lparr>updatedAt := now\<rparr>)" .
  moreover have "on_close rt ds sid t0 out err code now = save ds ?upd now"
    using found bad by (auto simp: on_close_def Let_def)
  moreover have "status ?upd = ''failed'' \<and>
      solutionText ?upd = Some (''Solving failed: '' @ (if err = [] then ''Unknown error'' else err))
      \<and> processingTime ?upd = now - t0"
    by (simp add: failed_update_def)
  ultimately show ?thesis by simp
qed

lemma foldl_on_stdout:
  "foldl on_stdout (Child sid t0 out0 err0) chunks = Child sid t0 (out0 @ concat chunks) err0"
  by (induction chunks arbitrary: out0) simp_all

lemma foldl_on_stderr:
  "foldl on_stderr (Child sid t0 out0 err0) chunks = Child sid t0 out0 (err0 @ concat chunks)"
  by (induction chunks arbitrary: err0) simp_all

lemma parsedResult_plain:
  "JSON_parse rt out = None \<Longrightarrow> parsedResult rt out = JObj [(''solutionText'', JStr (trim out))]"
  by (simp add: parsedResult_def)

lemma parsedResult_json: "JSON_parse rt out = Some pv \<Longrightarrow> parsedResult rt out = pv"
  by (simp add: parsedResult_def)

lemma whitespace_mem:
  "c \<in> {CHR 0x09, CHR 0x0A, CHR 0x0B, CHR 0x0C, CHR 0x0D, CHR 0x20, CHR 0xA0} \<longleftrightarrow> is_whitespace c"
  by (simp add: is_whitespace_def)

lemma on_close_json:
  assumes found: "findById ds sid = Some sol"
    and ok: "trim out \<noteq> []"
    and json: "JSON_parse rt out = Some pv"
    and pv: "pv \<noteq> JNull" "pv \<noteq> JUndefined"
    and cast: "castString rt (js_or_val (get_prop pv ''solutionText'') (JStr out)) = Inr stored"
  shows "\<exists>d. findById (on_close rt ds sid t0 out err (Some 0) now) sid = Some d
           \<and> status d = ''completed'' \<and> solutionText d = stored
           \<and> processingTime d = now - t0"
proof -
  have parsed: "\<not> nullish (parsedResult rt out)"
    using pv by (simp add: parsedResult_json [OF json] nullish_def)
  have "castString rt (js_or_val (get_prop (parsedResult rt out) ''solutionText'') (JStr out)) = Inr stored"
    using cast by (simp add: parsedResult_json [OF json])
  from on_close_completed [OF found ok parsed this] show ?thesis .
qed

lemma on_close_stdout_part:
  "foldl on_stdout (Child sid t0 out0 err0) chunks = Child sid t0 (out0 @ concat chunks) err0"
  by (rule foldl_on_stdout)

lemma on_close_stderr_part:
  "foldl on_stderr (Child sid t0 out0 err0) chunks = Child sid t0 out0 (err0 @ concat chunks)"
  by (rule foldl_on_stderr)

lemma on_close_trim_part:
  "((\<exists>a b. out = a @ trim out @ b \<and> set a \<subseteq> {CHR 0x09, CHR 0x0A, CHR 0x0B, CHR 0x0C, CHR 0x0D, CHR 0x20, CHR 0xA0} \<and>
         set b \<subseteq> {CHR 0x09, CHR 0x0A, CHR 0x0B, CHR 0x0C, CHR 0x0D, CHR 0x20, CHR 0xA0}) \<and>
    (trim out \<noteq> [] \<longrightarrow> hd (trim out) \<notin> {CHR 0x09, CHR 0x0A, CHR 0x0B, CHR 0x0C, CHR 0x0D, CHR 0x20, CHR 0xA0} \<and>
         last (trim out) \<notin> {CHR 0x09, CHR 0x0A, CHR 0x0B, CHR 0x0C, CHR 0x0D, CHR 0x20, CHR 0xA0}))"
  using trim_spec [of out] unfolding whitespace_set whitespace_mem by blast

lemma on_close_missing_part:
  "(findById ds sid = None \<longrightarrow> on_close rt ds sid t0 out err code now = ds)"
  by (simp add: on_close_def)

lemma on_close_plain_part:
  "(findById ds sid = Some sol \<and> code = Some 0 \<and> trim out \<noteq> [] \<and> JSON_parse rt out = None \<longrightarrow>
      (\<exists>d. findById (on_close rt ds sid t0 out err code now) sid = Some d \<and> status d = ''completed'' \<and>
          solutionText d = Some (trim out) \<and> processingTime d = now - t0))"
proof
  assume h: "findById ds sid = Some sol \<and> code = Some 0 \<and> trim out \<noteq> [] \<and> JSON_parse rt out = None"
  then have found: "findById ds sid = Some sol" and code: "code = Some 0" and ok: "trim out \<noteq> []"
    and plain: "JSON_parse rt out = None"
    by blast+
  have parsed: "\<not> nullish (parsedResult rt out)"
    by (simp add: parsedResult_plain [OF plain] nullish_def)
  have cast: "castString rt (js_or_val (get_prop (parsedResult rt out) ''solutionText'') (JStr out)) =
      Inr (Some (trim out))"
    using ok by (simp add: parsedResult_plain [OF plain] js_or_val_def castString_def)
  from on_close_completed [OF found ok parsed cast, of t0 err now]
  show "\<exists>d. findById (on_close rt ds sid t0 out err code now) sid = Some d \<and> status d = ''completed'' \<and>
          solutionText d = Some (trim out) \<and> processingTime d = now - t0"
    unfolding code .
qed

lemma on_close_null_part:
  "(\<forall>pv. findById ds sid = Some sol \<and> code = Some 0 \<and> trim out \<noteq> [] \<and>
      JSON_parse rt out = Some pv \<and> (pv = JNull \<or> pv = JUndefined) \<longrightarrow>
      on_close rt ds sid t0 out err code now = ds)"
proof (intro allI impI)
  fix pv
  assume h: "findById ds sid = Some sol \<and> code = Some 0 \<and> trim out \<noteq> [] \<and>
      JSON_parse rt out = Some pv \<and> (pv = JNull \<or> pv = JUndefined)"
  then have found: "findById ds sid = Some sol" and code: "code = Some 0" and ok: "trim out \<noteq> []"
    and json: "JSON_parse rt out = Some pv" and pv: "pv = JNull \<or> pv = JUndefined"
    by blast+
  from pv have "nullish (parsedResult rt out)"
    by (auto simp: parsedResult_json [OF json] nullish_def)
  then have "nullish (parsedResult rt out) \<or>
      (\<exists>e. castString rt (js_or_val (get_prop (parsedResult rt out) ''solutionText'') (JStr out)) = Inl e)"
    by (rule disjI1)
  from on_close_unsaved [OF found ok this, of t0 err now]
  show "on_close rt ds sid t0 out err code now = ds"
    unfolding code .
qed

lemma on_close_string_part:
  "(\<forall>pv s. findById ds sid = Some sol \<and> code = Some 0 \<and> trim out \<noteq> [] \<and>
      JSON_parse rt out = Some pv \<and> pv \<noteq> JNull \<and> pv \<noteq> JUndefined \<and>
      get_prop pv ''solutionText'' = JStr s \<and> s \<noteq> [] \<longrightarrow>
      (\<exists>d. findById (on_close rt ds sid t0 out err code now) sid = Some d \<and> status d = ''completed'' \<and>
          solutionText d = Some s \<and> processingTime d = now - t0))"
proof (intro allI impI)
  fix pv s
  assume h: "findById ds sid = Some sol \<and> code = Some 0 \<and> trim out \<noteq> [] \<and>
      JSON_parse rt out = Some pv \<and> pv \<noteq> JNull \<and> pv \<noteq> JUndefined \<and>
      get_prop pv ''solutionText'' = JStr s \<and> s \<noteq> []"
  then have found: "findById ds sid = Some sol" and code: "code = Some 0" and ok: "trim out \<noteq> []"
    and json: "JSON_parse rt out = Some pv" and pv: "pv \<noteq> JNull" "pv \<noteq> JUndefined"
    by blast+
  from h have field: "get_prop pv ''solutionText'' = JStr s \<and> s \<noteq> []" by blast
  from ok have out: "out \<noteq> []" by (auto simp: trim_def)
  have cast: "castString rt (js_or_val (get_prop pv ''solutionText'') (JStr out)) = Inr (Some s)"
    using field out by (auto simp: js_or_val_def castString_def)
  from on_close_json [OF found ok json pv cast, of t0 err now]
  show "\<exists>d. findById (on_close rt ds sid t0 out err code now) sid = Some d \<and> status d = ''completed'' \<and>
          solutionText d = Some s \<and> processingTime d = now - t0"
    unfolding code .
qed

lemma on_close_falsy_part:
  "(\<forall>pv. findById ds sid = Some sol \<and> code = Some 0 \<and> trim out \<noteq> [] \<and>
      JSON_parse rt out = Some pv \<and> pv \<noteq> JNull \<and> pv \<noteq> JUndefined \<and>
      (get_prop pv ''solutionText'' = JUndefined \<or> get_prop pv ''solutionText'' = JNull \<or>
       get_prop pv ''solutionText'' = JStr [] \<or> get_prop pv ''solutionText'' = JBool False \<or>
       get_prop pv ''solutionText'' = JNum ''0'') \<longrightarrow>
      (\<exists>d. findById (on_close rt ds sid t0 out err code now) sid = Some d \<and> status d = ''completed'' \<and>
          solutionText d = Some out \<and> processingTime d = now - t0))"
proof (intro allI impI)
  fix pv
  assume h: "findById ds sid = Some sol \<and> code = Some 0 \<and> trim out \<noteq> [] \<and>
      JSON_parse rt out = Some pv \<and> pv \<noteq> JNull \<and> pv \<noteq> JUndefined \<and>
      (get_prop pv ''solutionText'' = JUndefined \<or> get_prop pv ''solutionText'' = JNull \<or>
       get_prop pv ''solutionText'' = JStr [] \<or> get_prop pv ''solutionText'' = JBool False \<or>
       get_prop pv ''solutionText'' = JNum ''0'')"
  then have found: "findById ds sid = Some sol" and code: "code = Some 0" and ok: "trim out \<noteq> []"
    and json: "JSON_parse rt out = Some pv" and pv: "pv \<noteq> JNull" "pv \<noteq> JUndefined"
    by blast+
  from h have field: "get_prop pv ''solutionText'' = JUndefined \<or> get_prop pv ''solutionText'' = JNull \<or> get_prop pv ''solutionText'' = JStr [] \<or> get_prop pv ''solutionText'' = JBool False \<or> get_prop pv ''solutionText'' = JNum ''0''" by blast
  from ok have out: "out \<noteq> []" by (auto simp: trim_def)
  have cast: "castString rt (js_or_val (get_prop pv ''solutionText'') (JStr out)) = Inr (Some out)"
    using field out by (auto simp: js_or_val_def castString_def)
  from on_close_json [OF found ok json pv cast, of t0 err now]
  show "\<exists>d. findById (on_close rt ds sid t0 out err code now) sid = Some d \<and> status d = ''completed'' \<and>
          solutionText d = Some out \<and> processingTime d = now - t0"
    unfolding code .
qed

lemma on_close_number_part:
  "(\<forall>pv t. findById ds sid = Some sol \<and> code = Some 0 \<and> trim out \<noteq> [] \<and>
      JSON_parse rt out = Some pv \<and> pv \<noteq> JNull \<and> pv \<noteq> JUndefined \<and>
      get_prop pv ''solutionText'' = JNum t \<and> t \<noteq> ''0'' \<longrightarrow>
      (\<exists>d. findById (on_close rt ds sid t0 out err code now) sid = Some d \<and> status d = ''completed'' \<and>
          solutionText d = Some t \<and> processingTime d = now - t0))"
proof (intro allI impI)
  fix pv t
  assume h: "findById ds sid = Some sol \<and> code = Some 0 \<and> trim out \<noteq> [] \<and>
      JSON_parse rt out = Some pv \<and> pv \<noteq> JNull \<and> pv \<noteq> JUndefined \<and>
      get_prop pv ''solutionText'' = JNum t \<and> t \<noteq> ''0''"
  then have found: "findById ds sid = Some sol" and code: "code = Some 0" and ok: "trim out \<noteq> []"
    and json: "JSON_parse rt out = Some pv" and pv: "pv \<noteq> JNull" "pv \<noteq> JUndefined"
    by blast+
  from h have field: "get_prop pv ''solutionText'' = JNum t \<and> t \<noteq> ''0''" by blast
  from ok have out: "out \<noteq> []" by (auto simp: trim_def)
  have cast: "castString rt (js_or_val (get_prop pv ''solutionText'') (JStr out)) = Inr (Some t)"
    using field out by (auto simp: js_or_val_def castString_def)
  from on_close_json [OF found ok json pv cast, of t0 err now]
  show "\<exists>d. findById (on_close rt ds sid t0 out err code now) sid = Some d \<and> status d = ''completed'' \<and>
          solutionText d = Some t \<and> processingTime d = now - t0"
    unfolding code .
qed

lemma on_close_true_part:
  "(\<forall>pv. findById ds sid = Some sol \<and> code = Some 0 \<and> trim out \<noteq> [] \<and>
      JSON_parse rt out = Some pv \<and> pv \<noteq> JNull \<and> pv \<noteq> JUndefined \<and>
      get_prop pv ''solutionText'' = JBool True \<longrightarrow>
      (\<exists>d. findById (on_close rt ds sid t0 out err code now) sid = Some d \<and> status d = ''completed'' \<and>
          solutionText d = Some ''true'' \<and> processingTime d = now - t0))"
proof (intro allI impI)
  fix pv
  assume h: "findById ds sid = Some sol \<and> code = Some 0 \<and> trim out \<noteq> [] \<and>
      JSON_parse rt out = Some pv \<and> pv \<noteq> JNull \<and> pv \<noteq> JUndefined \<and>
      get_prop pv ''solutionText'' = JBool True"
  then have found: "findById ds sid = Some sol" and code: "code = Some 0" and ok: "trim out \<noteq> []"
    and json: "JSON_parse rt out = Some pv" and pv: "pv \<noteq> JNull" "pv \<noteq> JUndefined"
    by blast+
  from h have field: "get_prop pv ''solutionText'' = JBool True" by blast
  from ok have out: "out \<noteq> []" by (auto simp: trim_def)
  have cast: "castString rt (js_or_val (get_prop pv ''solutionText'') (JStr out)) = Inr (Some ''true'')"
    using field out by (auto simp: js_or_val_def castString_def)
  from on_close_json [OF found ok json pv cast, of t0 err now]
  show "\<exists>d. findById (on_close rt ds sid t0 out err code now) sid = Some d \<and> status d = ''completed'' \<and>
          solutionText d = Some ''true'' \<and> processingTime d = now - t0"
    unfolding code .
qed

lemma on_close_object_part:
  "(\<forall>pv v. findById ds sid = Some sol \<and> code = Some 0 \<and> trim out \<noteq> [] \<and>
      JSON_parse rt out = Some pv \<and> pv \<noteq> JNull \<and> pv \<noteq> JUndefined \<and>
      get_prop pv ''solutionText'' = v \<and> ((\<exists>l. v = JArr l) \<or> (\<exists>kvs. v = JObj kvs)) \<longrightarrow>
      (castString_object rt v = None \<longrightarrow> on_close rt ds sid t0 out err code now = ds) \<and>
      (\<forall>s. castString_object rt v = Some s \<longrightarrow>
      (\<exists>d. findById (on_close rt ds sid t0 out err code now) sid = Some d \<and> status d = ''completed'' \<and>
          solutionText d = Some s \<and> processingTime d = now - t0)))"
proof (intro allI impI)
  fix pv v
  assume h: "findById ds sid = Some sol \<and> code = Some 0 \<and> trim out \<noteq> [] \<and>
      JSON_parse rt out = Some pv \<and> pv \<noteq> JNull \<and> pv \<noteq> JUndefined \<and>
      get_prop pv ''solutionText'' = v \<and> ((\<exists>l. v = JArr l) \<or> (\<exists>kvs. v = JObj kvs))"
  then have found: "findById ds sid = Some sol" and code: "code = Some 0" and ok: "trim out \<noteq> []"
    and json: "JSON_parse rt out = Some pv" and pv: "pv \<noteq> JNull" "pv \<noteq> JUndefined"
    by blast+
  from h have field: "get_prop pv ''solutionText'' = v" and v: "(\<exists>l. v = JArr l) \<or> (\<exists>kvs. v = JObj kvs)" by blast+
  from v have kept: "js_or_val v (JStr out) = v" by (auto simp: js_or_val_def)
  from v have cast: "castString rt v =
      (case castString_object rt v of None \<Rightarrow> Inl CastError | Some s \<Rightarrow> Inr (Some s))"
    by (auto simp: castString_def)
  show "(castString_object rt v = None \<longrightarrow> on_close rt ds sid t0 out err code now = ds) \<and>
      (\<forall>s. castString_object rt v = Some s \<longrightarrow>
      (\<exists>d. findById (on_close rt ds sid t0 out err code now) sid = Some d \<and> status d = ''completed'' \<and>
          solutionText d = Some s \<and> processingTime d = now - t0))"
  proof (intro conjI allI impI)
    assume "castString_object rt v = None"
    with cast have "castString rt (js_or_val (get_prop (parsedResult rt out) ''solutionText'') (JStr out)) =
        Inl CastError"
      by (simp add: parsedResult_json [OF json] field kept)
    then have "nullish (parsedResult rt out) \<or>
      (\<exists>e. castString rt (js_or_val (get_prop (parsedResult rt out) ''solutionText'') (JStr out)) = Inl e)"
      by blast
    from on_close_unsaved [OF found ok this, of t0 err now]
    show "on_close rt ds sid t0 out err code now = ds"
      unfolding code .
  next
    fix s assume "castString_object rt v = Some s"
    with cast have c: "castString rt (js_or_val (get_prop pv ''solutionText'') (JStr out)) = Inr (Some s)"
      by (simp add: field kept)
    from on_close_json [OF found ok json pv c, of t0 err now]
    show "\<exists>d. findById (on_close rt ds sid t0 out err code now) sid = Some d \<and> status d = ''completed'' \<and>
          solutionText d = Some s \<and> processingTime d = now - t0"
      unfolding code .
  qed
qed

lemma on_close_failed_part:
  "(findById ds sid = Some sol \<and> \<not> (code = Some 0 \<and> trim out \<noteq> []) \<longrightarrow>
      (\<exists>d. findById (on_close rt ds sid t0 out err code now) sid = Some d \<and> status d = ''failed'' \<and>
          solutionText d = Some (''Solving failed: '' @ (if err = [] then ''Unknown error'' else err)) \<and>
          processingTime d = now - t0))"
proof
  assume "findById ds sid = Some sol \<and> \<not> (code = Some 0 \<and> trim out \<noteq> [])"
  then have found: "findById ds sid = Some sol" and bad: "\<not> (code = Some 0 \<and> trim out \<noteq> [])"
    by blast+
  from on_close_failed [OF found bad]
  show "\<exists>d. findById (on_close rt ds sid t0 out err code now) sid = Some d \<and> status d = ''failed'' \<and>
          solutionText d = Some (''Solving failed: '' @ (if err = [] then ''Unknown error'' else err)) \<and>
          processingTime d = now - t0" .
qed

lemma on_close_exactly_part:
  "(findById ds sid = Some sol \<and> \<not> nullish (parsedResult rt out) \<and>
      (\<exists>stored. castString rt (js_or_val (get_prop (parsedResult rt out) ''solutionText'') (JStr out)) =
         Inr stored) \<longrightarrow>
      (\<exists>d. findById (on_close rt ds sid t0 out err code now) sid = Some d \<and>
          (status d = ''completed'' \<longleftrightarrow> code = Some 0 \<and> trim out \<noteq> [])))"
proof
  assume h: "findById ds sid = Some sol \<and> \<not> nullish (parsedResult rt out) \<and>
      (\<exists>stored. castString rt (js_or_val (get_prop (parsedResult rt out) ''solutionText'') (JStr out)) =
         Inr stored)"
  then have found: "findById ds sid = Some sol" and parsed: "\<not> nullish (parsedResult rt out)"
    by blast+
  from h obtain stored where
    cast: "castString rt (js_or_val (get_prop (parsedResult rt out) ''solutionText'') (JStr out)) = Inr stored"
    by blast
  show "\<exists>d. findById (on_close rt ds sid t0 out err code now) sid = Some d \<and>
          (status d = ''completed'' \<longleftrightarrow> code = Some 0 \<and> trim out \<noteq> [])"
  proof (cases "code = Some 0 \<and> trim out \<noteq> []")
    case True
    then have code: "code = Some 0" and ok: "trim out \<noteq> []" by blast+
    from on_close_completed [OF found ok parsed cast, of t0 err now] True
    show ?thesis unfolding code by blast
  next
    case False
    from on_close_failed [OF found False, of rt t0 err now] False
    show ?thesis by auto
  qed
qed

text \<open>
  C3, amended. The two accumulators hold the concatenation of the chunks received, and
  \<open>trim\<close> removes the white space at both ends. When the solver closes and the solution
  is no longer there, nothing is done. When it is found and the exit code is 0 and the
  output is not blank, the callback stores status \<open>completed\<close> and a text: the trimmed
  output when the output is not JSON; otherwise the \<open>solutionText\<close> of the parsed value
  when that is a non-empty string, the text of that number or \<open>true\<close> when it is a
  number other than 0 or is \<open>true\<close>, and the whole output when it is absent, \<open>null\<close>,
  empty, \<open>false\<close> or 0. Two outputs make the callback throw, so that nothing is saved and
  the solution keeps its status: one that parses to \<open>null\<close>, and one whose \<open>solutionText\<close>
  is an array or object that cannot be cast to a String. In every other case (another exit
  code, or blank output) it stores status \<open>failed\<close> and \<open>Solving failed: \<close> followed by
  the accumulated error output, or by \<open>Unknown error\<close> when that is empty. Both times
  \<open>processingTime\<close> is the time since \<open>startTime\<close>. So, when the output does not make
  the callback throw, the stored status is \<open>completed\<close> exactly when the exit code is 0
  and the output is not blank.
\<close>

theorem on_close_outcome:
  "foldl on_stdout (Child sid t0 out0 err0) chunks = Child sid t0 (out0 @ concat chunks) err0
   \<and> foldl on_stderr (Child sid t0 out0 err0) chunks = Child sid t0 out0 (err0 @ concat chunks)
   \<and> ((\<exists>a b. out = a @ trim out @ b \<and> set a \<subseteq> {CHR 0x09, CHR 0x0A, CHR 0x0B, CHR 0x0C, CHR 0x0D, CHR 0x20, CHR 0xA0} \<and>
         set b \<subseteq> {CHR 0x09, CHR 0x0A, CHR 0x0B, CHR 0x0C, CHR 0x0D, CHR 0x20, CHR 0xA0}) \<and>
    (trim out \<noteq> [] \<longrightarrow> hd (trim out) \<notin> {CHR 0x09, CHR 0x0A, CHR 0x0B, CHR 0x0C, CHR 0x0D, CHR 0x20, CHR 0xA0} \<and>
         last (trim out) \<notin> {CHR 0x09, CHR 0x0A, CHR 0x0B, CHR 0x0C, CHR 0x0D, CHR 0x20, CHR 0xA0}))
   \<and> (findById ds sid = None \<longrightarrow> on_close rt ds sid t0 out err code now = ds)
   \<and> (findById ds sid = Some sol \<and> code = Some 0 \<and> trim out \<noteq> [] \<and> JSON_parse rt out = None \<longrightarrow>
      (\<exists>d. findById (on_close rt ds sid t0 out err code now) sid = Some d \<and> status d = ''completed'' \<and>
          solutionText d = Some (trim out) \<and> processingTime d = now - t0))
   \<and> (\<forall>pv. findById ds sid = Some sol \<and> code = Some 0 \<and> trim out \<noteq> [] \<and>
      JSON_parse rt out = Some pv \<and> (pv = JNull \<or> pv = JUndefined) \<longrightarrow>
      on_close rt ds sid t0 out err code now = ds)
   \<and> (\<forall>pv s. findById ds sid = Some sol \<and> code = Some 0 \<and> trim out \<noteq> [] \<and>
      JSON_parse rt out = Some pv \<and> pv \<noteq> JNull \<and> pv \<noteq> JUndefined \<and>
      get_prop pv ''solutionText'' = JStr s \<and> s \<noteq> [] \<longrightarrow>
      (\<exists>d. findById (on_close rt ds sid t0 out err code now) sid = Some d \<and> status d = ''completed'' \<and>
          solutionText d = Some s \<and> processingTime d = now - t0))
   \<and> (\<forall>pv. findById ds sid = Some sol \<and> code = Some 0 \<and> trim out \<noteq> [] \<and>
      JSON_parse rt out = Some pv \<and> pv \<noteq> JNull \<and> pv \<noteq> JUndefined \<and>
      (get_prop pv ''solutionText'' = JUndefined \<or> get_prop pv ''solutionText'' = JNull \<or>
       get_prop pv ''solutionText'' = JStr [] \<or> get_prop pv ''solutionText'' = JBool False \<or>
       get_prop pv ''solutionText'' = JNum ''0'') \<longrightarrow>
      (\<exists>d. findById (on_close rt ds sid t0 out err code now) sid = Some d \<and> status d = ''completed'' \<and>
          solutionText d = Some out \<and> processingTime d = now - t0))
   \<and> (\<forall>pv t. findById ds sid = Some sol \<and> code = Some 0 \<and> trim out \<noteq> [] \<and>
      JSON_parse rt out = Some pv \<and> pv \<noteq> JNull \<and> pv \<noteq> JUndefined \<and>
      get_prop pv ''solutionText'' = JNum t \<and> t \<noteq> ''0'' \<longrightarrow>
      (\<exists>d. findById (on_close rt ds sid t0 out err code now) sid = Some d \<and> status d = ''completed'' \<and>
          solutionText d = Some t \<and> processingTime d = now - t0))
   \<and> (\<forall>pv. findById ds sid = Some sol \<and> code = Some 0 \<and> trim out \<noteq> [] \<and>
      JSON_parse rt out = Some pv \<and> pv \<noteq> JNull \<and> pv \<noteq> JUndefined \<and>
      get_prop pv ''solutionText'' = JBool True \<longrightarrow>
      (\<exists>d. findById (on_close rt ds sid t0 out err code now) sid = Some d \<and> status d = ''completed'' \<and>
          solutionText d = Some ''true'' \<and> processingTime d = now - t0))
   \<and> (\<forall>pv v. findById ds sid = Some sol \<and> code = Some 0 \<and> trim out \<noteq> [] \<and>
      JSON_parse rt out = Some pv \<and> pv \<noteq> JNull \<and> pv \<noteq> JUndefined \<and>
      get_prop pv ''solutionText'' = v \<and> ((\<exists>l. v = JArr l) \<or> (\<exists>kvs. v = JObj kvs)) \<longrightarrow>
      (castString_object rt v = None \<longrightarrow> on_close rt ds sid t0 out err code now = ds) \<and>
      (\<forall>s. castString_object rt v = Some s \<longrightarrow>
      (\<exists>d. findById (on_close rt ds sid t0 out err code now) sid = Some d \<and> status d = ''completed'' \<and>
          solutionText d = Some s \<and> processingTime d = now - t0)))
   \<and> (findById ds sid = Some sol \<and> \<not> (code = Some 0 \<and> trim out \<noteq> []) \<longrightarrow>
      (\<exists>d. findById (on_close rt ds sid t0 out err code now) sid = Some d \<and> status d = ''failed'' \<and>
          solutionText d = Some (''Solving failed: '' @ (if err = [] then ''Unknown error'' else err)) \<and>
          processingTime d = now - t0))
   \<and> (findById ds sid = Some sol \<and> \<not> nullish (parsedResult rt out) \<and>
      (\<exists>stored. castString rt (js_or_val (get_prop (parsedResult rt out) ''solutionText'') (JStr out)) =
         Inr stored) \<longrightarrow>
      (\<exists>d. findById (on_close rt ds sid t0 out err code now) sid = Some d \<and>
          (status d = ''completed'' \<longleftrightarrow> code = Some 0 \<and> trim out \<noteq> [])))"
  by (rule conjI [OF on_close_stdout_part],
      rule conjI [OF on_close_stderr_part],
      rule conjI [OF on_close_trim_part],
      rule conjI [OF on_close_missing_part],
      rule conjI [OF on_close_plain_part],
      rule conjI [OF on_close_null_part],
      rule conjI [OF on_close_string_part],
      rule conjI [OF on_close_falsy_part],
      rule conjI [OF on_close_number_part],
      rule conjI [OF on_close_true_part],
      rule conjI [OF on_close_object_part],
      rule conjI [OF on_close_failed_part],
      rule on_close_exactly_part)

lemma length_save: "length (save ds d now) = length ds"
  by (simp add: save_def)

lemma length_on_close: "length (on_close rt ds sid t0 out err code now) = length ds"
  by (simp add: on_close_def Let_def length_save split: option.splits sum.splits)

lemma on_close_single:
  assumes "\<exists>d. findById (on_close rt [p] i t0 out err code now) i = Some d \<and> status d = s \<and>
          solutionText d = t \<and> processingTime d = n"
  shows "map (\<lambda>d. (status d, solutionText d, processingTime d)) (on_close rt [p] i t0 out err code now) =
           [(s, t, n)]"
proof -
  have "length (on_close rt [p] i t0 out err code now) = 1"
    by (simp add: length_on_close)
  then obtain e where e: "on_close rt [p] i t0 out err code now = [e]"
    by (cases "on_close rt [p] i t0 out err code now") auto
  from assms obtain d where "findById [e] i = Some d" "status d = s" "solutionText d = t"
    "processingTime d = n"
    unfolding e by blast
  moreover from this(1) have "d = e" by (simp add: findById_def split: if_splits)
  ultimately show ?thesis by (simp add: e)
qed

lemma triple_maps:
  "map (\<lambda>d. (f d, g d, h d)) l = [(a, b, c)] \<Longrightarrow> map f l = [a] \<and> map g l = [b]"
  by (cases l) auto

lemma trim_ex_output: "trim ex_output = ''Answer''"
  by (simp add: trim_def is_whitespace_def newline_def ex_output_def)

lemma parse_ex_output: "JSON_parse ex_runtime ex_output = None"
  by (simp add: ex_runtime_def ex_parse_def newline_def ex_output_def ex_numeric_output_def
      ex_object_output_def ex_string_output_def ex_true_output_def)

lemma trim_braces: "trim ''{}'' = ''{}''"
  by (simp add: trim_def is_whitespace_def)

lemma parse_braces: "JSON_parse ex_runtime ''{}'' = Some (JObj [])"
  by (simp add: ex_runtime_def ex_parse_def)

lemma parse_null: "JSON_parse ex_runtime ''null'' = Some JNull"
  by (simp add: ex_runtime_def ex_parse_def)

lemma trim_null: "trim ''null'' \<noteq> []"
  by (simp add: trim_Nil_iff is_whitespace_def)

lemma parse_numeric: "JSON_parse ex_runtime ex_numeric_output = Some (JObj [(''solutionText'', JNum ''5'')])"
  by (simp add: ex_runtime_def ex_parse_def ex_numeric_output_def)

lemma parse_object: "JSON_parse ex_runtime ex_object_output = Some (JObj [(''solutionText'', JObj [])])"
  by (simp add: ex_runtime_def ex_parse_def ex_numeric_output_def ex_object_output_def)

lemma trim_object: "trim ex_object_output \<noteq> []"
  by (simp add: trim_Nil_iff is_whitespace_def ex_object_output_def)

lemma parse_string: "JSON_parse ex_runtime ex_string_output = Some (JObj [(''solutionText'', JStr ''Done'')])"
  by (simp add: ex_runtime_def ex_parse_def ex_numeric_output_def ex_object_output_def
      ex_string_output_def)

lemma trim_string: "trim ex_string_output \<noteq> []"
  by (simp add: trim_Nil_iff is_whitespace_def ex_string_output_def)

lemma parse_true: "JSON_parse ex_runtime ex_true_output = Some (JObj [(''solutionText'', JBool True)])"
  by (simp add: ex_runtime_def ex_parse_def ex_numeric_output_def ex_object_output_def
      ex_string_output_def ex_true_output_def)

lemma trim_true: "trim ex_true_output \<noteq> []"
  by (simp add: trim_Nil_iff is_whitespace_def ex_true_output_def)

lemma cast_empty_object: "castString_object ex_runtime (JObj []) = None"
  by (simp add: ex_runtime_def)

text \<open>
  The solver writes \<open>Ans\<close> and \<open>wer\<close> with a line feed, which is not JSON, and exits
  with code 0: the text stored is \<open>Answer\<close>, the trimmed output, not the concatenation
  of the chunks. And when it writes \<open>null\<close> and exits with code 0, reading
  \<open>parsedResult.pdfBytes\<close> throws inside the callback and nothing is saved: the solution
  is marked neither \<open>completed\<close> nor \<open>failed\<close>.
\<close>

theorem on_close_trims_counterexample:
  "foldl on_stdout (Child 1 1000 [] []) [''Ans'', ''wer'' @ newline] = Child 1 1000 ex_output []
   \<and> JSON_parse ex_runtime ex_output = None
   \<and> map status (on_close ex_runtime [ex_pending] 1 1000 ex_output [] (Some 0) 1500) = [''completed'']
   \<and> map solutionText (on_close ex_runtime [ex_pending] 1 1000 ex_output [] (Some 0) 1500)
       = [Some ''Answer'']
   \<and> ''Answer'' \<noteq> concat [''Ans'', ''wer'' @ newline]
   \<and> JSON_parse ex_runtime ''null'' = Some JNull
   \<and> trim ''null'' \<noteq> []
   \<and> map status [ex_pending] = [''processing'']
   \<and> on_close ex_runtime [ex_pending] 1 1000 ''null'' [] (Some 0) 1500 = [ex_pending]"
proof -
  have h: "findById [ex_pending] 1 = Some ex_pending \<and> Some 0 = Some (0::int) \<and>
      trim ex_output \<noteq> [] \<and> JSON_parse ex_runtime ex_output = None"
    using findById_ex_pending parse_ex_output by (simp add: trim_ex_output)
  note r = on_close_plain_part [where ds = "[ex_pending]" and sid = 1 and sol = ex_pending
      and rt = ex_runtime and ?t0.0 = 1000 and now = 1500 and out = ex_output and err = "[]"
      and code = "Some 0", THEN mp, OF h, unfolded trim_ex_output, THEN on_close_single]
  have a: "map status (on_close ex_runtime [ex_pending] 1 1000 ex_output [] (Some 0) 1500)
       = [''completed'']
   \<and> map solutionText (on_close ex_runtime [ex_pending] 1 1000 ex_output [] (Some 0) 1500)
       = [Some ''Answer'']"
    by (rule triple_maps [OF r])
  have "completed_try ex_runtime ex_pending ''null'' 500 1500 = Inl TypeError"
    by (simp add: completed_try_def Let_def parsedResult_json [OF parse_null] nullish_def)
  then have b: "on_close ex_runtime [ex_pending] 1 1000 ''null'' [] (Some 0) 1500 = [ex_pending]"
    using findById_ex_pending trim_null by (simp add: on_close_def Let_def)
  have c: "foldl on_stdout (Child 1 1000 [] []) [''Ans'', ''wer'' @ newline] = Child 1 1000 ex_output []"
    by (simp add: ex_output_def)
  have d: "''Answer'' \<noteq> concat [''Ans'', ''wer'' @ newline]"
    by (simp add: newline_def)
  have e: "map status [ex_pending] = [''processing'']"
    by (simp add: ex_pending_def)
  show ?thesis
    using a b c d e parse_ex_output parse_null trim_null by blast
qed

theorem on_close_outcome_witness:
  "findById [ex_pending] 1 = Some ex_pending
   \<and> foldl on_stdout (Child 1 1000 [] []) [''Ans'', ''wer'' @ newline] = Child 1 1000 ex_output []
   \<and> trim ex_output = ''Answer''
   \<and> JSON_parse ex_runtime ex_output = None
   \<and> map (\<lambda>d. (status d, solutionText d, processingTime d))
       (on_close ex_runtime [ex_pending] 1 1000 ex_output [] (Some 0) 1500) =
       [(''completed'', Some ''Answer'', 500)]
   \<and> JSON_parse ex_runtime ''{}'' = Some (JObj [])
   \<and> map (\<lambda>d. (status d, solutionText d, processingTime d))
       (on_close ex_runtime [ex_pending] 1 1000 ''{}'' [] (Some 0) 1500) =
       [(''completed'', Some ''{}'', 500)]
   \<and> JSON_parse ex_runtime ex_string_output = Some (JObj [(''solutionText'', JStr ''Done'')])
   \<and> map (\<lambda>d. (status d, solutionText d, processingTime d))
       (on_close ex_runtime [ex_pending] 1 1000 ex_string_output [] (Some 0) 1500) =
       [(''completed'', Some ''Done'', 500)]
   \<and> JSON_parse ex_runtime ex_numeric_output = Some (JObj [(''solutionText'', JNum ''5'')])
   \<and> map (\<lambda>d. (status d, solutionText d, processingTime d))
       (on_close ex_runtime [ex_pending] 1 1000 ex_numeric_output [] (Some 0) 1500) =
       [(''completed'', Some ''5'', 500)]
   \<and> JSON_parse ex_runtime ex_true_output = Some (JObj [(''solutionText'', JBool True)])
   \<and> map (\<lambda>d. (status d, solutionText d, processingTime d))
       (on_close ex_runtime [ex_pending] 1 1000 ex_true_output [] (Some 0) 1500) =
       [(''completed'', Some ''true'', 500)]
   \<and> map (\<lambda>d. (status d, solutionText d, processingTime d))
       (on_close ex_runtime [ex_pending] 1 1000 ''{}'' ''boom'' (Some 1) 1500) =
       [(''failed'', Some ''Solving failed: boom'', 500)]
   \<and> map (\<lambda>d. (status d, solutionText d, processingTime d))
       (on_close ex_runtime [ex_pending] 1 1000 [] [] (Some 0) 1500) =
       [(''failed'', Some ''Solving failed: Unknown error'', 500)]
   \<and> JSON_parse ex_runtime ''null'' = Some JNull
   \<and> on_close ex_runtime [ex_pending] 1 1000 ''null'' [] (Some 0) 1500 = [ex_pending]
   \<and> JSON_parse ex_runtime ex_object_output = Some (JObj [(''solutionText'', JObj [])])
   \<and> castString_object ex_runtime (JObj []) = None
   \<and> on_close ex_runtime [ex_pending] 1 1000 ex_object_output [] (Some 0) 1500 = [ex_pending]
   \<and> on_close ex_runtime [] 1 1000 ''{}'' [] (Some 0) 1500 = []"
proof -
  note th = on_close_outcome [where ds = "[ex_pending]" and sid = 1 and sol = ex_pending
      and rt = ex_runtime and ?t0.0 = 1000 and now = 1500 and ?out0.0 = "[]" and ?err0.0 = "[]"
      and chunks = "[''Ans'', ''wer'' @ newline]"]
  have acc: "foldl on_stdout (Child 1 1000 [] []) [''Ans'', ''wer'' @ newline] = Child 1 1000 ex_output []"
    using th [where out = "[]" and err = "[]" and code = None, THEN conjunct1]
    by (simp add: ex_output_def)
  have h_plain: "findById [ex_pending] 1 = Some ex_pending \<and> Some 0 = Some (0::int) \<and> trim ex_output \<noteq> [] \<and> JSON_parse ex_runtime ex_output = None"
    using findById_ex_pending parse_ex_output by (simp add: trim_ex_output)
  have plain: "\<exists>d. findById (on_close ex_runtime [ex_pending] 1 1000 ex_output [] (Some 0) 1500) 1 = Some d \<and> status d = ''completed'' \<and>
          solutionText d = Some ''Answer'' \<and> processingTime d = 1500 - 1000"
    using th [where out = "ex_output" and err = "[]" and code = "Some 0", THEN conjunct2, THEN conjunct2, THEN conjunct2, THEN conjunct2, THEN conjunct1, THEN mp, OF h_plain]
    by (simp only: trim_ex_output)
  have h_braces: "findById [ex_pending] 1 = Some ex_pending \<and> Some 0 = Some (0::int) \<and> trim ''{}'' \<noteq> [] \<and>
      JSON_parse ex_runtime ''{}'' = Some (JObj []) \<and> JObj [] \<noteq> JNull \<and> JObj [] \<noteq> JUndefined \<and>
      (get_prop (JObj []) ''solutionText'' = JUndefined \<or> get_prop (JObj []) ''solutionText'' = JNull \<or>
       get_prop (JObj []) ''solutionText'' = JStr [] \<or> get_prop (JObj []) ''solutionText'' = JBool False \<or>
       get_prop (JObj []) ''solutionText'' = JNum ''0'')"
    using findById_ex_pending parse_braces by (simp add: trim_braces)
  note braces = th [where out = "''{}''" and err = "[]" and code = "Some 0", THEN conjunct2, THEN conjunct2, THEN conjunct2, THEN conjunct2, THEN conjunct2, THEN conjunct2, THEN conjunct2, THEN conjunct1, THEN spec, THEN mp, OF h_braces]
  have h_string: "findById [ex_pending] 1 = Some ex_pending \<and> Some 0 = Some (0::int) \<and> trim ex_string_output \<noteq> [] \<and>
      JSON_parse ex_runtime ex_string_output = Some (JObj [(''solutionText'', JStr ''Done'')]) \<and> JObj [(''solutionText'', JStr ''Done'')] \<noteq> JNull \<and> JObj [(''solutionText'', JStr ''Done'')] \<noteq> JUndefined \<and>
      get_prop (JObj [(''solutionText'', JStr ''Done'')]) ''solutionText'' = JStr ''Done'' \<and> ''Done'' \<noteq> []"
    using findById_ex_pending parse_string trim_string by simp
  note string = th [where out = "ex_string_output" and err = "[]" and code = "Some 0", THEN conjunct2, THEN conjunct2, THEN conjunct2, THEN conjunct2, THEN conjunct2, THEN conjunct2, THEN conjunct1, THEN spec, THEN spec, THEN mp, OF h_string]
  have h_number: "findById [ex_pending] 1 = Some ex_pending \<and> Some 0 = Some (0::int) \<and> trim ex_numeric_output \<noteq> [] \<and>
      JSON_parse ex_runtime ex_numeric_output = Some (JObj [(''solutionText'', JNum ''5'')]) \<and> JObj [(''solutionText'', JNum ''5'')] \<noteq> JNull \<and> JObj [(''solutionText'', JNum ''5'')] \<noteq> JUndefined \<and>
      get_prop (JObj [(''solutionText'', JNum ''5'')]) ''solutionText'' = JNum ''5'' \<and> ''5'' \<noteq> ''0''"
    using findById_ex_pending parse_numeric trim_numeric by simp
  note number = th [where out = "ex_numeric_output" and err = "[]" and code = "Some 0", THEN conjunct2, THEN conjunct2, THEN conjunct2, THEN conjunct2, THEN conjunct2, THEN conjunct2, THEN conjunct2, THEN conjunct2, THEN conjunct1, THEN spec, THEN spec, THEN mp, OF h_number]
  have h_true: "findById [ex_pending] 1 = Some ex_pending \<and> Some 0 = Some (0::int) \<and> trim ex_true_output \<noteq> [] \<and>
      JSON_parse ex_runtime ex_true_output = Some (JObj [(''solutionText'', JBool True)]) \<and> JObj [(''solutionText'', JBool True)] \<noteq> JNull \<and> JObj [(''solutionText'', JBool True)] \<noteq> JUndefined \<and>
      get_prop (JObj [(''solutionText'', JBool True)]) ''solutionText'' = JBool True"
    using findById_ex_pending parse_true trim_true by simp
  note true = th [where out = "ex_true_output" and err = "[]" and code = "Some 0", THEN conjunct2, THEN conjunct2, THEN conjunct2, THEN conjunct2, THEN conjunct2, THEN conjunct2, THEN conjunct2, THEN conjunct2, THEN conjunct2, THEN conjunct1, THEN spec, THEN mp, OF h_true]
  have h_boom: "findById [ex_pending] 1 = Some ex_pending \<and> \<not> (Some 1 = Some (0::int) \<and> trim ''{}'' \<noteq> [])"
    using findById_ex_pending by simp
  have boom: "\<exists>d. findById (on_close ex_runtime [ex_pending] 1 1000 ''{}'' ''boom'' (Some 1) 1500) 1 = Some d \<and> status d = ''failed'' \<and>
          solutionText d = Some ''Solving failed: boom'' \<and> processingTime d = 1500 - 1000"
    using th [where out = "''{}''" and err = "''boom''" and code = "Some 1", THEN conjunct2, THEN conjunct2, THEN conjunct2, THEN conjunct2, THEN conjunct2, THEN conjunct2, THEN conjunct2, THEN conjunct2, THEN conjunct2, THEN conjunct2, THEN conjunct2, THEN conjunct1, THEN mp, OF h_boom]
    by simp
  have h_blank: "findById [ex_pending] 1 = Some ex_pending \<and> \<not> (Some 0 = Some (0::int) \<and> trim [] \<noteq> [])"
    using findById_ex_pending by (simp add: trim_def)
  have blank: "\<exists>d. findById (on_close ex_runtime [ex_pending] 1 1000 [] [] (Some 0) 1500) 1 = Some d \<and> status d = ''failed'' \<and>
          solutionText d = Some ''Solving failed: Unknown error'' \<and> processingTime d = 1500 - 1000"
    using th [where out = "[]" and err = "[]" and code = "Some 0", THEN conjunct2, THEN conjunct2, THEN conjunct2, THEN conjunct2, THEN conjunct2, THEN conjunct2, THEN conjunct2, THEN conjunct2, THEN conjunct2, THEN conjunct2, THEN conjunct2, THEN conjunct1, THEN mp, OF h_blank]
    by simp
  have h_null: "findById [ex_pending] 1 = Some ex_pending \<and> Some 0 = Some (0::int) \<and> trim ''null'' \<noteq> [] \<and>
      JSON_parse ex_runtime ''null'' = Some JNull \<and> (JNull = JNull \<or> JNull = JUndefined)"
    using findById_ex_pending parse_null trim_null by simp
  note null = th [where out = "''null''" and err = "[]" and code = "Some 0", THEN conjunct2, THEN conjunct2, THEN conjunct2, THEN conjunct2, THEN conjunct2, THEN conjunct1, THEN spec, THEN mp, OF h_null]
  have h_object: "findById [ex_pending] 1 = Some ex_pending \<and> Some 0 = Some (0::int) \<and> trim ex_object_output \<noteq> [] \<and>
      JSON_parse ex_runtime ex_object_output = Some (JObj [(''solutionText'', JObj [])]) \<and> JObj [(''solutionText'', JObj [])] \<noteq> JNull \<and> JObj [(''solutionText'', JObj [])] \<noteq> JUndefined \<and>
      get_prop (JObj [(''solutionText'', JObj [])]) ''solutionText'' = JObj [] \<and>
      ((\<exists>l. JObj [] = JArr l) \<or> (\<exists>kvs. JObj [] = JObj kvs))"
    using findById_ex_pending parse_object trim_object by simp
  note object = th [where out = "ex_object_output" and err = "[]" and code = "Some 0", THEN conjunct2, THEN conjunct2, THEN conjunct2, THEN conjunct2, THEN conjunct2, THEN conjunct2, THEN conjunct2, THEN conjunct2, THEN conjunct2, THEN conjunct2, THEN conjunct1, THEN spec, THEN spec, THEN mp, OF h_object,
      THEN conjunct1, THEN mp, OF cast_empty_object]
  have gone: "on_close ex_runtime [] 1 1000 ''{}'' [] (Some 0) 1500 = []"
    using on_close_outcome [where ds = "[]" and sid = 1 and rt = ex_runtime and ?t0.0 = 1000
        and now = 1500 and out = "''{}''" and err = "[]" and code = "Some 0", THEN conjunct2, THEN conjunct2, THEN conjunct2, THEN conjunct1]
    by (simp add: findById_def)
  note results = plain [THEN on_close_single] braces [THEN on_close_single]
    string [THEN on_close_single] number [THEN on_close_single] true [THEN on_close_single]
    boom [THEN on_close_single] blank [THEN on_close_single]
  have times: "(1500::int) - 1000 = 500" by simp
  show ?thesis
    using findById_ex_pending acc trim_ex_output parse_ex_output parse_braces parse_string
      parse_numeric parse_true parse_null parse_object cast_empty_object
      results [unfolded times] null object gone
    by blast
qed

subsection \<open>The life cycle of a solution\<close>

lemma findById_distinct:
  "distinct (map oid ds) \<Longrightarrow> d \<in> set ds \<Longrightarrow> findById ds (oid d) = Some d"
proof (induction ds)
  case Nil
  then show ?case by simp
next
  case (Cons e es)
  then show ?case by (auto simp: findById_def)
qed

lemma findById_None: "findById ds i = None \<longleftrightarrow> (\<forall>d\<in>set ds. oid d \<noteq> i)"
  unfolding findById_def find_None_all by blast

lemma save_replace: "save ds d now = replace_doc (oid d) (d\<lparr>updatedAt := now\<rparr>) ds"
  by (simp add: save_def replace_doc_def)

lemma completed_try_Inr:
  assumes "completed_try rt sol out processing now = Inr d"
  shows "oid d = oid sol \<and> status d = ''completed''"
proof (cases "nullish (parsedResult rt out)")
  case True
  with assms show ?thesis by (simp add: completed_try_null)
next
  case False
  show ?thesis
  proof (cases "castString rt (js_or_val (get_prop (parsedResult rt out) ''solutionText'') (JStr out))")
    case (Inl e)
    from completed_try_uncast [OF False Inl, of sol processing now] assms show ?thesis by simp
  next
    case (Inr stored)
    from completed_try_cast [OF False Inr, of sol processing now] assms show ?thesis by auto
  qed
qed

lemma on_close_cases:
  "on_close rt ds sid t0 out err code now = ds \<or>
   (\<exists>d'. oid d' = sid \<and> (status d' = ''completed'' \<or> status d' = ''failed'') \<and>
      on_close rt ds sid t0 out err code now = replace_doc sid d' ds)"
proof (cases "findById ds sid")
  case None
  then show ?thesis by (simp add: on_close_def Let_def)
next
  case (Some sol)
  then have id: "oid sol = sid" by (simp add: findById_oid)
  show ?thesis
  proof (cases "code = Some 0 \<and> trim out \<noteq> []")
    case False
    let ?d = "(failed_update sol err (now - t0))\<lparr>updatedAt := now\<rparr>"
    have "on_close rt ds sid t0 out err code now = replace_doc sid ?d ds"
      using Some False id by (auto simp: on_close_def Let_def save_replace failed_update_def)
    moreover have "oid ?d = sid \<and> status ?d = ''failed''"
      using id by (simp add: failed_update_def)
    ultimately show ?thesis by blast
  next
    case True
    show ?thesis
    proof (cases "completed_try rt sol out (now - t0) now")
      case (Inl e)
      with Some True show ?thesis by (simp add: on_close_def Let_def)
    next
      case (Inr d)
      let ?d = "d\<lparr>updatedAt := now\<rparr>"
      from completed_try_Inr [OF Inr] id have d: "oid d = sid" "status d = ''completed''"
        by simp_all
      have "on_close rt ds sid t0 out err code now = replace_doc sid ?d ds"
        using Some True Inr d(1) by (simp add: on_close_def Let_def save_replace)
      moreover have "oid ?d = sid \<and> status ?d = ''completed''"
        using d by simp
      ultimately show ?thesis by blast
    qed
  qed
qed

lemma on_caught_cases:
  "on_caught ds sid t0 msg now = ds \<or>
   (\<exists>d'. oid d' = sid \<and> (status d' = ''completed'' \<or> status d' = ''failed'') \<and>
      on_caught ds sid t0 msg now = replace_doc sid d' ds)"
proof (cases "findById ds sid")
  case None
  then show ?thesis by (simp add: on_caught_def)
next
  case (Some sol)
  then have id: "oid sol = sid" by (simp add: findById_oid)
  let ?d = "(sol\<lparr>status := ''failed'', solutionText := Some (''Solving failed: '' @ msg),
                 processingTime := now - t0\<rparr>)\<lparr>updatedAt := now\<rparr>"
  have "on_caught ds sid t0 msg now = replace_doc sid ?d ds"
    using Some id by (simp add: on_caught_def save_replace)
  moreover have "oid ?d = sid \<and> status ?d = ''failed''"
    using id by simp
  ultimately show ?thesis by blast
qed

lemma map_oid_replace: "oid d' = i \<Longrightarrow> map oid (replace_doc i d' ds) = map oid ds"
  by (induction ds) (auto simp: replace_doc_def)

lemma set_replace:
  "x \<in> set (replace_doc i d' ds) \<Longrightarrow> (x \<in> set ds \<and> oid x \<noteq> i) \<or> (x = d' \<and> (\<exists>e\<in>set ds. oid e = i))"
  by (auto simp: replace_doc_def split: if_splits)

lemma keep_replace: "e \<in> set ds \<Longrightarrow> oid e \<noteq> i \<Longrightarrow> e \<in> set (replace_doc i d' ds)"
  by (auto simp: replace_doc_def)

lemma set_remove_nth: "set (remove_nth i xs) \<subseteq> set xs"
  by (auto simp: remove_nth_def dest: in_set_takeD in_set_dropD)

lemma map_remove_nth: "map f (remove_nth i xs) = remove_nth i (map f xs)"
  by (simp add: remove_nth_def take_map drop_map)

lemma distinct_remove_nth:
  assumes "distinct xs"
  shows "distinct (remove_nth i xs)"
proof -
  have sub: "set (drop (Suc i) xs) \<subseteq> set (drop i xs)"
    by (rule set_drop_subset_set_drop) simp
  from assms have "distinct (take i xs @ drop i xs)" by simp
  then have "distinct (take i xs)" "set (take i xs) \<inter> set (drop i xs) = {}"
    by (simp_all only: distinct_append)
  with sub assms show ?thesis
    unfolding remove_nth_def by (simp only: distinct_append distinct_drop) blast
qed

lemma nth_not_in_remove_nth:
  assumes "distinct xs" "i < length xs"
  shows "xs ! i \<notin> set (remove_nth i xs)"
proof -
  have "xs = take i xs @ xs ! i # drop (Suc i) xs"
    using assms(2) by (simp add: id_take_nth_drop)
  with assms(1) have "distinct (take i xs @ xs ! i # drop (Suc i) xs)" by simp
  then show ?thesis by (auto simp: remove_nth_def)
qed

lemma lifecycle_refl: "distinct (map oid ds) \<Longrightarrow> lifecycle_step ds ds"
  by (auto simp: lifecycle_step_def findById_distinct)

lemma lifecycle_append:
  assumes "distinct (map oid ds)" "\<forall>d\<in>set ds. oid d \<noteq> oid sol" "status sol = ''processing''"
  shows "lifecycle_step ds (ds @ [sol])"
proof -
  from assms(2) have "findById ds (oid sol) = None" by (simp add: findById_None)
  with assms show ?thesis
    by (auto simp: lifecycle_step_def findById_distinct)
qed

lemma lifecycle_replace:
  assumes dist: "distinct (map oid ds)" and id: "oid d' = i"
    and proc: "\<forall>e\<in>set ds. oid e = i \<longrightarrow> status e = ''processing''"
    and final: "status d' = ''completed'' \<or> status d' = ''failed''"
  shows "lifecycle_step ds (replace_doc i d' ds)"
  unfolding lifecycle_step_def
proof (intro conjI ballI)
  fix x assume "x \<in> set (replace_doc i d' ds)"
  then consider "x \<in> set ds" "oid x \<noteq> i" | e where "x = d'" "e \<in> set ds" "oid e = i"
    by (auto dest: set_replace)
  then show "case findById ds (oid x) of
          None \<Rightarrow> status x = ''processing''
        | Some d \<Rightarrow>
            status x = status d \<or>
            (status d = ''processing'' \<and> (status x = ''completed'' \<or> status x = ''failed''))"
  proof cases
    case 1
    with dist have "findById ds (oid x) = Some x" by (simp add: findById_distinct)
    then show ?thesis by simp
  next
    case 2
    with dist have "findById ds i = Some e" using findById_distinct [of ds e] by simp
    moreover from 2 proc have "status e = ''processing''" by simp
    ultimately show ?thesis using 2 id final by simp
  qed
next
  fix d assume d: "d \<in> set ds"
  show "\<exists>x\<in>set (replace_doc i d' ds). oid x = oid d"
  proof (cases "oid d = i")
    case True
    with d have "d' \<in> set (replace_doc i d' ds)" by (force simp: replace_doc_def)
    with True id show ?thesis by auto
  next
    case False
    with d have "d \<in> set (replace_doc i d' ds)" by (rule keep_replace)
    then show ?thesis by auto
  qed
qed

lemma finish_task:
  assumes inv: "invariant st" and i: "i < length (tasks st)"
    and sid: "task_solution (tasks st ! i) = sid"
    and upd: "ds' = docs st \<or>
      (\<exists>d'. oid d' = sid \<and> (status d' = ''completed'' \<or> status d' = ''failed'') \<and>
         ds' = replace_doc sid d' (docs st))"
  shows "invariant (st\<lparr>docs := ds', tasks := remove_nth i (tasks st)\<rparr>) \<and> lifecycle_step (docs st) ds'"
proof -
  from inv have dist: "distinct (map oid (docs st))"
    and tdist: "distinct (map task_solution (tasks st))"
    and bound: "\<forall>d\<in>set (docs st). oid d < next_oid st"
    and owner: "\<forall>t\<in>set (tasks st). \<exists>d\<in>set (docs st). oid d = task_solution t \<and> status d = ''processing''"
    and enum: "\<forall>d\<in>set (docs st). status d \<in> status_enum"
    by (simp_all add: invariant_def)
  from i have "tasks st ! i \<in> set (tasks st)" by simp
  with owner sid obtain d0 where d0: "d0 \<in> set (docs st)" "oid d0 = sid" "status d0 = ''processing''"
    by blast
  have proc: "\<forall>e\<in>set (docs st). oid e = sid \<longrightarrow> status e = ''processing''"
  proof (intro ballI impI)
    fix e assume "e \<in> set (docs st)" "oid e = sid"
    with dist d0 have "e = d0" by (metis distinct_map inj_onD)
    with d0 show "status e = ''processing''" by simp
  qed
  have ids: "map oid ds' = map oid (docs st)"
    and others: "\<forall>e\<in>set (docs st). oid e \<noteq> sid \<longrightarrow> e \<in> set ds'"
    and statuses: "\<forall>d\<in>set ds'. status d \<in> status_enum"
    and life: "lifecycle_step (docs st) ds'"
  proof -
    from upd consider "ds' = docs st"
      | d' where "oid d' = sid" "status d' = ''completed'' \<or> status d' = ''failed''"
          "ds' = replace_doc sid d' (docs st)"
      by blast
    then have "map oid ds' = map oid (docs st)
        \<and> (\<forall>e\<in>set (docs st). oid e \<noteq> sid \<longrightarrow> e \<in> set ds')
        \<and> (\<forall>d\<in>set ds'. status d \<in> status_enum)
        \<and> lifecycle_step (docs st) ds'"
    proof cases
      case 1
      with enum dist show ?thesis by (simp add: lifecycle_refl)
    next
      case 2
      have "\<forall>d\<in>set ds'. status d \<in> status_enum"
      proof
        fix d assume "d \<in> set ds'"
        with 2 have "d \<in> set (docs st) \<or> d = d'" by (auto dest: set_replace)
        with enum 2 show "status d \<in> status_enum" by (auto simp: status_enum_def)
      qed
      moreover have "lifecycle_step (docs st) ds'"
        unfolding 2(3) using dist 2(1) proc 2(2) by (rule lifecycle_replace)
      moreover have "map oid ds' = map oid (docs st)"
        unfolding 2(3) using 2(1) by (rule map_oid_replace)
      moreover have "\<forall>e\<in>set (docs st). oid e \<noteq> sid \<longrightarrow> e \<in> set ds'"
        unfolding 2(3) by (simp add: keep_replace)
      ultimately show ?thesis by blast
    qed
    then show "map oid ds' = map oid (docs st)"
      and "\<forall>e\<in>set (docs st). oid e \<noteq> sid \<longrightarrow> e \<in> set ds'"
      and "\<forall>d\<in>set ds'. status d \<in> status_enum"
      and "lifecycle_step (docs st) ds'"
      by blast+
  qed
  have rest: "map task_solution (remove_nth i (tasks st)) = remove_nth i (map task_solution (tasks st))"
    by (rule map_remove_nth)
  have tdist': "distinct (map task_solution (remove_nth i (tasks st)))"
    unfolding rest using tdist by (rule distinct_remove_nth)
  have notsid: "task_solution t \<noteq> sid" if "t \<in> set (remove_nth i (tasks st))" for t
  proof -
    from that have "task_solution t \<in> set (remove_nth i (map task_solution (tasks st)))"
      unfolding rest [symmetric] by simp
    moreover have "map task_solution (tasks st) ! i \<notin> set (remove_nth i (map task_solution (tasks st)))"
      using tdist i by (intro nth_not_in_remove_nth) simp_all
    ultimately show ?thesis using sid i by auto
  qed
  have owner': "\<forall>t\<in>set (remove_nth i (tasks st)).
      \<exists>d\<in>set ds'. oid d = task_solution t \<and> status d = ''processing''"
  proof
    fix t assume t: "t \<in> set (remove_nth i (tasks st))"
    have "t \<in> set (tasks st)"
      using t set_remove_nth [of i "tasks st"] by (rule subsetD [rotated])
    with owner have "\<exists>d\<in>set (docs st). oid d = task_solution t \<and> status d = ''processing''"
      by (rule bspec)
    then obtain d where d: "d \<in> set (docs st)" "oid d = task_solution t" "status d = ''processing''"
      by (elim bexE conjE)
    from notsid [OF t] d(2) have "oid d \<noteq> sid" by simp
    with others d(1) have "d \<in> set ds'" by blast
    with d show "\<exists>d\<in>set ds'. oid d = task_solution t \<and> status d = ''processing''" by blast
  qed
  have bound': "\<forall>d\<in>set ds'. oid d < next_oid st"
  proof
    fix d assume "d \<in> set ds'"
    then have "oid d \<in> set (map oid ds')" by simp
    with ids have "oid d \<in> set (map oid (docs st))" by simp
    with bound show "oid d < next_oid st" by auto
  qed
  from dist ids have "distinct (map oid ds')" by simp
  with bound' tdist' owner' statuses life show ?thesis
    by (simp add: invariant_def)
qed

lemma data_task:
  assumes inv: "invariant st" and i: "i < length (tasks st)"
    and same: "task_solution t' = task_solution (tasks st ! i)"
  shows "invariant (st\<lparr>tasks := (tasks st)[i := t']\<rparr>)"
proof -
  have "map task_solution ((tasks st)[i := t']) = (map task_solution (tasks st))[i := task_solution t']"
    by (rule map_update)
  also have "\<dots> = map task_solution (tasks st)"
    using same i by (simp add: list_update_same_conv)
  finally have m: "map task_solution ((tasks st)[i := t']) = map task_solution (tasks st)" .
  have "\<forall>t\<in>set ((tasks st)[i := t']). \<exists>d\<in>set (docs st). oid d = task_solution t \<and> status d = ''processing''"
  proof
    fix t assume "t \<in> set ((tasks st)[i := t'])"
    then have "task_solution t \<in> set (map task_solution ((tasks st)[i := t']))" by simp
    then have "task_solution t \<in> set (map task_solution (tasks st))" by (simp only: m)
    then obtain t0 where t0: "t0 \<in> set (tasks st)" "task_solution t0 = task_solution t" by auto
    from inv have "\<forall>t\<in>set (tasks st). \<exists>d\<in>set (docs st). oid d = task_solution t \<and> status d = ''processing''"
      by (simp add: invariant_def)
    with t0 show "\<exists>d\<in>set (docs st). oid d = task_solution t \<and> status d = ''processing''"
      by metis
  qed
  with inv m show ?thesis by (simp add: invariant_def)
qed

lemma task_solution_on_stdout: "task_solution (on_stdout t chunk) = task_solution t"
  by (cases t) simp_all

lemma task_solution_on_stderr: "task_solution (on_stderr t chunk) = task_solution t"
  by (cases t) simp_all

lemma post_task:
  assumes inv: "invariant st"
  shows "invariant (snd (post_solve rt st u body now startTime)) \<and>
         lifecycle_step (docs st) (docs (snd (post_solve rt st u body now startTime)))"
proof -
  let ?st' = "snd (post_solve rt st u body now startTime)"
  from inv have dist: "distinct (map oid (docs st))"
    and tdist: "distinct (map task_solution (tasks st))"
    and bound: "\<forall>d\<in>set (docs st). oid d < next_oid st"
    and owner: "\<forall>t\<in>set (tasks st). \<exists>d\<in>set (docs st). oid d = task_solution t \<and> status d = ''processing''"
    and enum: "\<forall>d\<in>set (docs st). status d \<in> status_enum"
    by (simp_all add: invariant_def)
  from post_solve_effect [of rt st u body now startTime]
  consider "?st' = st"
    | sol t where "docs ?st' = docs st @ [sol]" "tasks ?st' = tasks st @ [t]"
        "task_solution t = oid sol" "oid sol = next_oid st" "status sol = ''processing''"
        "next_oid ?st' = Suc (next_oid st)"
    by blast
  then show ?thesis
  proof cases
    case 1
    with inv dist show ?thesis by (simp add: lifecycle_refl)
  next
    case 2
    from bound 2 have fresh: "\<forall>d\<in>set (docs st). oid d \<noteq> oid sol" by auto
    have tfresh: "\<forall>t0\<in>set (tasks st). task_solution t0 \<noteq> oid sol"
    proof
      fix t0 assume "t0 \<in> set (tasks st)"
      with owner obtain d where "d \<in> set (docs st)" "oid d = task_solution t0" by blast
      with fresh show "task_solution t0 \<noteq> oid sol" by auto
    qed
    have "invariant ?st'"
      unfolding invariant_def
    proof (intro conjI)
      show "\<forall>d\<in>set (docs ?st'). oid d < next_oid ?st'"
        using 2 bound by (auto simp: less_Suc_eq)
      show "distinct (map oid (docs ?st'))"
        using 2 dist fresh by auto
      show "distinct (map task_solution (tasks ?st'))"
        using 2 tdist tfresh by auto
      show "\<forall>t\<in>set (tasks ?st'). \<exists>d\<in>set (docs ?st'). oid d = task_solution t \<and> status d = ''processing''"
        using 2 owner by auto
      show "\<forall>d\<in>set (docs ?st'). status d \<in> status_enum"
        using 2 enum by (auto simp: status_enum_def)
    qed
    moreover have "lifecycle_step (docs st) (docs ?st')"
      using 2 dist fresh by (simp add: lifecycle_append)
    ultimately show ?thesis by simp
  qed
qed

lemma step_invariant:
  assumes inv: "invariant st"
  shows "invariant (step rt st ev) \<and> lifecycle_step (docs st) (docs (step rt st ev))"
proof -
  from inv have dist: "distinct (map oid (docs st))" by (simp add: invariant_def)
  note same = lifecycle_refl [OF dist]
  show ?thesis
  proof (cases ev)
    case (Post u body now startTime)
    with post_task [OF inv] show ?thesis by simp
  next
    case (StdoutData i chunk)
    with inv same data_task [OF inv, of i "on_stdout (tasks st ! i) chunk"]
    show ?thesis by (simp add: task_solution_on_stdout)
  next
    case (StderrData i chunk)
    with inv same data_task [OF inv, of i "on_stderr (tasks st ! i) chunk"]
    show ?thesis by (simp add: task_solution_on_stderr)
  next
    case (Close i code now)
    show ?thesis
    proof (cases "i < length (tasks st)")
      case False
      with Close inv same show ?thesis by simp
    next
      case True
      show ?thesis
      proof (cases "tasks st ! i")
        case (Child sid t0 out err)
        then have "task_solution (tasks st ! i) = sid" by simp
        from finish_task [OF inv True this on_close_cases [of rt "docs st" sid t0 out err code now]]
        show ?thesis using Close True Child by simp
      next
        case (Caught sid t0 msg)
        with Close True inv same show ?thesis by simp
      qed
    qed
  next
    case (CatchResumes i now)
    show ?thesis
    proof (cases "i < length (tasks st)")
      case False
      with CatchResumes inv same show ?thesis by simp
    next
      case True
      show ?thesis
      proof (cases "tasks st ! i")
        case (Caught sid t0 msg)
        then have "task_solution (tasks st ! i) = sid" by simp
        from finish_task [OF inv True this on_caught_cases [of "docs st" sid t0 msg now]]
        show ?thesis using CatchResumes True Caught by simp
      next
        case (Child sid t0 out err)
        with CatchResumes True inv same show ?thesis by simp
      qed
    qed
  qed
qed

lemma run_snoc: "run rt (evs @ [ev]) = step rt (run rt evs) ev"
  by (simp add: run_def)

lemma run_invariant: "invariant (run rt evs)"
proof (induction evs rule: rev_induct)
  case Nil
  show ?case by (simp add: run_def initial_def invariant_def)
next
  case (snoc ev evs)
  then show ?case using step_invariant [of "run rt evs" rt ev] by (simp add: run_snoc)
qed

lemma oid_unique:
  "distinct (map oid ds) \<Longrightarrow> a \<in> set ds \<Longrightarrow> b \<in> set ds \<Longrightarrow> oid a = oid b \<Longrightarrow> a = b"
  by (meson distinct_map inj_onD)

lemma terminal_final:
  assumes d: "d \<in> set (docs (run rt evs))" and fin: "status d \<noteq> ''processing''"
  shows "(\<exists>d'\<in>set (docs (run rt (evs @ later))). oid d' = oid d) \<and>
         (\<forall>d'\<in>set (docs (run rt (evs @ later))). oid d' = oid d \<longrightarrow> status d' = status d)"
proof (induction later rule: rev_induct)
  case Nil
  have "distinct (map oid (docs (run rt evs)))"
    using run_invariant [of rt evs] by (simp add: invariant_def)
  with d show ?case by (auto dest: oid_unique)
next
  case (snoc ev later)
  let ?mid = "run rt (evs @ later)"
  have run: "run rt (evs @ later @ [ev]) = step rt ?mid ev"
    using run_snoc [of rt "evs @ later" ev] by simp
  have dist: "distinct (map oid (docs ?mid))"
    using run_invariant [of rt "evs @ later"] by (simp add: invariant_def)
  have life: "lifecycle_step (docs ?mid) (docs (step rt ?mid ev))"
    using step_invariant [OF run_invariant] by blast
  from snoc obtain d1 where d1: "d1 \<in> set (docs ?mid)" "oid d1 = oid d" "status d1 = status d"
    by blast
  from dist d1(1) have found: "findById (docs ?mid) (oid d) = Some d1"
    using findById_distinct [of "docs ?mid" d1] d1(2) by simp
  have "\<exists>d'\<in>set (docs (step rt ?mid ev)). oid d' = oid d"
    using life d1 unfolding lifecycle_step_def by metis
  moreover have "\<forall>d'\<in>set (docs (step rt ?mid ev)). oid d' = oid d \<longrightarrow> status d' = status d"
  proof (intro ballI impI)
    fix d' assume d': "d' \<in> set (docs (step rt ?mid ev))" "oid d' = oid d"
    from life d'(1) have "case findById (docs ?mid) (oid d') of
          None \<Rightarrow> status d' = ''processing''
        | Some e \<Rightarrow> status d' = status e \<or>
            (status e = ''processing'' \<and> (status d' = ''completed'' \<or> status d' = ''failed''))"
      unfolding lifecycle_step_def by blast
    with found d'(2) d1(3) fin show "status d' = status d" by simp
  qed
  ultimately show ?case by (simp only: run)
qed

text \<open>
  C1. In every system reached from the empty one by any sequence of events, every status
  is \<open>processing\<close>, \<open>completed\<close> or \<open>failed\<close>, and ids are unique. Across any one
  event, a document that was not there before has status \<open>processing\<close>; a document
  that was there keeps its status or goes from \<open>processing\<close> to \<open>completed\<close> or
  \<open>failed\<close>; and no document disappears. Hence a status other than \<open>processing\<close>
  stays as it is whatever events follow: the status of a document changes at most once.
\<close>

theorem status_lifecycle:
  "(\<forall>d\<in>set (docs (run rt evs)).
       status d = ''processing'' \<or> status d = ''completed'' \<or> status d = ''failed'')
   \<and> distinct (map oid (docs (run rt evs)))
   \<and> (\<forall>d'\<in>set (docs (step rt (run rt evs) ev)).
        case findById (docs (run rt evs)) (oid d') of
          None \<Rightarrow> status d' = ''processing''
        | Some d \<Rightarrow>
            status d' = status d \<or>
            (status d = ''processing'' \<and> (status d' = ''completed'' \<or> status d' = ''failed'')))
   \<and> (\<forall>d\<in>set (docs (run rt evs)). \<exists>d'\<in>set (docs (step rt (run rt evs) ev)). oid d' = oid d)
   \<and> (\<forall>d\<in>set (docs (run rt evs)). status d \<noteq> ''processing'' \<longrightarrow>
        (\<forall>d'\<in>set (docs (run rt (evs @ later))). oid d' = oid d \<longrightarrow> status d' = status d))"
proof -
  have inv: "invariant (run rt evs)" by (rule run_invariant)
  then have "\<forall>d\<in>set (docs (run rt evs)).
       status d = ''processing'' \<or> status d = ''completed'' \<or> status d = ''failed''"
    by (simp add: invariant_def status_enum_def)
  moreover from inv have "distinct (map oid (docs (run rt evs)))"
    by (simp add: invariant_def)
  moreover have "lifecycle_step (docs (run rt evs)) (docs (step rt (run rt evs) ev))"
    using step_invariant [OF inv] by blast
  moreover have "\<forall>d\<in>set (docs (run rt evs)). status d \<noteq> ''processing'' \<longrightarrow>
        (\<forall>d'\<in>set (docs (run rt (evs @ later))). oid d' = oid d \<longrightarrow> status d' = status d)"
    using terminal_final [of _ rt evs later] by blast
  ultimately show ?thesis
    unfolding lifecycle_step_def by blast
qed


lemma ex_events_first: "map status (docs (run ex_runtime (take 1 ex_events))) = [''processing'']"
  by code_simp

lemma ex_events_status: "map status (docs (run ex_runtime ex_events)) = [''completed'']"
  by code_simp

lemma ex_events_oid: "map oid (docs (run ex_runtime ex_events)) = [0]"
  by code_simp

lemma ex_events_reclose_oid:
  "map oid (docs (run ex_runtime (ex_events @ [Close 0 (Some 1) 7000]))) = [0]"
  by code_simp

lemma map_single: "map f xs = [a] \<Longrightarrow> \<exists>x. xs = [x] \<and> f x = a"
  by (cases xs) auto

theorem status_lifecycle_witness:
  "map status (docs (run ex_runtime (take 1 ex_events))) = [''processing'']
   \<and> map status (docs (run ex_runtime ex_events)) = [''completed'']
   \<and> map status (docs (run ex_runtime (ex_events @ [Close 0 (Some 1) 7000]))) = [''completed'']
   \<and> distinct (map oid (docs (run ex_runtime ex_events)))"
proof -
  note th = status_lifecycle [of ex_runtime ex_events "Close 0 (Some 1) 7000" "[Close 0 (Some 1) 7000]"]
  note final = th [THEN conjunct2, THEN conjunct2, THEN conjunct2, THEN conjunct2]
  note dist = th [THEN conjunct2, THEN conjunct1]
  from map_single [OF ex_events_status] obtain d where
    d: "docs (run ex_runtime ex_events) = [d]" "status d = ''completed''"
    by (elim exE conjE)
  from map_single [OF ex_events_oid] d(1) have d0: "oid d = 0" by simp
  from map_single [OF ex_events_reclose_oid] obtain d' where
    d': "docs (run ex_runtime (ex_events @ [Close 0 (Some 1) 7000])) = [d']" "oid d' = 0"
    by (elim exE conjE)
  from final d(1) have "status d \<noteq> ''processing'' \<longrightarrow>
        (\<forall>d'\<in>set (docs (run ex_runtime (ex_events @ [Close 0 (Some 1) 7000]))).
            oid d' = oid d \<longrightarrow> status d' = status d)"
    by simp
  with d(2) d0 d' have "status d' = ''completed''" by simp
  with d'(1) have "map status (docs (run ex_runtime (ex_events @ [Close 0 (Some 1) 7000]))) = [''completed'']"
    by simp
  with dist ex_events_first ex_events_status show ?thesis
    by (intro conjI)
qed

end
